(* ===== verification/Prelude.thy ===== *)
theory Prelude
  imports Main "HOL-Library.Char_ord" "HOL-Library.List_Lexorder" "HOL-Library.Sublist"
    "HOL-Library.Multiset"
begin

text \<open>
  Shared vocabulary of the development: the Python exceptions that the program can raise
  (as values of \<open>py_error\<close>, results of fallible code being \<open>py_error + 'a\<close>), decimal
  digits and their numeric value, the conversion of a natural number to its decimal
  string, and the lemmas on them that the component theories share. Characters are
  Latin-1 code points (Isabelle's \<open>char\<close> has 256 values); Python's \<open>str\<close> compares
  by code point, which is the order \<open>Char_ord\<close> puts on \<open>char\<close>, lifted to strings
  lexicographically by \<open>List_Lexorder\<close>.
\<close>

named_theorems py_simps "evaluation rules of the models of Python builtins"
named_theorems digit_simps "facts about decimal digit characters"

datatype py_error = ValueError | IndexError | TypeError | OSError | TclError

type_synonym 'a py_result = "py_error + 'a"

text \<open>Sequencing of fallible steps: the first exception propagates, as in Python.\<close>

definition py_bind :: "'a py_result \<Rightarrow> ('a \<Rightarrow> 'b py_result) \<Rightarrow> 'b py_result" where
  "py_bind r f = (case r of Inl e \<Rightarrow> Inl e | Inr a \<Rightarrow> f a)"

text \<open>\<open>xs[i]\<close> for a non-negative index: \<open>IndexError\<close> out of range.\<close>

definition py_index :: "'a list \<Rightarrow> nat \<Rightarrow> 'a py_result" where
  "py_index xs i = (if i < length xs then Inr (xs ! i) else Inl IndexError)"

lemma py_bind_simps [simp]: "py_bind (Inl e) f = Inl e" "py_bind (Inr a) f = f a"
  by (simp_all add: py_bind_def)

lemma py_bind_return [simp]: "py_bind r Inr = r"
  by (cases r) simp_all

lemma py_bind_assoc: "py_bind (py_bind r f) g = py_bind r (\<lambda>x. py_bind (f x) g)"
  by (cases r) simp_all

lemma py_bind_Inr: "py_bind r f = Inr b \<longleftrightarrow> (\<exists>a. r = Inr a \<and> f a = Inr b)"
  by (cases r) simp_all

lemma py_bind_Inl: "py_bind r f = Inl e \<longleftrightarrow> r = Inl e \<or> (\<exists>a. r = Inr a \<and> f a = Inl e)"
  by (cases r) simp_all

subsection \<open>Decimal digits\<close>

definition is_digit :: "char \<Rightarrow> bool" where
  "is_digit c \<longleftrightarrow> CHR ''0'' \<le> c \<and> c \<le> CHR ''9''"

definition digit_val :: "char \<Rightarrow> nat" where
  "digit_val c = of_char c - 48"

definition digit_char :: "nat \<Rightarrow> char" where
  "digit_char d = char_of (48 + d)"

definition nat_of_digits :: "string \<Rightarrow> nat" where
  "nat_of_digits s = foldl (\<lambda>n c. 10 * n + digit_val c) 0 s"

fun string_of_nat :: "nat \<Rightarrow> string" where
  "string_of_nat n =
     (if n < 10 then [digit_char n] else string_of_nat (n div 10) @ [digit_char (n mod 10)])"

declare string_of_nat.simps [simp del]

lemma digit_char_eval [simp]:
  "digit_char 0 = CHR ''0''" "digit_char 1 = CHR ''1''" "digit_char 2 = CHR ''2''"
  "digit_char 3 = CHR ''3''" "digit_char 4 = CHR ''4''" "digit_char 5 = CHR ''5''"
  "digit_char 6 = CHR ''6''" "digit_char 7 = CHR ''7''" "digit_char 8 = CHR ''8''"
  "digit_char 9 = CHR ''9''"
  by code_simp+

lemma is_digit_of_char [digit_simps]: "is_digit c \<longleftrightarrow> 48 \<le> (of_char c :: nat) \<and> (of_char c :: nat) \<le> 57"
  by (simp add: is_digit_def less_eq_char_def)

lemma digit_val_less [digit_simps]: "is_digit c \<Longrightarrow> digit_val c < 10"
  unfolding is_digit_of_char digit_val_def by linarith

lemma is_digit_digit_char [digit_simps]: "d < 10 \<Longrightarrow> is_digit (digit_char d)"
  by (simp add: is_digit_of_char digit_char_def)

lemma digit_val_digit_char [digit_simps]: "d < 10 \<Longrightarrow> digit_val (digit_char d) = d"
  by (simp add: digit_val_def digit_char_def)

lemma digit_char_digit_val [digit_simps]: "is_digit c \<Longrightarrow> digit_char (digit_val c) = c"
  by (simp add: is_digit_of_char digit_val_def digit_char_def)

lemma digit_val_inj: "is_digit a \<Longrightarrow> is_digit b \<Longrightarrow> digit_val a = digit_val b \<Longrightarrow> a = b"
  by (metis digit_char_digit_val)

lemma digit_less_iff [digit_simps]: "is_digit a \<Longrightarrow> is_digit b \<Longrightarrow> a < b \<longleftrightarrow> digit_val a < digit_val b"
  by (auto simp: is_digit_of_char digit_val_def less_char_def)

lemma nat_of_digits_Nil [simp]: "nat_of_digits [] = 0"
  by (simp add: nat_of_digits_def)

lemma nat_of_digits_single [simp]: "nat_of_digits [c] = digit_val c"
  by (simp add: nat_of_digits_def)

lemma nat_of_digits_snoc [simp]: "nat_of_digits (xs @ [c]) = 10 * nat_of_digits xs + digit_val c"
  by (simp add: nat_of_digits_def)

lemma nat_of_digits_Cons:
  "nat_of_digits (c # cs) = digit_val c * 10 ^ length cs + nat_of_digits cs"
  by (induction cs rule: rev_induct) (simp_all add: algebra_simps flip: append_Cons)

lemma nat_of_digits_less: "list_all is_digit cs \<Longrightarrow> nat_of_digits cs < 10 ^ length cs"
proof (induction cs rule: rev_induct)
  case Nil
  then show ?case by simp
next
  case (snoc c cs)
  then have "nat_of_digits cs + 1 \<le> 10 ^ length cs" and "digit_val c < 10"
    by (simp_all add: digit_val_less)
  then show ?case by simp
qed

text \<open>
  Two digit strings of the same length compare lexicographically as their numeric values
  compare: the fact that makes sorting zero-padded date strings chronological.
\<close>

lemma digits_less_iff_nat:
  assumes "length xs = length ys" "list_all is_digit xs" "list_all is_digit ys"
  shows "xs < ys \<longleftrightarrow> nat_of_digits xs < nat_of_digits ys"
  using assms
proof (induction xs ys rule: list_induct2)
  case Nil
  then show ?case by simp
next
  case (Cons x xs y ys)
  let ?k = "10 ^ length xs :: nat"
  have bx: "nat_of_digits xs < ?k" and by': "nat_of_digits ys < ?k"
    using Cons.prems Cons.hyps(1) nat_of_digits_less [of xs] nat_of_digits_less [of ys] by simp_all
  have dx: "is_digit x" and dy: "is_digit y" using Cons.prems by simp_all
  have "digit_val x * ?k + nat_of_digits xs < digit_val y * ?k + nat_of_digits ys
        \<longleftrightarrow> digit_val x < digit_val y \<or> digit_val x = digit_val y \<and> nat_of_digits xs < nat_of_digits ys"
  proof -
    have lt: "a < b \<Longrightarrow> a * ?k + u < b * ?k + v" if "u < ?k" for a b u v :: nat
    proof -
      assume "a < b"
      then have "a * ?k + ?k \<le> b * ?k" by (metis add.commute mult_Suc less_eq_Suc_le mult_le_mono1)
      with that show ?thesis by linarith
    qed
    show ?thesis
      using lt [OF bx, of "digit_val x" "digit_val y" "nat_of_digits ys"]
        lt [OF by', of "digit_val y" "digit_val x" "nat_of_digits xs"]
      by (cases "digit_val x" "digit_val y" rule: linorder_cases) auto
  qed
  with Cons dx dy show ?case
    by (auto simp: nat_of_digits_Cons digit_less_iff dest: digit_val_inj)
qed

lemma nat_of_digits_append:
  "nat_of_digits (xs @ ys) = nat_of_digits xs * 10 ^ length ys + nat_of_digits ys"
  by (induction ys rule: rev_induct) (simp_all add: nat_of_digits_def algebra_simps)

lemma string_of_nat_digits [digit_simps]: "list_all is_digit (string_of_nat n)"
  by (induction n rule: string_of_nat.induct) (subst string_of_nat.simps, simp add: is_digit_digit_char)

lemma string_of_nat_ne [simp]: "string_of_nat n \<noteq> []"
  by (subst string_of_nat.simps) simp

lemma nat_of_digits_string_of_nat [simp]: "nat_of_digits (string_of_nat n) = n"
  by (induction n rule: string_of_nat.induct) (subst string_of_nat.simps, simp add: digit_val_digit_char)

subsection \<open>Lists: \<open>those\<close> and stable sorting through a map\<close>

lemma those_eq_Some: "those xs = Some ys \<longleftrightarrow> xs = map Some ys"
proof (induction xs arbitrary: ys)
  case Nil
  then show ?case by auto
next
  case (Cons x xs)
  then show ?case by (cases ys) (auto split: option.splits)
qed

lemma those_eq_None: "those xs = None \<longleftrightarrow> None \<in> set xs"
  by (induction xs) (auto split: option.splits)

lemma insort_key_map: "insort_key f (h x) (map h ys) = map h (insort_key (\<lambda>y. f (h y)) x ys)"
  by (induction ys) simp_all

lemma sort_key_map: "sort_key f (map h xs) = map h (sort_key (\<lambda>y. f (h y)) xs)"
  by (induction xs) (simp_all add: insort_key_map comp_def)

lemma length_concat_ge: "list_all (\<lambda>t. k \<le> length t) ts \<Longrightarrow> k * length ts \<le> length (concat ts)"
  by (induction ts) auto

end
