(* ===== verification/Py_Builtins.thy ===== *)
theory Py_Builtins
  imports Prelude
begin

text \<open>
  The semantics of the Python \<open>str\<close> and \<open>int\<close> builtins that the program calls,
  restricted to Latin-1 text: \<open>str.strip()\<close>, the substring test \<open>in\<close>,
  \<open>str.find\<close>/\<open>str.rfind\<close> (index or \<open>-1\<close>), slicing \<open>s[i:j]\<close> with Python's
  clamping of negative and out-of-range indices, \<open>str.split(sep)\<close> with a one-character
  separator, \<open>str.lower()\<close>, \<open>str.endswith\<close>, \<open>int(s)\<close> (raising \<open>ValueError\<close>) and
  \<open>str(i)\<close>. Each is an executable function; the lemmas relate them to the library's
  declarative notions (\<open>sublist\<close>, \<open>prefix\<close>, \<open>suffix\<close>) and give the round trips
  \<open>int(str(i)) = i\<close> and \<open>sep.join(s.split(sep)) = s\<close> (\<open>py_join\<close> is \<open>sep.join\<close>).
\<close>

subsection \<open>Whitespace and strip\<close>

text \<open>\<open>str.isspace\<close> on the Latin-1 range: tab to carriage return, the four
  information separators, space, NEL and no-break space.\<close>

definition py_isspace :: "char \<Rightarrow> bool" where
  "py_isspace c =
     (let n = (of_char c :: nat) in (9 \<le> n \<and> n \<le> 13) \<or> (28 \<le> n \<and> n \<le> 32) \<or> n = 133 \<or> n = 160)"

definition py_strip :: "string \<Rightarrow> string" where
  "py_strip s = rev (dropWhile py_isspace (rev (dropWhile py_isspace s)))"

subsection \<open>Substrings: in, find, rfind\<close>

fun py_contains :: "string \<Rightarrow> string \<Rightarrow> bool" where
  "py_contains sub [] = (sub = [])"
| "py_contains sub (c # cs) = (prefix sub (c # cs) \<or> py_contains sub cs)"

fun find_idx :: "string \<Rightarrow> string \<Rightarrow> nat option" where
  "find_idx sub [] = (if sub = [] then Some 0 else None)"
| "find_idx sub (c # cs) = (if prefix sub (c # cs) then Some 0 else map_option Suc (find_idx sub cs))"

fun rfind_idx :: "string \<Rightarrow> string \<Rightarrow> nat option" where
  "rfind_idx sub [] = (if sub = [] then Some 0 else None)"
| "rfind_idx sub (c # cs) =
     (case rfind_idx sub cs of
        Some i \<Rightarrow> Some (Suc i)
      | None \<Rightarrow> (if prefix sub (c # cs) then Some 0 else None))"

definition py_find :: "string \<Rightarrow> string \<Rightarrow> int" where
  "py_find s sub = (case find_idx sub s of None \<Rightarrow> -1 | Some i \<Rightarrow> int i)"

definition py_rfind :: "string \<Rightarrow> string \<Rightarrow> int" where
  "py_rfind s sub = (case rfind_idx sub s of None \<Rightarrow> -1 | Some i \<Rightarrow> int i)"

subsection \<open>Slicing\<close>

definition py_slice_index :: "nat \<Rightarrow> int \<Rightarrow> nat" where
  "py_slice_index n k = nat (if k < 0 then max 0 (k + int n) else min k (int n))"

definition py_slice :: "string \<Rightarrow> int \<Rightarrow> int \<Rightarrow> string" where
  "py_slice s i j =
     (let a = py_slice_index (length s) i; b = py_slice_index (length s) j in take (b - a) (drop a s))"

subsection \<open>split, lower, endswith\<close>

fun py_split :: "char \<Rightarrow> string \<Rightarrow> string list" where
  "py_split sep [] = [[]]"
| "py_split sep (c # cs) =
     (let r = py_split sep cs in if c = sep then [] # r else (c # hd r) # tl r)"

fun py_join :: "char \<Rightarrow> string list \<Rightarrow> string" where
  "py_join sep [] = []"
| "py_join sep [w] = w"
| "py_join sep (w # ws) = w @ sep # py_join sep ws"

definition py_lower_char :: "char \<Rightarrow> char" where
  "py_lower_char c =
     (let n = (of_char c :: nat) in
      if (65 \<le> n \<and> n \<le> 90) \<or> (192 \<le> n \<and> n \<le> 222 \<and> n \<noteq> 215) then char_of (n + 32) else c)"

definition py_lower :: "string \<Rightarrow> string" where
  "py_lower s = map py_lower_char s"

definition py_endswith :: "string \<Rightarrow> string \<Rightarrow> bool" where
  "py_endswith s suf \<longleftrightarrow> suffix suf s"

subsection \<open>int() and str() on base-10 integers\<close>

text \<open>\<open>int(s)\<close>: surrounding whitespace stripped, an optional sign, then digits in which
  single underscores may separate digits; anything else raises \<open>ValueError\<close>.\<close>

definition py_int_body :: "string \<Rightarrow> bool" where
  "py_int_body b \<longleftrightarrow>
     b \<noteq> [] \<and> is_digit (hd b) \<and> is_digit (last b) \<and>
     list_all (\<lambda>c. is_digit c \<or> c = CHR ''_'') b \<and> \<not> py_contains ''__'' b"

definition py_int_sign :: "string \<Rightarrow> int \<times> string" where
  "py_int_sign t =
     (case t of
        [] \<Rightarrow> (1, [])
      | c # r \<Rightarrow> if c = CHR ''-'' then (-1, r) else if c = CHR ''+'' then (1, r) else (1, t))"

definition py_int :: "string \<Rightarrow> int py_result" where
  "py_int s =
     (let (sg, b) = py_int_sign (py_strip s) in
      if py_int_body b then Inr (sg * int (nat_of_digits (filter is_digit b))) else Inl ValueError)"

definition py_str_int :: "int \<Rightarrow> string" where
  "py_str_int i = (if i < 0 then CHR ''-'' # string_of_nat (nat (- i)) else string_of_nat (nat i))"


subsection \<open>Lemmas: substring search\<close>

lemma py_contains_iff_sublist [py_simps]: "py_contains sub s \<longleftrightarrow> sublist sub s"
  by (induction s) (auto simp: sublist_Cons_right)

lemma find_idx_Some: "find_idx sub s = Some i \<Longrightarrow> prefix sub (drop i s) \<and> i \<le> length s"
  by (induction s arbitrary: i) (auto split: if_splits)

lemma find_idx_prefix [py_simps]: "prefix sub s \<Longrightarrow> find_idx sub s = Some 0"
  by (cases s) auto

lemma find_idx_append_no_hd:
  assumes "sub \<noteq> []" "hd sub \<notin> set xs"
  shows "find_idx sub (xs @ ys) = map_option ((+) (length xs)) (find_idx sub ys)"
  using assms
proof (induction xs)
  case Nil
  then show ?case by (simp add: option.map_ident)
next
  case (Cons x xs)
  have "\<not> prefix sub (x # xs @ ys)"
    using Cons.prems by (cases sub) auto
  with Cons show ?case by (simp add: option.map_comp comp_def)
qed

lemma rfind_idx_None: "rfind_idx sub s = None \<Longrightarrow> \<not> prefix sub (drop j s)"
proof (induction s arbitrary: j)
  case Nil
  then show ?case by (simp split: if_splits)
next
  case (Cons c cs)
  then show ?case by (cases j) (auto split: option.splits if_splits)
qed

lemma rfind_idx_Some:
  "rfind_idx sub s = Some i \<Longrightarrow>
     prefix sub (drop i s) \<and> (\<forall>j. i < j \<and> j \<le> length s \<longrightarrow> \<not> prefix sub (drop j s))"
proof (induction s arbitrary: i)
  case Nil
  then show ?case by (simp split: if_splits)
next
  case (Cons c cs)
  show ?case
  proof (cases "rfind_idx sub cs")
    case None
    with Cons.prems have "i = 0" "prefix sub (c # cs)" by (simp_all split: if_splits)
    moreover have "\<not> prefix sub (drop j (c # cs))" if "0 < j" for j
      using that rfind_idx_None [OF None, of "j - 1"] by (cases j) simp_all
    ultimately show ?thesis by simp
  next
    case (Some i')
    have "\<not> prefix sub (drop j (c # cs))" if "Suc i' < j" "j \<le> Suc (length cs)" for j
      using that Cons.IH [OF Some] by (cases j) auto
    with Cons.prems Cons.IH [OF Some] Some show ?thesis by auto
  qed
qed

lemma rfind_idx_sublist: "sublist sub s \<Longrightarrow> \<exists>i. rfind_idx sub s = Some i"
proof -
  assume "sublist sub s"
  then obtain ps ss where "s = ps @ sub @ ss" by (auto simp: sublist_def)
  then have "prefix sub (drop (length ps) s)" by simp
  then show ?thesis using rfind_idx_None by fastforce
qed

subsection \<open>Lemmas: slicing and strip\<close>

lemma py_slice_nat [py_simps]:
  "i \<le> length s \<Longrightarrow> j \<le> length s \<Longrightarrow> py_slice s (int i) (int j) = take (j - i) (drop i s)"
  by (simp add: py_slice_def py_slice_index_def)

lemma py_strip_decomp:
  "s = takeWhile py_isspace s @ py_strip s @ rev (takeWhile py_isspace (rev (dropWhile py_isspace s)))"
proof -
  let ?r = "dropWhile py_isspace s"
  have "?r = rev (dropWhile py_isspace (rev ?r)) @ rev (takeWhile py_isspace (rev ?r))"
    by (metis rev_append rev_rev_ident takeWhile_dropWhile_id)
  then show ?thesis
    by (metis py_strip_def append.assoc takeWhile_dropWhile_id)
qed

lemma digit_not_space [digit_simps]: "is_digit c \<Longrightarrow> \<not> py_isspace c"
  by (simp add: py_isspace_def is_digit_of_char Let_def)

lemma py_strip_id: "list_all (\<lambda>c. \<not> py_isspace c) s \<Longrightarrow> py_strip s = s"
proof -
  assume a: "list_all (\<lambda>c. \<not> py_isspace c) s"
  then have "dropWhile py_isspace s = s" by (cases s) auto
  moreover from a have "dropWhile py_isspace (rev s) = rev s" by (cases "rev s") (auto simp: list_all_iff)
  ultimately show ?thesis by (simp add: py_strip_def)
qed

lemma py_strip_id_ends:
  assumes "s \<noteq> []" "\<not> py_isspace (hd s)" "\<not> py_isspace (last s)"
  shows "py_strip s = s"
proof -
  have "dropWhile py_isspace s = s" using assms(1,2) by (cases s) auto
  moreover have "dropWhile py_isspace (rev s) = rev s"
    using assms(1,3) by (cases "rev s") (auto simp: hd_rev [symmetric])
  ultimately show ?thesis by (simp add: py_strip_def)
qed

lemma py_isspace_space [simp]: "py_isspace CHR '' ''"
  by (simp add: py_isspace_def)

lemma py_strip_Cons_space: "py_isspace c \<Longrightarrow> py_strip (c # s) = py_strip s"
  by (simp add: py_strip_def)

lemma py_strip_snoc_space: "py_isspace c \<Longrightarrow> py_strip (s @ [c]) = py_strip s"
proof (cases "\<forall>x \<in> set s. py_isspace x")
  case True
  assume c: "py_isspace c"
  have d1: "dropWhile py_isspace (s @ [c]) = []" using True c by (simp add: dropWhile_eq_Nil_conv)
  have d2: "dropWhile py_isspace s = []" using True by (simp add: dropWhile_eq_Nil_conv)
  show ?thesis unfolding py_strip_def using d1 d2 by (simp del: dropWhile_eq_Nil_conv)
next
  case False
  assume c: "py_isspace c"
  from False obtain x where "x \<in> set s" "\<not> py_isspace x" by blast
  then have "dropWhile py_isspace (s @ [c]) = dropWhile py_isspace s @ [c]" by (rule dropWhile_append1)
  with c show ?thesis by (simp add: py_strip_def)
qed

lemma prefix_drop_length:
  "prefix t (drop j s) \<Longrightarrow> length t \<le> length s - j"
  by (metis length_drop prefix_length_le)

text \<open>No occurrence of \<open>t\<close> starts after its own occurrence in \<open>p @ t @ c # r\<close> when
  the separator \<open>c\<close> is not in \<open>t\<close> and \<open>t\<close> does not occur in \<open>r\<close>.\<close>

lemma no_occurrence_after:
  assumes "c \<notin> set t" "t \<noteq> []" "\<not> sublist t r" "length p < j"
  shows "\<not> prefix t (drop j (p @ t @ c # r))"
proof
  assume pre: "prefix t (drop j (p @ t @ c # r))"
  let ?k = "j - length p"
  have k: "0 < ?k" "drop j (p @ t @ c # r) = drop ?k (t @ c # r)" using assms(4) by simp_all
  show False
  proof (cases "?k \<le> length t")
    case True
    then have "drop ?k (t @ c # r) = drop ?k t @ c # r" by simp
    with pre k obtain zs where "t @ zs = drop ?k t @ c # r" by (auto simp: prefix_def)
    moreover have "length (drop ?k t) < length t" using True k(1) assms(2) by simp
    ultimately have "t ! length (drop ?k t) = c" by (metis nth_append nth_append_length)
    then have "c \<in> set t" using \<open>length (drop ?k t) < length t\<close> nth_mem by metis
    with assms(1) show False by simp
  next
    case False
    then have "drop ?k (t @ c # r) = drop (?k - length t - 1) r"
      by (simp add: drop_Cons' Suc_diff_Suc)
    with pre k have "prefix t (drop (?k - length t - 1) r)" by simp
    then have "sublist t r" by (metis prefix_imp_sublist sublist_drop sublist_order.dual_order.trans)
    with assms(3) show False by simp
  qed
qed

lemma rfind_idx_own:
  assumes "c \<notin> set t" "t \<noteq> []" "\<not> sublist t r"
  shows "rfind_idx t (p @ t @ c # r) = Some (length p)"
proof -
  let ?s = "p @ t @ c # r"
  have at: "prefix t (drop (length p) ?s)" by simp
  then obtain i where i: "rfind_idx t ?s = Some i" using rfind_idx_sublist
    by (metis prefix_imp_sublist sublist_drop sublist_order.dual_order.trans)
  from rfind_idx_Some [OF i] have "prefix t (drop i ?s)"
    and last: "\<forall>j. i < j \<and> j \<le> length ?s \<longrightarrow> \<not> prefix t (drop j ?s)" by blast+
  have "\<not> length p < i" using no_occurrence_after [OF assms] \<open>prefix t (drop i ?s)\<close> by blast
  moreover have "\<not> i < length p" using last at by force
  ultimately show ?thesis using i by simp
qed

lemma rfind_idx_suffix: "t \<noteq> [] \<Longrightarrow> rfind_idx t (x @ t) = Some (length x)"
proof -
  assume ne: "t \<noteq> []"
  have at: "prefix t (drop (length x) (x @ t))" by simp
  then obtain i where i: "rfind_idx t (x @ t) = Some i" using rfind_idx_sublist
    by (metis prefix_imp_sublist sublist_drop sublist_order.dual_order.trans)
  from rfind_idx_Some [OF i] have pi: "prefix t (drop i (x @ t))"
    and last: "\<forall>j. i < j \<and> j \<le> length (x @ t) \<longrightarrow> \<not> prefix t (drop j (x @ t))" by blast+
  from pi have "length t \<le> length (x @ t) - i" by (rule prefix_drop_length)
  then have "i \<le> length x" using ne by (cases t) auto
  moreover have "\<not> i < length x" using last at by force
  ultimately show ?thesis using i by simp
qed

subsection \<open>Lemmas: split\<close>

lemma py_split_ne [simp]: "py_split sep s \<noteq> []"
  by (cases s) (simp_all add: Let_def)

lemma py_split_append_sep:
  "py_split sep (xs @ sep # ys) = py_split sep xs @ py_split sep ys"
  by (induction xs) (simp_all add: Let_def)

lemma py_split_no_sep: "w \<in> set (py_split sep s) \<Longrightarrow> sep \<notin> set w"
proof (induction s arbitrary: w)
  case Nil
  then show ?case by simp
next
  case (Cons c cs)
  obtain r rs where r: "py_split sep cs = r # rs" by (cases "py_split sep cs") simp_all
  with Cons show ?case by (auto simp: Let_def split: if_splits)
qed

lemma py_join_Cons:
  "py_join sep (x # ys) = x @ (if ys = [] then [] else sep # py_join sep ys)"
  by (cases ys) simp_all

lemma py_split_join: "py_join sep (py_split sep s) = s"
proof (induction s)
  case Nil
  then show ?case by simp
next
  case (Cons c cs)
  obtain r rs where r: "py_split sep cs = r # rs" by (cases "py_split sep cs") simp_all
  with Cons show ?case by (auto simp: Let_def py_join_Cons)
qed

lemma py_split_no_sep_id: "sep \<notin> set s \<Longrightarrow> py_split sep s = [s]"
  by (induction s) (auto simp: Let_def)

lemma py_endswith_drop [py_simps]:
  "py_endswith s suf \<longleftrightarrow> length suf \<le> length s \<and> drop (length s - length suf) s = suf"
proof
  assume "py_endswith s suf"
  then obtain zs where "s = zs @ suf" by (auto simp: py_endswith_def suffix_def)
  then show "length suf \<le> length s \<and> drop (length s - length suf) s = suf" by simp
next
  assume "length suf \<le> length s \<and> drop (length s - length suf) s = suf"
  then have "s = take (length s - length suf) s @ suf" by (metis append_take_drop_id)
  then show "py_endswith s suf" by (auto simp: py_endswith_def suffix_def)
qed

subsection \<open>Lemmas: int() and str()\<close>

lemma py_int_digits [py_simps]:
  assumes "s \<noteq> []" "list_all is_digit s"
  shows "py_int s = Inr (int (nat_of_digits s))"
proof -
  have sp: "py_strip s = s"
    using assms(2) by (intro py_strip_id) (auto simp: list_all_iff digit_not_space)
  have "py_int_sign s = (1, s)"
    using assms by (cases s) (auto simp: py_int_sign_def is_digit_def)
  moreover have "CHR ''_'' \<notin> set s" using assms(2) by (auto simp: list_all_iff is_digit_def)
  then have "\<not> sublist ''__'' s" by (auto dest: set_mono_sublist)
  moreover have "filter is_digit s = s" using assms(2) by (simp add: list_all_iff)
  ultimately show ?thesis
    using assms sp by (auto simp: py_int_def py_int_body_def py_contains_iff_sublist list_all_iff last_in_set)
qed

text \<open>\<open>int()\<close> succeeds only on text made of digits, underscores, signs and whitespace.\<close>

lemma py_int_chars:
  assumes "py_int s = Inr i" "c \<in> set s"
  shows "is_digit c \<or> c = CHR ''_'' \<or> c = CHR ''-'' \<or> c = CHR ''+'' \<or> py_isspace c"
proof -
  obtain sg b where sb: "py_int_sign (py_strip s) = (sg, b)" by fastforce
  with assms(1) have body: "py_int_body b" by (simp add: py_int_def split: if_splits)
  have strip: "py_strip s = [] \<or> (\<exists>x. py_strip s = x # b \<and> (x = CHR ''-'' \<or> x = CHR ''+'')) \<or> py_strip s = b"
    using sb by (auto simp: py_int_sign_def split: list.splits if_splits)
  from py_strip_decomp [of s] assms(2) have
    "c \<in> set (takeWhile py_isspace s) \<or> c \<in> set (py_strip s) \<or>
     c \<in> set (rev (takeWhile py_isspace (rev (dropWhile py_isspace s))))"
    by (metis Un_iff set_append)
  then show ?thesis
  proof (elim disjE)
    assume "c \<in> set (py_strip s)"
    with strip body show ?thesis by (auto simp: py_int_body_def list_all_iff)
  qed (auto dest: set_takeWhileD)
qed

subsection \<open>Lemmas: int() of str()\<close>

lemma py_int_body_string_of_nat: "py_int_body (string_of_nat n)"
proof -
  let ?s = "string_of_nat n"
  have d: "list_all is_digit ?s" by (rule string_of_nat_digits)
  then have "CHR ''_'' \<notin> set ?s" by (auto simp: list_all_iff is_digit_def)
  then have "\<not> sublist ''__'' ?s" by (auto dest: set_mono_sublist)
  with d show ?thesis
    by (auto simp: py_int_body_def py_contains_iff_sublist list_all_iff)
qed

theorem py_int_py_str_int [py_simps]: "py_int (py_str_int i) = Inr i"
proof -
  let ?s = "string_of_nat (nat \<bar>i\<bar>)"
  have d: "list_all is_digit ?s" by (rule string_of_nat_digits)
  have m: "\<not> py_isspace (CHR ''-'')" by (simp add: py_isspace_def)
  have sp: "list_all (\<lambda>c. \<not> py_isspace c) (CHR ''-'' # ?s)" "list_all (\<lambda>c. \<not> py_isspace c) ?s"
    using d m by (auto simp: list_all_iff digit_not_space)
  have hd: "py_int_sign ?s = (1, ?s)"
    using d string_of_nat_ne [of "nat \<bar>i\<bar>"]
    by (cases ?s) (auto simp: py_int_sign_def is_digit_def)
  have f: "filter is_digit ?s = ?s" using d by (simp add: list_all_iff)
  show ?thesis
  proof (cases "i < 0")
    case True
    then show ?thesis
      using sp(1) f py_int_body_string_of_nat [of "nat \<bar>i\<bar>"]
      by (simp add: py_str_int_def py_int_def py_strip_id py_int_sign_def)
  next
    case False
    then show ?thesis
      using sp(2) f hd py_int_body_string_of_nat [of "nat \<bar>i\<bar>"]
      by (simp add: py_str_int_def py_int_def py_strip_id)
  qed
qed

end
