(* ===== verification/Statement_Date.thy ===== *)
theory Statement_Date
  imports Py_Builtins
begin

text \<open>
  The Statement Date Resolver, \<open>extract_statement_date\<close> (src/pdf-2-excel.py, lines
  82--88): \<open>re.search(r'(\d{4})(\d{2})(\d{2})', filename)\<close> finds the leftmost run of
  eight digits, which is rendered as \<open>YYYY-MM-DD\<close>; without such a run the filename
  itself is returned. The result is used as the sort key of the statement files and,
  downstream, parsed again by the Transaction Year Resolver. The lemmas characterise the
  search as "leftmost eight-digit window", show that the result is the filename exactly
  when it has no such window, and that the string order of two resolved dates is the
  numeric (chronological) order of their \<open>YYYYMMDD\<close> runs.
\<close>

subsection \<open>Definitions\<close>

text \<open>An eight-digit window starts here: \<open>\d{4}\d{2}\d{2}\<close> matched at the front of \<open>s\<close>.\<close>

definition run8_at :: "string \<Rightarrow> bool" where
  "run8_at s \<longleftrightarrow> 8 \<le> length s \<and> list_all is_digit (take 8 s)"

text \<open>\<open>re.search\<close>: try each start position from the left; the match is the eight
  characters there (groups one to three are its characters 0--3, 4--5 and 6--7).\<close>

fun search_date_run :: "string \<Rightarrow> string option" where
  "search_date_run [] = None"
| "search_date_run (c # cs) =
     (if run8_at (c # cs) then Some (take 8 (c # cs)) else search_date_run cs)"

definition format_ymd :: "string \<Rightarrow> string" where
  "format_ymd ds = take 4 ds @ ''-'' @ take 2 (drop 4 ds) @ ''-'' @ drop 6 ds"

definition extract_statement_date :: "string \<Rightarrow> string" where
  "extract_statement_date filename =
     (case search_date_run filename of
        Some ds \<Rightarrow> format_ymd ds
      | None \<Rightarrow> filename)"

subsection \<open>The search is the leftmost eight-digit window\<close>

lemma run8_at_append: "run8_at s \<Longrightarrow> run8_at (s @ t)"
  by (simp add: run8_at_def)

lemma run8_at_take: "run8_at s \<Longrightarrow> take 8 (s @ t) = take 8 s"
  by (simp add: run8_at_def)

lemma run8_at_long: "8 \<le> length s \<Longrightarrow> run8_at (s @ t) \<longleftrightarrow> run8_at s"
  by (simp add: run8_at_def)

lemma all_drop_Cons: "(\<forall>i. P (drop i (c # cs))) \<longleftrightarrow> P (c # cs) \<and> (\<forall>i. P (drop i cs))"
proof
  assume "\<forall>i. P (drop i (c # cs))"
  then show "P (c # cs) \<and> (\<forall>i. P (drop i cs))" by (metis drop0 drop_Suc_Cons)
next
  assume "P (c # cs) \<and> (\<forall>i. P (drop i cs))"
  then show "\<forall>i. P (drop i (c # cs))" by (metis drop0 drop_Suc_Cons not0_implies_Suc)
qed

lemma search_date_run_run8: "run8_at s \<Longrightarrow> search_date_run s = Some (take 8 s)"
  by (cases s) (simp_all add: run8_at_def)

lemma search_date_run_None: "search_date_run s = None \<longleftrightarrow> (\<forall>i. \<not> run8_at (drop i s))"
proof (induction s)
  case Nil
  then show ?case by (simp add: run8_at_def)
next
  case (Cons c cs)
  then show ?case by (simp add: all_drop_Cons [where P = "\<lambda>s. \<not> run8_at s"])
qed

lemma search_date_run_Some:
  "search_date_run s = Some ds \<Longrightarrow>
     \<exists>i. ds = take 8 (drop i s) \<and> run8_at (drop i s) \<and> (\<forall>j < i. \<not> run8_at (drop j s))"
proof (induction s)
  case Nil
  then show ?case by simp
next
  case (Cons c cs)
  show ?case
  proof (cases "run8_at (c # cs)")
    case True
    with Cons.prems show ?thesis by (intro exI [of _ 0]) simp
  next
    case False
    with Cons obtain i where "ds = take 8 (drop i cs)" "run8_at (drop i cs)"
      "\<forall>j < i. \<not> run8_at (drop j cs)" by auto
    with False show ?thesis
      by (intro exI [of _ "Suc i"]) (auto simp: less_Suc_eq_0_disj)
  qed
qed

lemma search_date_run_digits:
  "search_date_run s = Some ds \<Longrightarrow> length ds = 8 \<and> list_all is_digit ds"
  by (auto dest!: search_date_run_Some simp: run8_at_def)

text \<open>A run placed after a prefix in which no window starts is the one found.\<close>

lemma search_date_run_first:
  assumes "run8_at d" "length d = 8" "\<forall>i < length pre. \<not> run8_at (drop i (pre @ d))"
  shows "search_date_run (pre @ d @ post) = Some d"
  using assms(3)
proof (induction pre)
  case Nil
  from assms(1,2) show ?case
    by (simp add: search_date_run_run8 run8_at_append run8_at_take)
next
  case (Cons c pre)
  have "\<not> run8_at (c # pre @ d)" using Cons.prems [rule_format, of 0] by simp
  then have "\<not> run8_at (c # pre @ d @ post)"
    using run8_at_long [of "c # pre @ d" post] assms(2) by simp
  moreover have "\<forall>i < length pre. \<not> run8_at (drop i (pre @ d))"
  proof (intro allI impI)
    fix i assume "i < length pre"
    then show "\<not> run8_at (drop i (pre @ d))" using Cons.prems [rule_format, of "Suc i"] by simp
  qed
  ultimately show ?case using Cons.IH by simp
qed

subsection \<open>The rendered date\<close>

lemma format_ymd_nth4: "length ds = 8 \<Longrightarrow> format_ymd ds ! 4 = CHR ''-''"
  by (simp add: format_ymd_def nth_append)

lemma format_ymd_length: "length ds = 8 \<Longrightarrow> length (format_ymd ds) = 10"
  by (simp add: format_ymd_def)

text \<open>No eight-digit window survives in a rendered date: every window of a ten-character
  string covers its fifth character, which is a dash.\<close>

lemma format_ymd_no_run8: "length ds = 8 \<Longrightarrow> \<not> run8_at (drop i (format_ymd ds))"
proof
  assume len: "length ds = 8" and r: "run8_at (drop i (format_ymd ds))"
  then have "8 \<le> 10 - i" by (simp add: run8_at_def format_ymd_length)
  then have "i \<le> 2" by linarith
  then have "take 8 (drop i (format_ymd ds)) ! (4 - i) = format_ymd ds ! 4"
    using len by (simp add: format_ymd_length)
  moreover have "4 - i < length (take 8 (drop i (format_ymd ds)))"
    using \<open>i \<le> 2\<close> len by (simp add: format_ymd_length)
  ultimately have "is_digit (format_ymd ds ! 4)"
    using r by (metis list_all_length run8_at_def)
  then show False using len by (simp add: format_ymd_nth4 is_digit_def)
qed

lemma less_append_same_length:
  "length a = length a' \<Longrightarrow> (a @ b < a' @ b') \<longleftrightarrow> (a < a' \<or> a = a' \<and> b < b')"
  by (induction a a' rule: list_induct2) auto

lemma format_ymd_less:
  assumes "length x = 8" "length y = 8"
  shows "format_ymd x < format_ymd y \<longleftrightarrow> x < y"
proof -
  have split: "z = take 4 z @ take 2 (drop 4 z) @ drop 6 z" for z :: string
  proof -
    have "take 2 (drop 4 z) @ drop 2 (drop 4 z) = drop 4 z" by (rule append_take_drop_id)
    then show ?thesis by simp
  qed
  note dx = split [of x] and dy = split [of y]
  have "x < y \<longleftrightarrow> take 4 x @ take 2 (drop 4 x) @ drop 6 x < take 4 y @ take 2 (drop 4 y) @ drop 6 y"
    using dx dy by simp
  then show ?thesis
    using assms by (simp add: format_ymd_def less_append_same_length)
qed

subsection \<open>Claims\<close>

text \<open>C16. For a filename whose leftmost eight-digit run is \<open>YYYYMMDD\<close>, the resolver
  returns exactly \<open>YYYY-MM-DD\<close>, whatever follows the run.\<close>

theorem extract_statement_date_run:
  assumes "length d = 8" "list_all is_digit d"
    and "\<forall>i < length pre. \<not> run8_at (drop i (pre @ d))"
  shows "extract_statement_date (pre @ d @ post) =
           take 4 d @ ''-'' @ take 2 (drop 4 d) @ ''-'' @ drop 6 d"
proof -
  have "run8_at d" using assms(1,2) by (simp add: run8_at_def)
  then have "search_date_run (pre @ d @ post) = Some d"
    using assms(1,3) by (rule search_date_run_first)
  then show ?thesis by (simp add: extract_statement_date_def format_ymd_def)
qed

theorem extract_statement_date_run_witness:
  "extract_statement_date (''chase_'' @ ''20240314'' @ ''.pdf'') = ''2024-03-14''"
proof -
  have "\<forall>i < length ''chase_''. \<not> run8_at (drop i (''chase_'' @ ''20240314''))"
    by (simp add: run8_at_def is_digit_def less_Suc_eq numeral_eq_Suc All_less_Suc)
  moreover have "list_all is_digit ''20240314''" by (simp add: is_digit_def)
  ultimately show ?thesis
    using extract_statement_date_run [of "''20240314''" "''chase_''" "''.pdf''"] by simp
qed

text \<open>C17. The resolver returns the filename unchanged exactly when the filename has no
  run of eight digits: a filename without a run is its own sort key, and a filename with
  one is always rewritten.\<close>

theorem extract_statement_date_verbatim:
  "extract_statement_date fn = fn \<longleftrightarrow> (\<forall>i. \<not> run8_at (drop i fn))"
proof
  assume eq: "extract_statement_date fn = fn"
  show "\<forall>i. \<not> run8_at (drop i fn)"
  proof (cases "search_date_run fn")
    case None
    then show ?thesis by (simp add: search_date_run_None)
  next
    case (Some ds)
    then have "length ds = 8" by (simp add: search_date_run_digits)
    moreover from Some eq have "format_ymd ds = fn" by (simp add: extract_statement_date_def)
    ultimately show ?thesis by (metis format_ymd_no_run8)
  qed
next
  assume "\<forall>i. \<not> run8_at (drop i fn)"
  then show "extract_statement_date fn = fn"
    by (simp add: extract_statement_date_def flip: search_date_run_None)
qed

theorem extract_statement_date_verbatim_witness:
  "extract_statement_date ''statement.pdf'' = ''statement.pdf''"
proof -
  have n: "search_date_run ''statement.pdf'' = None"
    by (simp add: run8_at_def is_digit_def)
  have "\<forall>i. \<not> run8_at (drop i ''statement.pdf'')"
    using n search_date_run_None by blast
  then show ?thesis using extract_statement_date_verbatim [of "''statement.pdf''"] by simp
qed

text \<open>Sorting statement files by their resolved dates (Python's string order) is
  chronological: for two filenames with eight-digit runs, the resolved dates compare as
  the numbers \<open>YYYYMMDD\<close> do.\<close>

lemma statement_date_order_chronological:
  assumes "search_date_run a = Some ra" "search_date_run b = Some rb"
  shows "extract_statement_date a < extract_statement_date b \<longleftrightarrow> nat_of_digits ra < nat_of_digits rb"
proof -
  have "length ra = 8" "list_all is_digit ra" "length rb = 8" "list_all is_digit rb"
    using assms by (simp_all add: search_date_run_digits)
  then show ?thesis
    using assms by (simp add: extract_statement_date_def format_ymd_less digits_less_iff_nat)
qed

lemma statement_date_order_chronological_example:
  "extract_statement_date ''stmt20231231.pdf'' < extract_statement_date ''stmt20240105.pdf''"
proof -
  have a: "search_date_run ''stmt20231231.pdf'' = Some ''20231231''"
    by (simp add: run8_at_def is_digit_def)
  have b: "search_date_run ''stmt20240105.pdf'' = Some ''20240105''"
    by (simp add: run8_at_def is_digit_def)
  have "nat_of_digits ''20231231'' < nat_of_digits ''20240105''"
    by (simp add: nat_of_digits_def digit_val_def)
  then show ?thesis using statement_date_order_chronological [OF a b] by simp
qed

end
