(* ===== verification/Transaction_Year.thy ===== *)
theory Transaction_Year
  imports Statement_Date
begin

text \<open>
  The Transaction Year Resolver, \<open>determine_transaction_year\<close> (src/pdf-2-excel.py,
  lines 90--106). It reads the month of an \<open>MM/DD\<close> transaction date and the year and
  month of a \<open>YYYY-MM-DD\<close> statement date with \<open>split\<close> and \<open>int()\<close>, and returns
  \<open>str\<close> of the statement year, moved back one year for a December transaction on a
  January statement and forward one year for a January transaction on a December
  statement. \<open>int()\<close> and the index \<open>[1]\<close> can raise; the model returns those
  exceptions. \<open>rollover_year\<close> is the rule of the specification (section 4.2) on
  numbers; the lemmas show that the code computes it on well-formed dates, that its
  result places the transaction in the month of the statement or the month before, that
  the year moves by at most one, and that a statement date which is a raw filename
  (the resolver's fallback) makes every call raise.
\<close>

subsection \<open>Definitions\<close>

text \<open>\<open>s.split(sep)[0]\<close> is \<open>hd\<close>: \<open>split\<close> never returns an empty list.\<close>

definition determine_transaction_year :: "string \<Rightarrow> string \<Rightarrow> string py_result" where
  "determine_transaction_year transaction_date statement_date =
     py_bind (py_int (hd (py_split CHR ''/'' transaction_date))) (\<lambda>trans_month.
     py_bind (py_int (hd (py_split CHR ''-'' statement_date))) (\<lambda>statement_year.
     py_bind (py_index (py_split CHR ''-'' statement_date) 1) (\<lambda>month_text.
     py_bind (py_int month_text) (\<lambda>statement_month.
       if statement_month = 1 \<and> trans_month = 12 then Inr (py_str_int (statement_year - 1))
       else if statement_month = 12 \<and> trans_month = 1 then Inr (py_str_int (statement_year + 1))
       else Inr (py_str_int statement_year)))))"

text \<open>The rule of the specification, on numbers.\<close>

definition rollover_year :: "int \<Rightarrow> int \<Rightarrow> int \<Rightarrow> int" where
  "rollover_year trans_month stmt_year stmt_month =
     (if stmt_month = 1 \<and> trans_month = 12 then stmt_year - 1
      else if stmt_month = 12 \<and> trans_month = 1 then stmt_year + 1
      else stmt_year)"

abbreviation ymd_year :: "string \<Rightarrow> int" where
  "ymd_year ds \<equiv> int (nat_of_digits (take 4 ds))"

abbreviation ymd_month :: "string \<Rightarrow> int" where
  "ymd_month ds \<equiv> int (nat_of_digits (take 2 (drop 4 ds)))"

subsection \<open>Lemmas\<close>

lemma py_int_Inl: "py_int s = Inl e \<Longrightarrow> e = ValueError"
  by (simp add: py_int_def split: prod.splits if_splits)

lemma py_split_format_ymd:
  assumes "length ds = 8" "list_all is_digit ds"
  shows "py_split CHR ''-'' (format_ymd ds) = [take 4 ds, take 2 (drop 4 ds), drop 6 ds]"
proof -
  have "CHR ''-'' \<notin> set ds" using assms(2) by (auto simp: list_all_iff is_digit_def)
  then have "CHR ''-'' \<notin> set (take 4 ds)" "CHR ''-'' \<notin> set (take 2 (drop 4 ds))"
    "CHR ''-'' \<notin> set (drop 6 ds)" by (auto dest: in_set_takeD in_set_dropD)
  then show ?thesis
    by (simp add: format_ymd_def py_split_append_sep py_split_no_sep_id)
qed

lemma hd_py_split_month:
  "CHR ''/'' \<notin> set mm \<Longrightarrow> hd (py_split CHR ''/'' (mm @ CHR ''/'' # dd)) = mm"
  by (simp add: py_split_append_sep py_split_no_sep_id)

lemma digits_no_slash: "list_all is_digit mm \<Longrightarrow> CHR ''/'' \<notin> set mm"
  by (auto simp: list_all_iff is_digit_def)

lemma determine_transaction_year_ymd:
  assumes "mm \<noteq> []" "list_all is_digit mm" "length ds = 8" "list_all is_digit ds"
  shows "determine_transaction_year (mm @ CHR ''/'' # dd) (format_ymd ds) =
           Inr (py_str_int (rollover_year (int (nat_of_digits mm)) (ymd_year ds) (ymd_month ds)))"
proof -
  have ne: "take 4 ds \<noteq> []" "take 2 (drop 4 ds) \<noteq> []" using assms(3) by auto
  have dg: "list_all is_digit (take 4 ds)" "list_all is_digit (take 2 (drop 4 ds))"
    using assms(4) by (auto simp: list_all_iff dest: in_set_takeD in_set_dropD)
  show ?thesis
    using assms ne dg
    by (simp add: determine_transaction_year_def py_split_format_ymd hd_py_split_month
        digits_no_slash py_int_digits py_index_def rollover_year_def)
qed

subsection \<open>Claims\<close>

text \<open>C15. On a transaction date \<open>MM/DD\<close> and a statement date \<open>YYYY-MM-DD\<close> rendered
  by the Statement Date Resolver, the code returns the decimal text of the year that the
  specification's rule gives (refinement of the rule by the string-level code).\<close>

theorem determine_transaction_year_spec:
  assumes "mm \<noteq> []" "list_all is_digit mm" "length ds = 8" "list_all is_digit ds"
  shows "determine_transaction_year (mm @ CHR ''/'' # dd) (format_ymd ds) =
           Inr (py_str_int (rollover_year (int (nat_of_digits mm)) (ymd_year ds) (ymd_month ds)))"
  using assms by (rule determine_transaction_year_ymd)

theorem determine_transaction_year_spec_witness:
  "determine_transaction_year ''12/15'' ''2024-01-10'' = Inr ''2023'' \<and>
   determine_transaction_year ''01/05'' ''2024-12-20'' = Inr ''2025'' \<and>
   determine_transaction_year ''06/10'' ''2024-03-01'' = Inr ''2024''"
proof -
  have d: "list_all is_digit ''12''" "list_all is_digit ''01''" "list_all is_digit ''06''"
    "list_all is_digit ''20240110''" "list_all is_digit ''20241220''" "list_all is_digit ''20240301''"
    by (simp_all add: is_digit_def)
  have f: "format_ymd ''20240110'' = ''2024-01-10''" "format_ymd ''20241220'' = ''2024-12-20''"
    "format_ymd ''20240301'' = ''2024-03-01''" by (simp_all add: format_ymd_def)
  have n: "nat_of_digits ''12'' = 12" "nat_of_digits ''01'' = 1" "nat_of_digits ''06'' = 6"
    "nat_of_digits ''2024'' = 2024" "nat_of_digits ''10'' = 10" "nat_of_digits ''03'' = 3"
    by (simp_all add: nat_of_digits_def digit_val_def)
  have s: "py_str_int 2023 = ''2023''" "py_str_int 2025 = ''2025''" "py_str_int 2024 = ''2024''"
    by (simp_all add: py_str_int_def string_of_nat.simps)
  show ?thesis
    using determine_transaction_year_spec [of "''12''" "''20240110''" "''15''"]
      determine_transaction_year_spec [of "''01''" "''20241220''" "''05''"]
      determine_transaction_year_spec [of "''06''" "''20240301''" "''10''"]
      d f n s by (simp add: rollover_year_def)
qed

text \<open>The resolved year places the transaction in the statement's month or in the
  month before it (the period a statement dated early in a month covers), across the
  December/January boundary too.\<close>

lemma transaction_year_in_statement_period:
  assumes "mm \<noteq> []" "list_all is_digit mm" "length ds = 8" "list_all is_digit ds"
    and "1 \<le> ymd_month ds" "ymd_month ds \<le> 12"
    and "int (nat_of_digits mm) = ymd_month ds \<or>
         int (nat_of_digits mm) = (if ymd_month ds = 1 then 12 else ymd_month ds - 1)"
  shows "\<exists>y. determine_transaction_year (mm @ CHR ''/'' # dd) (format_ymd ds) = Inr (py_str_int y) \<and>
           12 * ymd_year ds + ymd_month ds - 1 \<le> 12 * y + int (nat_of_digits mm) \<and>
           12 * y + int (nat_of_digits mm) \<le> 12 * ymd_year ds + ymd_month ds"
proof -
  let ?y = "rollover_year (int (nat_of_digits mm)) (ymd_year ds) (ymd_month ds)"
  have "12 * ymd_year ds + ymd_month ds - 1 \<le> 12 * ?y + int (nat_of_digits mm) \<and>
        12 * ?y + int (nat_of_digits mm) \<le> 12 * ymd_year ds + ymd_month ds"
    using assms(5-7) by (auto simp: rollover_year_def split: if_splits)
  then show ?thesis using determine_transaction_year_ymd [OF assms(1-4)] by blast
qed

lemma transaction_year_in_statement_period_example:
  "\<exists>y. determine_transaction_year (''12'' @ CHR ''/'' # ''15'') (format_ymd ''20240110'') = Inr (py_str_int y) \<and>
     12 * 2024 + 1 - 1 \<le> 12 * y + 12 \<and> 12 * y + 12 \<le> 12 * 2024 + (1::int)"
proof -
  have n: "nat_of_digits ''12'' = 12" "nat_of_digits ''2024'' = 2024" "nat_of_digits ''01'' = 1"
    by (simp_all add: nat_of_digits_def digit_val_def)
  have "list_all is_digit ''12''" "list_all is_digit ''20240110''" by (simp_all add: is_digit_def)
  then show ?thesis
    using transaction_year_in_statement_period [of "''12''" "''20240110''" "''15''"] n by simp
qed

text \<open>Whatever its inputs, a year the code returns is the decimal text of a number
  within one of the statement's year.\<close>

lemma determine_transaction_year_bounds:
  assumes "determine_transaction_year td sd = Inr ys"
  shows "\<exists>sy y. py_int (hd (py_split CHR ''-'' sd)) = Inr sy \<and> ys = py_str_int y \<and> \<bar>y - sy\<bar> \<le> 1"
  using assms
  by (auto simp: determine_transaction_year_def py_bind_Inr split: if_splits)

lemma determine_transaction_year_bounds_example:
  "\<exists>sy y. py_int (hd (py_split CHR ''-'' ''2024-01-10'')) = Inr sy \<and> ''2023'' = py_str_int y \<and> \<bar>y - sy\<bar> \<le> 1"
proof -
  have "determine_transaction_year ''12/15'' ''2024-01-10'' = Inr ''2023''"
    by (simp add: determine_transaction_year_def py_int_def py_strip_def py_isspace_def
        py_int_sign_def py_int_body_def is_digit_def py_index_def nat_of_digits_def digit_val_def
        py_str_int_def string_of_nat.simps)
  then show ?thesis by (rule determine_transaction_year_bounds)
qed

lemma extract_statement_date_no_run:
  "\<forall>i. \<not> run8_at (drop i fn) \<Longrightarrow> extract_statement_date fn = fn"
  by (simp add: extract_statement_date_def flip: search_date_run_None)

lemma py_int_dot: "CHR ''.'' \<in> set s \<Longrightarrow> py_int s = Inl ValueError"
proof (cases "py_int s")
  case (Inl e)
  then show ?thesis by (simp add: py_int_Inl)
next
  case (Inr i)
  assume "CHR ''.'' \<in> set s"
  from py_int_chars [OF Inr this] show ?thesis by (simp add: is_digit_def py_isspace_def)
qed

text \<open>C27. A statement date that is the resolver's fallback (a \<open>.pdf\<close> filename with
  no eight-digit run) and contains no dash makes the year resolver raise
  \<open>ValueError\<close>, whatever the transaction date: \<open>int()\<close> is applied to the whole
  filename. Every transaction line of such a statement raises.\<close>

theorem fallback_statement_date_raises:
  assumes "py_endswith fn ''.pdf''" "CHR ''-'' \<notin> set fn" "\<forall>i. \<not> run8_at (drop i fn)"
  shows "determine_transaction_year td (extract_statement_date fn) = Inl ValueError"
proof -
  have "CHR ''.'' \<in> set fn" using assms(1) by (auto simp: py_endswith_def suffix_def)
  then have fn: "py_int (hd (py_split CHR ''-'' fn)) = Inl ValueError"
    using assms(2) by (simp add: py_split_no_sep_id py_int_dot)
  show ?thesis
  proof (cases "py_int (hd (py_split CHR ''/'' td))")
    case (Inl e)
    then show ?thesis
      by (simp add: determine_transaction_year_def extract_statement_date_no_run [OF assms(3)] py_int_Inl)
  next
    case (Inr m)
    then show ?thesis
      by (simp add: determine_transaction_year_def extract_statement_date_no_run [OF assms(3)] fn)
  qed
qed

theorem fallback_statement_date_raises_witness:
  "determine_transaction_year ''03/14'' (extract_statement_date ''statement.pdf'') = Inl ValueError"
proof -
  have n: "search_date_run ''statement.pdf'' = None" by (simp add: run8_at_def is_digit_def)
  have "\<forall>i. \<not> run8_at (drop i ''statement.pdf'')" using n search_date_run_None by blast
  moreover have "py_endswith ''statement.pdf'' ''.pdf''" by (simp add: py_endswith_drop)
  ultimately show ?thesis
    using fallback_statement_date_raises [of "''statement.pdf''" "''03/14''"] by simp
qed

end
