(* ===== verification/Money.thy ===== *)
theory Money
  imports Py_Builtins
begin

text \<open>
  The monetary-token scanner of \<open>extract_chase_transactions\<close> (src/pdf-2-excel.py,
  lines 125--130): \<open>re.findall(r'-?[\d,]+\.\d{2}', line)\<close> and
  \<open>float(token.replace(',', ''))\<close>.

  \<open>money_match\<close> is the regular expression tried at the front of a string, in the order
  the backtracking engine tries it: with the optional minus sign first, then without.
  The greedy \<open>[\d,]+\<close> never needs to give characters back, because the character
  after it must be a dot, which the class does not contain; so the run is
  \<open>takeWhile\<close>. \<open>find_amounts\<close> is \<open>findall\<close>: scan from the left, and after a
  match continue behind it (matches never overlap). \<open>money_token\<close> is the language of
  the expression, stated declaratively, against which the matcher is proved.

  A token's value is kept exactly, as a number of cents: the token has exactly two
  fractional digits, so the value is its sign times the number formed by all its digits.
  The program's \<open>float\<close> is the double nearest to this value; the model keeps the
  decimal value that the double rounds (see the header of the development).
\<close>

subsection \<open>Definitions\<close>

definition is_num_char :: "char \<Rightarrow> bool" where
  "is_num_char c \<longleftrightarrow> is_digit c \<or> c = CHR '',''"

text \<open>\<open>[\d,]+\.\d{2}\<close> at the front of \<open>s\<close>: the token and the rest.\<close>

definition money_body :: "string \<Rightarrow> (string \<times> string) option" where
  "money_body s =
     (let run = takeWhile is_num_char s; rest = dropWhile is_num_char s in
      if run = [] then None
      else (case rest of
              p # d1 # d2 # r \<Rightarrow>
                if p = CHR ''.'' \<and> is_digit d1 \<and> is_digit d2 then Some (run @ [p, d1, d2], r) else None
            | _ \<Rightarrow> None))"

text \<open>\<open>-?\<close> in front: the engine tries the sign first and backtracks to the empty match.\<close>

definition money_match :: "string \<Rightarrow> (string \<times> string) option" where
  "money_match s =
     (case s of
        [] \<Rightarrow> None
      | c # cs \<Rightarrow>
          if c = CHR ''-'' then
            (case money_body cs of Some (t, r) \<Rightarrow> Some (c # t, r) | None \<Rightarrow> money_body s)
          else money_body s)"

text \<open>\<open>float(token.replace(',', ''))\<close>, in cents.\<close>

definition money_value :: "string \<Rightarrow> int" where
  "money_value t =
     (let u = filter (\<lambda>c. c \<noteq> CHR '','') t in
      (if u \<noteq> [] \<and> hd u = CHR ''-'' then -1 else 1) * int (nat_of_digits (filter is_digit u)))"

text \<open>The language of the expression \<open>-?[\d,]+\.\d{2}\<close>.\<close>

definition money_unsigned :: "string \<Rightarrow> bool" where
  "money_unsigned t \<longleftrightarrow>
     (\<exists>run d1 d2. t = run @ [CHR ''.'', d1, d2] \<and>
        run \<noteq> [] \<and> list_all is_num_char run \<and> is_digit d1 \<and> is_digit d2)"

definition money_token :: "string \<Rightarrow> bool" where
  "money_token t \<longleftrightarrow> money_unsigned t \<or> (\<exists>u. t = CHR ''-'' # u \<and> money_unsigned u)"

subsection \<open>The matcher is the expression\<close>

lemma money_body_Some:
  assumes "money_body s = Some (t, r)"
  shows "s = t @ r \<and> money_unsigned t"
proof -
  let ?run = "takeWhile is_num_char s"
  obtain p d1 d2 where rest: "dropWhile is_num_char s = p # d1 # d2 # r"
    and t: "t = ?run @ [p, d1, d2]" and ok: "?run \<noteq> []" "p = CHR ''.''" "is_digit d1" "is_digit d2"
    using assms by (auto simp: money_body_def Let_def split: if_splits list.splits)
  have "s = ?run @ dropWhile is_num_char s" by simp
  then have "s = t @ r" using rest t by simp
  moreover have "list_all is_num_char ?run" by (auto simp: list_all_iff dest: set_takeWhileD)
  ultimately show ?thesis using t ok unfolding money_unsigned_def by blast
qed

lemma money_match_Some:
  assumes "money_match s = Some (t, r)"
  shows "s = t @ r \<and> money_token t"
proof (cases s)
  case Nil
  with assms show ?thesis by (simp add: money_match_def)
next
  case (Cons c cs)
  show ?thesis
  proof (cases "c = CHR ''-'' \<and> money_body cs \<noteq> None")
    case True
    then obtain t' where b: "money_body cs = Some (t', r)" and t: "t = c # t'"
      using assms Cons by (auto simp: money_match_def split: option.splits)
    with money_body_Some [OF b] True Cons show ?thesis by (auto simp: money_token_def)
  next
    case False
    then have "money_body s = Some (t, r)"
      using assms Cons by (auto simp: money_match_def split: option.splits if_splits)
    then show ?thesis using money_body_Some by (auto simp: money_token_def)
  qed
qed

lemma money_token_ne: "money_token t \<Longrightarrow> t \<noteq> []"
  by (auto simp: money_token_def money_unsigned_def)

lemma money_match_shorter: "money_match s = Some (t, r) \<Longrightarrow> length r < length s"
proof -
  assume "money_match s = Some (t, r)"
  then have "s = t @ r" "t \<noteq> []" using money_match_Some money_token_ne by blast+
  then show ?thesis by simp
qed

text \<open>\<open>re.findall\<close>: every position from the left, matches not overlapping.\<close>

function (domintros) find_amounts :: "string \<Rightarrow> string list" where
  "find_amounts [] = []"
| "find_amounts (c # cs) =
     (case money_match (c # cs) of
        Some (t, r) \<Rightarrow> t # find_amounts r
      | None \<Rightarrow> find_amounts cs)"
  by pat_completeness auto
termination
  by (relation "measure length") (auto dest: money_match_shorter)


subsection \<open>Lemmas on the scanner\<close>

lemma not_num_dot [simp]: "\<not> is_num_char CHR ''.''" "\<not> is_num_char CHR ''-''"
  by (simp_all add: is_num_char_def is_digit_def)

lemma money_body_unsigned:
  assumes "money_unsigned t"
  shows "money_body (t @ r) = Some (t, r)"
proof -
  obtain run d1 d2 where t: "t = run @ [CHR ''.'', d1, d2]" and ok: "run \<noteq> []"
    "list_all is_num_char run" "is_digit d1" "is_digit d2"
    using assms by (auto simp: money_unsigned_def)
  have "takeWhile is_num_char (run @ CHR ''.'' # d1 # d2 # r) = run"
    "dropWhile is_num_char (run @ CHR ''.'' # d1 # d2 # r) = CHR ''.'' # d1 # d2 # r"
    using ok(2) by (simp_all add: takeWhile_append2 dropWhile_append2 list_all_iff)
  with t ok show ?thesis by (simp add: money_body_def)
qed

lemma money_unsigned_hd: "money_unsigned t \<Longrightarrow> t \<noteq> [] \<and> hd t \<noteq> CHR ''-''"
proof -
  assume "money_unsigned t"
  then obtain run d1 d2 where t: "t = run @ [CHR ''.'', d1, d2]" and "run \<noteq> []" "list_all is_num_char run"
    by (auto simp: money_unsigned_def)
  then have "is_num_char (hd run)" by (simp add: list_all_iff)
  then show ?thesis using t \<open>run \<noteq> []\<close> by auto
qed

lemma money_match_token: "money_token t \<Longrightarrow> money_match (t @ r) = Some (t, r)"
proof -
  assume "money_token t"
  then consider "money_unsigned t" | u where "t = CHR ''-'' # u" "money_unsigned u"
    by (auto simp: money_token_def)
  then show ?thesis
  proof cases
    case 1
    then obtain c cs where tc: "t = c # cs" "c \<noteq> CHR ''-''" by (metis list.collapse money_unsigned_hd)
    have "money_body (t @ r) = Some (t, r)" using 1 by (rule money_body_unsigned)
    with tc show ?thesis by (simp add: money_match_def)
  next
    case 2
    then show ?thesis by (simp add: money_match_def money_body_unsigned)
  qed
qed

lemma find_amounts_token: "money_token t \<Longrightarrow> find_amounts (t @ r) = t # find_amounts r"
proof -
  assume tok: "money_token t"
  then obtain c cs where t: "t = c # cs" using money_token_ne by (cases t) auto
  have "money_match (c # cs @ r) = Some (t, r)" using money_match_token [OF tok, of r] t by simp
  then show ?thesis by (simp add: t)
qed

lemma find_amounts_skip:
  "\<forall>i < length g. money_match (drop i (g @ s)) = None \<Longrightarrow> find_amounts (g @ s) = find_amounts s"
proof (induction g)
  case Nil
  then show ?case by simp
next
  case (Cons c g)
  then have "money_match (c # g @ s) = None" by (metis drop0 length_Cons zero_less_Suc append_Cons)
  moreover have "\<forall>i < length g. money_match (drop i (g @ s)) = None"
  proof (intro allI impI)
    fix i assume "i < length g"
    then show "money_match (drop i (g @ s)) = None" using Cons.prems [rule_format, of "Suc i"] by simp
  qed
  ultimately show ?case using Cons.IH by simp
qed

lemma find_amounts_sound: "list_all money_token (find_amounts s) \<and> subseq (concat (find_amounts s)) s"
proof (induction s rule: find_amounts.induct)
  case 1
  then show ?case by simp
next
  case (2 c cs)
  show ?case
  proof (cases "money_match (c # cs)")
    case None
    with "2.IH"(1) [OF None] show ?thesis by (auto intro: list_emb_Cons)
  next
    case (Some p)
    then obtain t r where m: "money_match (c # cs) = Some (t, r)" by (cases p) auto
    from money_match_Some [OF m] have "c # cs = t @ r" "money_token t" by simp_all
    with m "2.IH"(2) [OF m refl] show ?thesis
      by (auto simp: list_emb_append_mono find_amounts_token)
  qed
qed

lemma money_token_chars: "money_token t \<Longrightarrow> c \<in> set t \<Longrightarrow> c = CHR ''-'' \<or> c = CHR ''.'' \<or> is_num_char c"
  by (auto simp: money_token_def money_unsigned_def list_all_iff is_num_char_def)

lemma money_token_no_space: "money_token t \<Longrightarrow> CHR '' '' \<notin> set t"
  by (fastforce dest: money_token_chars simp: is_num_char_def is_digit_def)

lemma money_token_last: "money_token t \<Longrightarrow> is_digit (last t)"
  by (auto simp: money_token_def money_unsigned_def)

lemma money_match_space: "money_match (CHR '' '' # s) = None"
  by (simp add: money_match_def money_body_def is_num_char_def is_digit_def)

lemma find_amounts_two:
  assumes "money_token amt" "money_token bal"
    and "\<forall>i < length pre. money_match (drop i (pre @ amt @ CHR '' '' # bal)) = None"
  shows "find_amounts (pre @ amt @ CHR '' '' # bal) = [amt, bal]"
proof -
  have "find_amounts (pre @ amt @ CHR '' '' # bal) = find_amounts (amt @ CHR '' '' # bal)"
    using assms(3) by (rule find_amounts_skip)
  also have "\<dots> = amt # find_amounts (CHR '' '' # bal)" using assms(1) by (rule find_amounts_token)
  also have "find_amounts (CHR '' '' # bal) = find_amounts (bal @ [])" by (simp add: money_match_space)
  also have "\<dots> = [bal]" using find_amounts_token [OF assms(2), of "[]"] by simp
  finally show ?thesis .
qed

lemma money_token_length: "money_token t \<Longrightarrow> 4 \<le> length t"
  by (auto simp: money_token_def money_unsigned_def Suc_le_eq)

lemma money_token_by_match: "money_match t = Some (t, []) \<Longrightarrow> money_token t"
  using money_match_Some by blast

subsection \<open>Claims\<close>

text \<open>C18. The matcher implements the regular expression: at the front of a string it
  succeeds with token \<open>t\<close> and rest \<open>r\<close> exactly when the string is \<open>t @ r\<close> and
  \<open>t\<close> is in the language of \<open>-?[\d,]+\.\d{2}\<close>. In particular the match at a position
  is unique.\<close>

theorem money_match_iff: "money_match s = Some (t, r) \<longleftrightarrow> s = t @ r \<and> money_token t"
  using money_match_Some money_match_token by blast

theorem money_match_iff_witness:
  "money_match ''-1,200.00 x'' = Some (''-1,200.00'', '' x'')"
proof -
  have "money_unsigned ''1,200.00''"
    unfolding money_unsigned_def
    by (rule exI [of _ "''1,200''"]) (simp add: is_num_char_def is_digit_def)
  then have "money_token ''-1,200.00''" by (auto simp: money_token_def)
  then show ?thesis using money_match_iff [of "''-1,200.00 x''" "''-1,200.00''" "'' x''"] by simp
qed

text \<open>C19. Every string \<open>re.findall\<close> returns is a monetary token, and the tokens occur
  in the line in the order returned, without overlapping: their concatenation is a
  subsequence of the line.\<close>

theorem find_amounts_tokens:
  "list_all money_token (find_amounts s) \<and> subseq (concat (find_amounts s)) s"
  by (rule find_amounts_sound)

lemma find_amounts_dom_all: "find_amounts_dom s"
proof (induction "length s" arbitrary: s rule: less_induct)
  case less
  show ?case
  proof (cases s)
    case Nil
    then show ?thesis by (simp add: find_amounts.domintros)
  next
    case (Cons c cs)
    show ?thesis unfolding Cons
    proof (rule find_amounts.domintros)
      show "find_amounts_dom cs" if "money_match (c # cs) = None" using less Cons by simp
      show "find_amounts_dom r" if "money_match (c # cs) = Some (t, r)" for t r
        using less Cons money_match_shorter [OF that] by simp
    qed
  qed
qed

text \<open>The \<open>re.findall\<close> scan terminates on every line: each step either
  consumes a token or one character, so the rest left to scan is strictly shorter (an
  induction on its length over the recursion's domain); so the defining equations
  hold on every input, not only on the domain.\<close>

lemma find_amounts_total:
  "find_amounts_dom s \<and>
   find_amounts s = (case s of [] \<Rightarrow> []
                      | c # cs \<Rightarrow> (case money_match (c # cs) of
                                   Some (t, r) \<Rightarrow> t # find_amounts r
                                 | None \<Rightarrow> find_amounts cs))"
  using find_amounts_dom_all [of s] by (cases s) (simp_all add: find_amounts.psimps)

text \<open>A line of \<open>n\<close> characters holds at most \<open>n div 4\<close> monetary tokens: each
  has at least four characters (\<open>d.dd\<close>) and the tokens do not overlap.\<close>

lemma find_amounts_count_bound: "4 * length (find_amounts s) \<le> length s"
proof -
  have "list_all money_token (find_amounts s)" "subseq (concat (find_amounts s)) s"
    using find_amounts_sound by blast+
  moreover from this(1) have "list_all (\<lambda>t. 4 \<le> length t) (find_amounts s)"
    by (simp add: list_all_iff money_token_length)
  ultimately show ?thesis
    using length_concat_ge [of 4] list_emb_length le_trans by blast
qed

end
