(* ===== verification/Line_Parser.thy ===== *)
theory Line_Parser
  imports Transaction_Year Money
begin

text \<open>
  The Transaction Line Parser, \<open>extract_chase_transactions\<close> (src/pdf-2-excel.py,
  lines 108--148). The text is split at newlines; a flag \<open>in_transaction_section\<close>
  starts false and is set by a line containing \<open>TRANSACTION DETAIL\<close> (which is itself
  skipped). Outside the section every line is skipped; inside it, lines containing
  \<open>Beginning Balance\<close> are skipped, and a line whose stripped text starts with
  \<open>MM/DD\<close> and holds at least two monetary tokens becomes a record: the last two tokens
  are amount and balance, the description is the text between the date and the last
  occurrence of the amount's text, and the year comes from the Transaction Year Resolver,
  whose exceptions abort the whole statement.

  The state of the loop is the record \<open>scan_state\<close> (the flag and the list built so
  far); \<open>scan_line\<close> is the loop body with its \<open>continue\<close>s as early returns, and
  \<open>scan_lines\<close> the loop. A record (the Python dict) is the record \<open>txn\<close>, with the
  dict's keys as field names.
\<close>

subsection \<open>Definitions\<close>

record txn =
  Statement_Date :: string
  Date :: string
  Description :: string
  Amount :: int
  Balance :: int
  Original_Line :: string
  Source_File :: string

text \<open>\<open>re.match(r'^(\d{2}/\d{2})', s)\<close>: group 1 is the first five characters.\<close>

definition match_date :: "string \<Rightarrow> string option" where
  "match_date s =
     (if 5 \<le> length s \<and> is_digit (s ! 0) \<and> is_digit (s ! 1) \<and> s ! 2 = CHR ''/'' \<and>
         is_digit (s ! 3) \<and> is_digit (s ! 4)
      then Some (take 5 s) else None)"

text \<open>Lines 122--147 for one line of the section: \<open>None\<close> when the line is skipped.\<close>

definition parse_line :: "string \<Rightarrow> string \<Rightarrow> string \<Rightarrow> txn option py_result" where
  "parse_line filename statement_date line =
     (case match_date (py_strip line) of
        None \<Rightarrow> Inr None
      | Some current_date \<Rightarrow>
          (let amounts = find_amounts line in
           if 2 \<le> length amounts then
             (let amount_str = amounts ! (length amounts - 2);
                  balance_str = amounts ! (length amounts - 1);
                  amount = money_value amount_str;
                  balance = money_value balance_str;
                  desc_start = py_find line current_date + int (length current_date);
                  desc_end = py_rfind line amount_str;
                  description = py_strip (py_slice line desc_start desc_end)
              in py_bind (determine_transaction_year current_date statement_date) (\<lambda>transaction_year.
                   Inr (Some \<lparr>Statement_Date = statement_date,
                              Date = current_date @ ''/'' @ transaction_year,
                              Description = description,
                              Amount = amount,
                              Balance = balance,
                              Original_Line = py_strip line,
                              Source_File = filename\<rparr>)))
           else Inr None))"

record scan_state =
  in_transaction_section :: bool
  transactions :: "txn list"

definition scan_init :: scan_state where
  "scan_init = \<lparr>in_transaction_section = False, transactions = []\<rparr>"

text \<open>The body of the \<open>for line in lines\<close> loop (lines 114--147).\<close>

definition scan_line :: "string \<Rightarrow> string \<Rightarrow> scan_state \<Rightarrow> string \<Rightarrow> scan_state py_result" where
  "scan_line filename statement_date st line =
     (if py_contains ''TRANSACTION DETAIL'' line then Inr (st\<lparr>in_transaction_section := True\<rparr>)
      else if \<not> in_transaction_section st then Inr st
      else if py_contains ''Beginning Balance'' line then Inr st
      else py_bind (parse_line filename statement_date line) (\<lambda>r.
             case r of
               None \<Rightarrow> Inr st
             | Some t \<Rightarrow> Inr (st\<lparr>transactions := transactions st @ [t]\<rparr>)))"

fun scan_lines :: "string \<Rightarrow> string \<Rightarrow> scan_state \<Rightarrow> string list \<Rightarrow> scan_state py_result" where
  "scan_lines filename statement_date st [] = Inr st"
| "scan_lines filename statement_date st (line # lines) =
     py_bind (scan_line filename statement_date st line) (\<lambda>st'. scan_lines filename statement_date st' lines)"

definition extract_chase_transactions :: "string \<Rightarrow> string \<Rightarrow> string \<Rightarrow> txn list py_result" where
  "extract_chase_transactions text filename statement_date =
     py_bind (scan_lines filename statement_date scan_init (py_split CHR ''\<newline>'' text))
       (\<lambda>st. Inr (transactions st))"

subsection \<open>An abstract specification: a per-line function after the marker\<close>

text \<open>The specification's view of the parser (sections 4.3 and 9): the lines after the
  first \<open>TRANSACTION DETAIL\<close> line, without marker and \<open>Beginning Balance\<close> lines,
  mapped through the per-line parser in order; the first exception ends the statement.\<close>

definition is_marker :: "string \<Rightarrow> bool" where
  "is_marker line \<longleftrightarrow> py_contains ''TRANSACTION DETAIL'' line"

definition is_balance_line :: "string \<Rightarrow> bool" where
  "is_balance_line line \<longleftrightarrow> py_contains ''Beginning Balance'' line"

definition after_marker :: "string list \<Rightarrow> string list" where
  "after_marker lines = drop 1 (dropWhile (\<lambda>l. \<not> is_marker l) lines)"

fun collect :: "('a \<Rightarrow> 'b option py_result) \<Rightarrow> 'a list \<Rightarrow> 'b list py_result" where
  "collect f [] = Inr []"
| "collect f (x # xs) =
     py_bind (f x) (\<lambda>r. py_bind (collect f xs) (\<lambda>ys. Inr (case r of None \<Rightarrow> ys | Some y \<Rightarrow> y # ys)))"

definition section_lines :: "string list \<Rightarrow> string list" where
  "section_lines lines = filter (\<lambda>l. \<not> is_marker l \<and> \<not> is_balance_line l) (after_marker lines)"

subsection \<open>Lemmas: the loop\<close>

lemma scan_lines_append:
  "scan_lines fn sd st (xs @ ys) = py_bind (scan_lines fn sd st xs) (\<lambda>st'. scan_lines fn sd st' ys)"
  by (induction xs arbitrary: st) (simp_all add: py_bind_assoc)

lemma scan_line_outside:
  "\<not> is_marker l \<Longrightarrow> \<not> in_transaction_section st \<Longrightarrow> scan_line fn sd st l = Inr st"
  by (simp add: scan_line_def is_marker_def)

lemma scan_line_marker:
  "is_marker l \<Longrightarrow> scan_line fn sd st l = Inr (st\<lparr>in_transaction_section := True\<rparr>)"
  by (simp add: scan_line_def is_marker_def)

lemma scan_line_balance:
  "\<not> is_marker l \<Longrightarrow> is_balance_line l \<Longrightarrow> scan_line fn sd st l = Inr st"
  by (simp add: scan_line_def is_marker_def is_balance_line_def)

lemma scan_line_parse:
  "\<not> is_marker l \<Longrightarrow> \<not> is_balance_line l \<Longrightarrow> in_transaction_section st \<Longrightarrow>
   scan_line fn sd st l =
     py_bind (parse_line fn sd l)
       (\<lambda>r. case r of None \<Rightarrow> Inr st | Some t \<Rightarrow> Inr (st\<lparr>transactions := transactions st @ [t]\<rparr>))"
  by (simp add: scan_line_def is_marker_def is_balance_line_def)

lemma set_section_same: "in_transaction_section st \<Longrightarrow> st\<lparr>in_transaction_section := True\<rparr> = st"
  by (cases st) simp

text \<open>Inside the section, the loop is the specification's per-line map.\<close>

lemma scan_lines_in_section:
  assumes "in_transaction_section st"
  shows "scan_lines fn sd st ls =
           py_bind (collect (parse_line fn sd) (filter (\<lambda>l. \<not> is_marker l \<and> \<not> is_balance_line l) ls))
             (\<lambda>ts. Inr (st\<lparr>transactions := transactions st @ ts\<rparr>))"
  using assms
proof (induction ls arbitrary: st)
  case Nil
  then show ?case by simp
next
  case (Cons l ls)
  show ?case
  proof (cases "is_marker l")
    case True
    with Cons show ?thesis by (simp add: scan_line_marker set_section_same)
  next
    case nm: False
    show ?thesis
    proof (cases "is_balance_line l")
      case True
      with Cons nm show ?thesis by (simp add: scan_line_balance)
    next
      case nb: False
      show ?thesis
      proof (cases "parse_line fn sd l")
        case (Inl e)
        with Cons.prems nm nb show ?thesis by (simp add: scan_line_parse)
      next
        case (Inr r)
        with Cons.prems Cons.IH nm nb show ?thesis
          by (cases r) (simp_all add: scan_line_parse py_bind_assoc)
      qed
    qed
  qed
qed

text \<open>Before the section, lines up to the first marker change nothing.\<close>

lemma scan_lines_before:
  "\<forall>l \<in> set xs. \<not> is_marker l \<Longrightarrow> \<not> in_transaction_section st \<Longrightarrow> scan_lines fn sd st xs = Inr st"
  by (induction xs) (simp_all add: scan_line_outside)

lemma scan_lines_from_init:
  "scan_lines fn sd scan_init ls =
     py_bind (collect (parse_line fn sd) (section_lines ls)) (\<lambda>ts.
       Inr (if \<exists>l \<in> set ls. is_marker l then \<lparr>in_transaction_section = True, transactions = ts\<rparr>
            else scan_init))"
proof (cases "\<exists>l \<in> set ls. is_marker l")
  case False
  then have scan: "scan_lines fn sd scan_init ls = Inr scan_init"
    by (intro scan_lines_before) (auto simp: scan_init_def)
  from False have d: "dropWhile (\<lambda>l. \<not> is_marker l) ls = []"
    by (simp add: dropWhile_eq_Nil_conv)
  have "section_lines ls = []" by (simp only: section_lines_def after_marker_def d) simp
  with scan False show ?thesis by simp
next
  case True
  let ?pre = "takeWhile (\<lambda>l. \<not> is_marker l) ls"
  obtain m rest where d: "dropWhile (\<lambda>l. \<not> is_marker l) ls = m # rest" and m: "is_marker m"
    using True by (metis dropWhile_eq_Nil_conv hd_dropWhile list.collapse)
  have ls: "ls = ?pre @ m # rest" using d by (metis takeWhile_dropWhile_id)
  have "scan_lines fn sd scan_init ?pre = Inr scan_init"
    by (intro scan_lines_before) (auto simp: scan_init_def dest: set_takeWhileD)
  then have "scan_lines fn sd scan_init ls =
               scan_lines fn sd \<lparr>in_transaction_section = True, transactions = []\<rparr> rest"
    using m by (subst ls) (simp add: scan_lines_append scan_line_marker scan_init_def)
  also have "\<dots> = py_bind (collect (parse_line fn sd) (section_lines ls))
                   (\<lambda>ts. Inr \<lparr>in_transaction_section = True, transactions = ts\<rparr>)"
    by (simp add: scan_lines_in_section section_lines_def after_marker_def d)
  finally show ?thesis using True by simp
qed

subsection \<open>Lemmas: one transaction line\<close>

text \<open>The shape of a Chase transaction line: date, description, amount, balance.\<close>

definition line_head :: "string \<Rightarrow> string \<Rightarrow> string \<Rightarrow> string" where
  "line_head mm dd desc = mm @ CHR ''/'' # dd @ CHR '' '' # desc @ '' ''"

lemma match_date_line:
  assumes "length mm = 2" "list_all is_digit mm" "length dd = 2" "list_all is_digit dd"
  shows "match_date (mm @ CHR ''/'' # dd @ rest) = Some (mm @ CHR ''/'' # dd)"
proof -
  obtain a b where "mm = [a, b]" using assms(1) by (auto simp: length_Suc_conv numeral_2_eq_2)
  moreover obtain c e where "dd = [c, e]" using assms(3) by (auto simp: length_Suc_conv numeral_2_eq_2)
  ultimately show ?thesis using assms(2,4) by (simp add: match_date_def)
qed

lemma parse_line_at:
  assumes strip: "py_strip line = line" and md: "match_date line = Some d"
    and amts: "find_amounts line = [amt, bal]"
    and rf: "rfind_idx amt line = Some k" "5 \<le> k" "k \<le> length line"
    and yr: "determine_transaction_year d sd = Inr y"
  shows "parse_line fn sd line =
           Inr (Some \<lparr>Statement_Date = sd, Date = d @ ''/'' @ y,
                      Description = py_strip (take (k - 5) (drop 5 line)),
                      Amount = money_value amt, Balance = money_value bal,
                      Original_Line = line, Source_File = fn\<rparr>)"
proof -
  have d: "d = take 5 line" "length d = 5" using md by (auto simp: match_date_def split: if_splits)
  then have "find_idx d line = Some 0" by (simp add: find_idx_prefix take_is_prefix)
  then have "py_find line d + int (length d) = 5" by (simp add: py_find_def d(2))
  moreover have "py_slice line 5 (py_rfind line amt) = take (k - 5) (drop 5 line)"
    using rf py_slice_nat [of 5 line k] by (simp add: py_rfind_def)
  ultimately show ?thesis
    using strip md amts yr by (simp add: parse_line_def Let_def)
qed

lemma line_strip_id:
  assumes "length mm = 2" "list_all is_digit mm" "money_token bal"
  shows "py_strip (line_head mm dd desc @ amt @ CHR '' '' # bal) = line_head mm dd desc @ amt @ CHR '' '' # bal"
proof (rule py_strip_id_ends)
  obtain a b where mm: "mm = [a, b]" using assms(1) by (auto simp: length_Suc_conv numeral_2_eq_2)
  with assms(2) show "\<not> py_isspace (hd (line_head mm dd desc @ amt @ CHR '' '' # bal))"
    by (simp add: line_head_def digit_not_space)
  have "bal \<noteq> []" using assms(3) by (rule money_token_ne)
  with money_token_last [OF assms(3)]
  show "\<not> py_isspace (last (line_head mm dd desc @ amt @ CHR '' '' # bal))"
    by (simp add: digit_not_space)
qed simp

lemma parse_line_shape:
  assumes date: "length mm = 2" "list_all is_digit mm" "length dd = 2" "list_all is_digit dd"
    and tok: "money_token amt" "money_token bal"
    and scan: "\<forall>i < length (line_head mm dd desc). money_match (drop i (line_head mm dd desc @ amt @ CHR '' '' # bal)) = None"
    and sd: "length ds = 8" "list_all is_digit ds"
    and rf: "rfind_idx amt (line_head mm dd desc @ amt @ CHR '' '' # bal) = Some k"
      "length (line_head mm dd desc) \<le> k" "k \<le> length (line_head mm dd desc @ amt @ CHR '' '' # bal)"
  shows "parse_line fn (format_ymd ds) (line_head mm dd desc @ amt @ CHR '' '' # bal) =
           Inr (Some \<lparr>Statement_Date = format_ymd ds,
                      Date = (mm @ CHR ''/'' # dd) @ ''/'' @
                             py_str_int (rollover_year (int (nat_of_digits mm)) (ymd_year ds) (ymd_month ds)),
                      Description = py_strip (take (k - 5) (drop 5 (line_head mm dd desc @ amt @ CHR '' '' # bal))),
                      Amount = money_value amt, Balance = money_value bal,
                      Original_Line = line_head mm dd desc @ amt @ CHR '' '' # bal, Source_File = fn\<rparr>)"
proof (rule parse_line_at)
  show "py_strip (line_head mm dd desc @ amt @ CHR '' '' # bal) = line_head mm dd desc @ amt @ CHR '' '' # bal"
    using date(1,2) tok(2) by (rule line_strip_id)
  show "match_date (line_head mm dd desc @ amt @ CHR '' '' # bal) = Some (mm @ CHR ''/'' # dd)"
    using match_date_line [OF date] by (simp add: line_head_def)
  show "find_amounts (line_head mm dd desc @ amt @ CHR '' '' # bal) = [amt, bal]"
    using tok scan by (rule find_amounts_two)
  show "5 \<le> k" using rf(2) date(1,3) by (simp add: line_head_def)
  have "mm \<noteq> []" using date(1) by auto
  then show "determine_transaction_year (mm @ CHR ''/'' # dd) (format_ymd ds) =
      Inr (py_str_int (rollover_year (int (nat_of_digits mm)) (ymd_year ds) (ymd_month ds)))"
    using date(2) sd by (rule determine_transaction_year_ymd)
qed (use rf in simp_all)

lemma drop5_line_head:
  assumes "length mm = 2" "length dd = 2"
  shows "drop 5 (line_head mm dd desc) = CHR '' '' # desc @ [CHR '' '']"
  using assms by (simp add: line_head_def)

lemma py_strip_spaced: "py_strip (CHR '' '' # s @ [CHR '' '']) = py_strip s"
  by (simp add: py_strip_Cons_space py_strip_snoc_space)

lemma parse_line_few: "length (find_amounts l) < 2 \<Longrightarrow> parse_line fn sd l = Inr None"
  by (simp add: parse_line_def Let_def split: option.splits)

lemma parse_line_Some:
  assumes "parse_line fn sd l = Inr (Some t)"
  shows "Source_File t = fn \<and> Statement_Date t = sd \<and> Original_Line t = py_strip l \<and>
         match_date (py_strip l) = Some (take 5 (Date t)) \<and> 2 \<le> length (find_amounts l) \<and>
         Amount t = money_value (find_amounts l ! (length (find_amounts l) - 2)) \<and>
         Balance t = money_value (last (find_amounts l))"
proof -
  obtain d where md: "match_date (py_strip l) = Some d" and two: "2 \<le> length (find_amounts l)"
    using assms by (auto simp: parse_line_def Let_def split: option.splits if_splits)
  have "length d = 5" using md by (auto simp: match_date_def split: if_splits)
  moreover have "find_amounts l \<noteq> []" using two by auto
  then have "last (find_amounts l) = find_amounts l ! (length (find_amounts l) - Suc 0)"
    by (simp add: last_conv_nth)
  ultimately show ?thesis using assms md two
    by (auto simp: parse_line_def Let_def py_bind_Inr)
qed

lemma collect_Inr: "collect f xs = Inr ys \<Longrightarrow> y \<in> set ys \<Longrightarrow> \<exists>x \<in> set xs. f x = Inr (Some y)"
proof (induction xs arbitrary: ys)
  case Nil
  then show ?case by simp
next
  case (Cons x xs)
  then obtain r ys' where "f x = Inr r" "collect f xs = Inr ys'"
    "ys = (case r of None \<Rightarrow> ys' | Some y \<Rightarrow> y # ys')"
    by (auto simp: py_bind_Inr)
  with Cons show ?case by (cases r) auto
qed

lemma section_lines_no_marker: "\<forall>l \<in> set ls. \<not> is_marker l \<Longrightarrow> section_lines ls = []"
proof -
  assume "\<forall>l \<in> set ls. \<not> is_marker l"
  then have d: "dropWhile (\<lambda>l. \<not> is_marker l) ls = []" by (simp add: dropWhile_eq_Nil_conv)
  show ?thesis by (simp only: section_lines_def after_marker_def d) simp
qed

lemma extract_collect:
  "extract_chase_transactions text fn sd = collect (parse_line fn sd) (section_lines (py_split CHR ''\<newline>'' text))"
proof (cases "\<exists>l \<in> set (py_split CHR ''\<newline>'' text). is_marker l")
  case True
  then show ?thesis
    by (simp add: extract_chase_transactions_def scan_lines_from_init py_bind_assoc)
next
  case False
  then have "section_lines (py_split CHR ''\<newline>'' text) = []" by (simp add: section_lines_no_marker)
  with False show ?thesis
    by (simp add: extract_chase_transactions_def scan_lines_from_init py_bind_assoc del: bex_simps)
      (simp add: scan_init_def)
qed

lemma parse_line_wellformed_line:
  assumes "length mm = 2" "list_all is_digit mm" "length dd = 2" "list_all is_digit dd"
    and "money_token amt" "money_token bal" "\<not> sublist amt bal"
    and "\<forall>i < length (line_head mm dd desc). money_match (drop i (line_head mm dd desc @ amt @ CHR '' '' # bal)) = None"
    and "length ds = 8" "list_all is_digit ds"
  shows "parse_line fn (format_ymd ds) (line_head mm dd desc @ amt @ CHR '' '' # bal) =
           Inr (Some \<lparr>Statement_Date = format_ymd ds,
                      Date = (mm @ CHR ''/'' # dd) @ ''/'' @
                             py_str_int (rollover_year (int (nat_of_digits mm)) (ymd_year ds) (ymd_month ds)),
                      Description = py_strip desc,
                      Amount = money_value amt, Balance = money_value bal,
                      Original_Line = line_head mm dd desc @ amt @ CHR '' '' # bal, Source_File = fn\<rparr>)"
proof -
  let ?h = "line_head mm dd desc"
  have rf: "rfind_idx amt (?h @ amt @ CHR '' '' # bal) = Some (length ?h)"
    using money_token_no_space [OF assms(5)] money_token_ne [OF assms(5)] assms(7)
    by (rule rfind_idx_own)
  have "5 \<le> length ?h" using assms(1,3) by (simp add: line_head_def)
  then have "take (length ?h - 5) (drop 5 (?h @ amt @ CHR '' '' # bal)) = drop 5 ?h" by simp
  then have "py_strip (take (length ?h - 5) (drop 5 (?h @ amt @ CHR '' '' # bal))) = py_strip desc"
    using assms(1,3) by (simp add: drop5_line_head py_strip_spaced)
  with parse_line_shape [OF assms(1-6) assms(8-10) rf] show ?thesis by simp
qed

lemma coffee_line_facts:
  shows "money_token ''4.50''" "money_token ''1,200.00''" "\<not> sublist ''4.50'' ''1,200.00''"
    and "\<forall>i < length (line_head ''03'' ''14'' ''COFFEE SHOP PURCHASE'').
      money_match (drop i (line_head ''03'' ''14'' ''COFFEE SHOP PURCHASE'' @ ''4.50'' @ CHR '' '' # ''1,200.00'')) = None"
    and "list_all is_digit ''03''" "list_all is_digit ''14''" "list_all is_digit ''20240301''"
    and "money_value ''4.50'' = 450" "money_value ''1,200.00'' = 120000"
    "nat_of_digits ''03'' = 3" "nat_of_digits ''2024'' = 2024"
    "py_str_int 2024 = ''2024''" "py_strip ''COFFEE SHOP PURCHASE'' = ''COFFEE SHOP PURCHASE''"
    "format_ymd ''20240301'' = ''2024-03-01''"
    and "line_head ''03'' ''14'' ''COFFEE SHOP PURCHASE'' @ ''4.50'' @ CHR '' '' # ''1,200.00'' =
           ''03/14 COFFEE SHOP PURCHASE 4.50 1,200.00''"
proof -
  have "money_match ''4.50'' = Some (''4.50'', [])" "money_match ''1,200.00'' = Some (''1,200.00'', [])"
    by (simp_all add: money_match_def money_body_def is_num_char_def is_digit_def)
  then show "money_token ''4.50''" "money_token ''1,200.00''" by (simp_all add: money_token_by_match)
  show "\<not> sublist ''4.50'' ''1,200.00''" by (simp add: sublist_code)
  show "\<forall>i < length (line_head ''03'' ''14'' ''COFFEE SHOP PURCHASE'').
      money_match (drop i (line_head ''03'' ''14'' ''COFFEE SHOP PURCHASE'' @ ''4.50'' @ CHR '' '' # ''1,200.00'')) = None"
    by (simp add: line_head_def money_match_def money_body_def is_num_char_def is_digit_def
        less_Suc_eq numeral_eq_Suc All_less_Suc)
  show "list_all is_digit ''03''" "list_all is_digit ''14''" "list_all is_digit ''20240301''"
    by (simp_all add: is_digit_def)
  show "money_value ''4.50'' = 450" "money_value ''1,200.00'' = 120000"
    "nat_of_digits ''03'' = 3" "nat_of_digits ''2024'' = 2024"
    "py_str_int 2024 = ''2024''" "py_strip ''COFFEE SHOP PURCHASE'' = ''COFFEE SHOP PURCHASE''"
    "format_ymd ''20240301'' = ''2024-03-01''"
    by (simp_all add: money_value_def nat_of_digits_def digit_val_def py_str_int_def string_of_nat.simps
        py_strip_def py_isspace_def format_ymd_def is_digit_def)
  show "line_head ''03'' ''14'' ''COFFEE SHOP PURCHASE'' @ ''4.50'' @ CHR '' '' # ''1,200.00'' =
           ''03/14 COFFEE SHOP PURCHASE 4.50 1,200.00''" by (simp add: line_head_def)
qed

text \<open>The \<open>Date\<close> field: the matched \<open>MM/DD\<close> and the year text.\<close>

lemma match_date_Some:
  assumes "match_date s = Some cd"
  shows "\<exists>mm dd. cd = mm @ CHR ''/'' # dd \<and> length mm = 2 \<and> length dd = 2 \<and> list_all is_digit (mm @ dd)"
proof -
  from assms have l: "5 \<le> length s" and d: "is_digit (s ! 0)" "is_digit (s ! 1)" "s ! 2 = CHR ''/''"
    "is_digit (s ! 3)" "is_digit (s ! 4)" and cd: "cd = take 5 s"
    by (auto simp: match_date_def split: if_splits)
  from l obtain a b c d e r where s: "s = a # b # c # d # e # r"
    by (auto simp: numeral_eq_Suc Suc_le_length_iff)
  show ?thesis
    using d cd by (intro exI [of _ "[a, b]"] exI [of _ "[d, e]"]) (simp add: s)
qed

lemma determine_transaction_year_str: "determine_transaction_year td sd = Inr ys \<Longrightarrow> \<exists>y. ys = py_str_int y"
  by (auto simp: determine_transaction_year_def py_bind_Inr split: if_splits)

text \<open>The transaction line of the specification's example, in any file.\<close>

lemma coffee_parse:
  "parse_line fn ''2024-03-01'' ''03/14 COFFEE SHOP PURCHASE 4.50 1,200.00'' =
     Inr (Some \<lparr>Statement_Date = ''2024-03-01'', Date = ''03/14/2024'', Description = ''COFFEE SHOP PURCHASE'',
                Amount = 450, Balance = 120000,
                Original_Line = ''03/14 COFFEE SHOP PURCHASE 4.50 1,200.00'', Source_File = fn\<rparr>)"
  using parse_line_wellformed_line [OF _ coffee_line_facts(5) _ coffee_line_facts(6) coffee_line_facts(1-4) _
      coffee_line_facts(7), of fn] coffee_line_facts(8-)
  by (simp add: rollover_year_def)

text \<open>The example of the specification (section 8), end to end.\<close>

lemma extract_coffee:
  "extract_chase_transactions ''TRANSACTION DETAIL\<newline>03/14 COFFEE SHOP PURCHASE 4.50 1,200.00''
     ''a_20240301.pdf'' ''2024-03-01'' =
   Inr [\<lparr>Statement_Date = ''2024-03-01'', Date = ''03/14/2024'', Description = ''COFFEE SHOP PURCHASE'',
         Amount = 450, Balance = 120000,
         Original_Line = ''03/14 COFFEE SHOP PURCHASE 4.50 1,200.00'', Source_File = ''a_20240301.pdf''\<rparr>]"
proof -
  have sl: "section_lines [''TRANSACTION DETAIL'', ''03/14 COFFEE SHOP PURCHASE 4.50 1,200.00''] =
            [''03/14 COFFEE SHOP PURCHASE 4.50 1,200.00'']"
    by (simp add: section_lines_def after_marker_def is_marker_def is_balance_line_def sublist_code)
  note coffee_parse [of "''a_20240301.pdf''"]
  then show ?thesis by (simp add: extract_collect sl)
qed

subsection \<open>Claims: one transaction line\<close>

text \<open>C1. A well-formed transaction line \<open>MM/DD description amount balance\<close>, in which
  no monetary token starts before the amount and the amount's text does not reappear in
  the balance, becomes the record the specification describes: the stripped description,
  the two amounts' values, the date completed with the resolved year, the line itself and
  the file name.\<close>

theorem parse_line_wellformed:
  assumes "length mm = 2" "list_all is_digit mm" "length dd = 2" "list_all is_digit dd"
    and "money_token amt" "money_token bal" "\<not> sublist amt bal"
    and "\<forall>i < length (line_head mm dd desc). money_match (drop i (line_head mm dd desc @ amt @ CHR '' '' # bal)) = None"
    and "length ds = 8" "list_all is_digit ds"
  shows "parse_line fn (format_ymd ds) (line_head mm dd desc @ amt @ CHR '' '' # bal) =
           Inr (Some \<lparr>Statement_Date = format_ymd ds,
                      Date = (mm @ CHR ''/'' # dd) @ ''/'' @
                             py_str_int (rollover_year (int (nat_of_digits mm)) (ymd_year ds) (ymd_month ds)),
                      Description = py_strip desc,
                      Amount = money_value amt, Balance = money_value bal,
                      Original_Line = line_head mm dd desc @ amt @ CHR '' '' # bal, Source_File = fn\<rparr>)"
  using assms by (rule parse_line_wellformed_line)

theorem parse_line_wellformed_witness:
  "parse_line ''a_20240301.pdf'' ''2024-03-01'' ''03/14 COFFEE SHOP PURCHASE 4.50 1,200.00'' =
     Inr (Some \<lparr>Statement_Date = ''2024-03-01'', Date = ''03/14/2024'', Description = ''COFFEE SHOP PURCHASE'',
                Amount = 450, Balance = 120000,
                Original_Line = ''03/14 COFFEE SHOP PURCHASE 4.50 1,200.00'', Source_File = ''a_20240301.pdf''\<rparr>)"
  using parse_line_wellformed [OF _ coffee_line_facts(5) _ coffee_line_facts(6) coffee_line_facts(1-4) _
      coffee_line_facts(7), of "''a_20240301.pdf''"] coffee_line_facts(8-)
  by (simp add: rollover_year_def)

text \<open>C26. The description heuristic fails when the balance's text ends with the
  amount's text (amount 4.50, balance 14.50): \<open>rfind\<close> then finds the amount inside
  the balance, and the description runs on over the amount and the head of the balance.\<close>

theorem parse_line_description_balance_suffix:
  assumes "length mm = 2" "list_all is_digit mm" "length dd = 2" "list_all is_digit dd"
    and "money_token amt" "money_token (p @ amt)"
    and "\<forall>i < length (line_head mm dd desc). money_match (drop i (line_head mm dd desc @ amt @ CHR '' '' # p @ amt)) = None"
    and "length ds = 8" "list_all is_digit ds"
  shows "\<exists>r. parse_line fn (format_ymd ds) (line_head mm dd desc @ amt @ CHR '' '' # p @ amt) = Inr (Some r) \<and>
             Description r = py_strip (desc @ CHR '' '' # amt @ CHR '' '' # p) \<and>
             Amount r = money_value amt \<and> Balance r = money_value (p @ amt)"
proof -
  let ?h = "line_head mm dd desc"
  let ?x = "?h @ amt @ CHR '' '' # p"
  have rf: "rfind_idx amt (?h @ amt @ CHR '' '' # p @ amt) = Some (length ?x)"
    using rfind_idx_suffix [of amt ?x] money_token_ne [OF assms(5)] by simp
  have "5 \<le> length ?h" using assms(1,3) by (simp add: line_head_def)
  then have "take (length ?x - 5) (drop 5 (?h @ amt @ CHR '' '' # p @ amt)) =
             drop 5 ?h @ amt @ CHR '' '' # p" by simp
  then have "py_strip (take (length ?x - 5) (drop 5 (?h @ amt @ CHR '' '' # p @ amt))) =
             py_strip (desc @ CHR '' '' # amt @ CHR '' '' # p)"
    using assms(1,3) by (simp add: drop5_line_head py_strip_Cons_space)
  with parse_line_shape [OF assms(1-7) assms(8,9) rf] show ?thesis by simp
qed

theorem parse_line_description_balance_suffix_witness:
  "\<exists>r. parse_line ''a_20240301.pdf'' ''2024-03-01'' ''03/16 PAY 4.50 14.50'' = Inr (Some r) \<and>
       Description r = ''PAY 4.50 1'' \<and> Amount r = 450 \<and> Balance r = 1450"
proof -
  have "money_match ''4.50'' = Some (''4.50'', [])" "money_match ''14.50'' = Some (''14.50'', [])"
    by (simp_all add: money_match_def money_body_def is_num_char_def is_digit_def)
  then have t: "money_token ''4.50''" "money_token (''1'' @ ''4.50'')" by (simp_all add: money_token_by_match)
  have sc: "\<forall>i < length (line_head ''03'' ''16'' ''PAY'').
      money_match (drop i (line_head ''03'' ''16'' ''PAY'' @ ''4.50'' @ CHR '' '' # ''1'' @ ''4.50'')) = None"
    by (simp add: line_head_def money_match_def money_body_def is_num_char_def is_digit_def
        less_Suc_eq numeral_eq_Suc All_less_Suc)
  have d: "list_all is_digit ''03''" "list_all is_digit ''16''" "list_all is_digit ''20240301''"
    by (simp_all add: is_digit_def)
  have v: "money_value ''4.50'' = 450" "money_value (''1'' @ ''4.50'') = 1450"
    "py_strip (''PAY'' @ CHR '' '' # ''4.50'' @ CHR '' '' # ''1'') = ''PAY 4.50 1''"
    "format_ymd ''20240301'' = ''2024-03-01''"
    by (simp_all add: money_value_def nat_of_digits_def digit_val_def is_digit_def
        py_strip_def py_isspace_def format_ymd_def)
  have l: "line_head ''03'' ''16'' ''PAY'' @ ''4.50'' @ CHR '' '' # ''1'' @ ''4.50'' = ''03/16 PAY 4.50 14.50''"
    by (simp add: line_head_def)
  show ?thesis
    using parse_line_description_balance_suffix [OF _ d(1) _ d(2) t sc _ d(3), of "''a_20240301.pdf''"] v l
    by simp
qed

subsection \<open>Claims: the loop over the lines\<close>

text \<open>C2. The two-state loop refines the specification's view of the parser: the
  result is the per-line parser applied, in order, to the lines after the first
  \<open>TRANSACTION DETAIL\<close> line other than marker and \<open>Beginning Balance\<close> lines, the
  first exception ending the statement.\<close>

theorem extract_chase_transactions_spec:
  "extract_chase_transactions text fn sd = collect (parse_line fn sd) (section_lines (py_split CHR ''\<newline>'' text))"
  by (rule extract_collect)

text \<open>C6. Lines before the first \<open>TRANSACTION DETAIL\<close> line are never parsed, even when
  they start with a date and carry amounts: removing them changes nothing.\<close>

theorem scan_lines_before_marker:
  assumes "\<forall>l \<in> set xs. \<not> is_marker l"
  shows "scan_lines fn sd scan_init (xs @ ys) = scan_lines fn sd scan_init ys"
proof -
  have "scan_lines fn sd scan_init xs = Inr scan_init"
    using assms by (rule scan_lines_before) (simp add: scan_init_def)
  then show ?thesis by (simp add: scan_lines_append)
qed

theorem scan_lines_before_marker_witness:
  "scan_lines ''f.pdf'' ''2024-03-01'' scan_init [''01/31 CLOSING 1.00 2.00''] = scan_lines ''f.pdf'' ''2024-03-01'' scan_init []"
proof -
  have "\<forall>l \<in> set [''01/31 CLOSING 1.00 2.00'']. \<not> is_marker l" by (simp add: is_marker_def)
  from scan_lines_before_marker [OF this, of "''f.pdf''" "''2024-03-01''" "[]"] show ?thesis by simp
qed

text \<open>C7. Inside the section, a line containing \<open>Beginning Balance\<close> (and no marker)
  is skipped even when it starts with a date: the loop continues with the same state.\<close>

theorem scan_balance_line_skipped:
  assumes "in_transaction_section st" "\<not> is_marker l" "is_balance_line l"
  shows "scan_lines fn sd st (l # ls) = scan_lines fn sd st ls"
  using assms by (simp add: scan_line_balance)

theorem scan_balance_line_skipped_witness:
  "scan_lines ''f.pdf'' ''2024-03-01'' \<lparr>in_transaction_section = True, transactions = []\<rparr>
     [''03/01 Beginning Balance 0.00 1,204.50''] = Inr \<lparr>in_transaction_section = True, transactions = []\<rparr>"
proof -
  have i: "in_transaction_section \<lparr>in_transaction_section = True, transactions = []\<rparr>" by simp
  have "\<not> is_marker ''03/01 Beginning Balance 0.00 1,204.50''" "is_balance_line ''03/01 Beginning Balance 0.00 1,204.50''"
    by (simp_all add: is_marker_def is_balance_line_def sublist_code)
  from scan_balance_line_skipped [OF i this, where fn = "''f.pdf''" and sd = "''2024-03-01''" and ls = "[]"]
  show ?thesis by simp
qed

text \<open>C8. Inside the section, a line with fewer than two monetary tokens produces no
  record and raises nothing; the loop continues with the next line.\<close>

theorem scan_short_line_dropped:
  assumes "in_transaction_section st" "\<not> is_marker l" "\<not> is_balance_line l" "length (find_amounts l) < 2"
  shows "scan_lines fn sd st (l # ls) = scan_lines fn sd st ls"
  using assms by (simp add: scan_line_parse parse_line_few)

theorem scan_short_line_dropped_witness:
  "scan_lines ''f.pdf'' ''2024-03-01'' \<lparr>in_transaction_section = True, transactions = []\<rparr>
     [''03/15 FEE 5.00''] = Inr \<lparr>in_transaction_section = True, transactions = []\<rparr>"
proof -
  have i: "in_transaction_section \<lparr>in_transaction_section = True, transactions = []\<rparr>" by simp
  have m: "\<not> is_marker ''03/15 FEE 5.00''" "\<not> is_balance_line ''03/15 FEE 5.00''"
    by (simp_all add: is_marker_def is_balance_line_def sublist_code)
  have f: "length (find_amounts ''03/15 FEE 5.00'') < 2"
    by (simp add: money_match_def money_body_def is_num_char_def is_digit_def)
  from scan_short_line_dropped [OF i m f, where fn = "''f.pdf''" and sd = "''2024-03-01''" and ls = "[]"]
  show ?thesis by simp
qed

text \<open>C9. Every record of a statement comes from one line of its transaction section:
  it carries the statement's file name and date, the stripped line, a date that is the
  line's leading \<open>MM/DD\<close>, and amount and balance parsed from the last two monetary
  tokens of that same line.\<close>

theorem extract_records_from_lines:
  assumes "extract_chase_transactions text fn sd = Inr ts" "t \<in> set ts"
  shows "\<exists>l \<in> set (section_lines (py_split CHR ''\<newline>'' text)).
           Source_File t = fn \<and> Statement_Date t = sd \<and> Original_Line t = py_strip l \<and>
           match_date (py_strip l) = Some (take 5 (Date t)) \<and> 2 \<le> length (find_amounts l) \<and>
           Amount t = money_value (find_amounts l ! (length (find_amounts l) - 2)) \<and>
           Balance t = money_value (last (find_amounts l))"
  using collect_Inr [OF assms(1) [unfolded extract_collect] assms(2)] parse_line_Some by blast

theorem extract_records_from_lines_witness:
  "\<exists>l \<in> set (section_lines (py_split CHR ''\<newline>'' ''TRANSACTION DETAIL\<newline>03/14 COFFEE SHOP PURCHASE 4.50 1,200.00'')).
     Original_Line \<lparr>Statement_Date = ''2024-03-01'', Date = ''03/14/2024'', Description = ''COFFEE SHOP PURCHASE'',
         Amount = 450, Balance = 120000,
         Original_Line = ''03/14 COFFEE SHOP PURCHASE 4.50 1,200.00'', Source_File = ''a_20240301.pdf''\<rparr> = py_strip l"
  using extract_records_from_lines [OF extract_coffee] by fastforce

subsection \<open>Claims: the shape of a record\<close>

text \<open>C22. The \<open>Date\<close> column is well-formed: in every record the parser returns it is
  two digits, a slash, two digits, a slash and the decimal text of an integer (the
  resolved year), the first five characters being the date matched at the start of the
  stripped line.\<close>

theorem parse_line_date_shape:
  assumes "parse_line fn sd l = Inr (Some t)"
  shows "\<exists>mm dd y. Date t = mm @ CHR ''/'' # dd @ CHR ''/'' # py_str_int y \<and> length mm = 2 \<and> length dd = 2 \<and>
           list_all is_digit (mm @ dd) \<and> match_date (py_strip l) = Some (mm @ CHR ''/'' # dd)"
proof -
  obtain cd ys where md: "match_date (py_strip l) = Some cd"
    and y: "determine_transaction_year cd sd = Inr ys" and dt: "Date t = cd @ ''/'' @ ys"
    using assms by (auto simp: parse_line_def Let_def py_bind_Inr split: option.splits if_splits)
  from match_date_Some [OF md] obtain mm dd where "cd = mm @ CHR ''/'' # dd" "length mm = 2" "length dd = 2"
    "list_all is_digit (mm @ dd)" by blast
  moreover from determine_transaction_year_str [OF y] obtain yr where "ys = py_str_int yr" by blast
  ultimately show ?thesis using md dt by auto
qed
theorem parse_line_date_shape_witness:
  "\<exists>mm dd y. ''03/14/2024'' = mm @ CHR ''/'' # dd @ CHR ''/'' # py_str_int y \<and> length mm = 2 \<and> length dd = 2"
  using parse_line_date_shape [OF coffee_parse [of "''a_20240301.pdf''"]] by auto

end
