(* ===== verification/Discovery.thy ===== *)
theory Discovery
  imports Py_Builtins
begin

text \<open>
  Discovery of the statement files (src/pdf-2-excel.py, lines 54--79): the PDF names of
  the chosen folder, or else of its first immediate subfolder that has some. The file
  system is a list of \<open>dir_entry\<close> values, a name and, for a directory, its listing.
  \<open>discover\<close> is discovery when every \<open>os.listdir\<close> succeeds; \<open>discover_io\<close> is the
  code as written, in which the listing of the chosen folder (line 55) and of each
  subfolder it tries (line 63) can raise \<open>OSError\<close> (\<open>PermissionError\<close> on a directory
  the user may not read); these calls are outside the \<open>try\<close> of line 151. The lemmas
  show that \<open>discover_io\<close> either raises or returns what \<open>discover\<close> returns, and exactly
  when it raises.
\<close>

subsection \<open>Discovery when every listing succeeds (lines 54--79)\<close>

record dir_entry =
  entry_name :: string
  entry_listing :: "string list option"

definition is_pdf_name :: "string \<Rightarrow> bool" where
  "is_pdf_name f \<longleftrightarrow> py_endswith (py_lower f) ''.pdf''"

definition pdf_names :: "string list \<Rightarrow> string list" where
  "pdf_names listing = filter is_pdf_name listing"

text \<open>The loop of lines 60--70: the first directory entry whose own listing has PDF
  names; the result is its name and its listing.\<close>

fun find_pdf_subfolder :: "dir_entry list \<Rightarrow> (string \<times> string list) option" where
  "find_pdf_subfolder [] = None"
| "find_pdf_subfolder (e # es) =
     (case entry_listing e of
        Some sub \<Rightarrow> (if pdf_names sub \<noteq> [] then Some (entry_name e, sub) else find_pdf_subfolder es)
      | None \<Rightarrow> find_pdf_subfolder es)"

datatype folder = Top | Subfolder string

text \<open>Lines 54--79: the chosen folder with its listing, or \<open>None\<close> for the
  \<open>No PDFs Found\<close> dialog and return.\<close>

definition discover :: "dir_entry list \<Rightarrow> (folder \<times> string list) option" where
  "discover entries =
     (let listing = map entry_name entries in
      if pdf_names listing \<noteq> [] then Some (Top, listing)
      else case find_pdf_subfolder entries of
             Some (sub, sub_listing) \<Rightarrow> Some (Subfolder sub, sub_listing)
           | None \<Rightarrow> None)"

subsection \<open>Discovery with listings that can raise (lines 54--79)\<close>

text \<open>The subfolder loop of lines 60--70 as written: \<open>os.path.isdir\<close> is true for a
  directory the user cannot read, and \<open>os.listdir\<close> on it raises; \<open>unreadable\<close>
  names those directories.\<close>

fun find_pdf_subfolder_io :: "string list \<Rightarrow> dir_entry list \<Rightarrow> (string \<times> string list) option py_result" where
  "find_pdf_subfolder_io unreadable [] = Inr None"
| "find_pdf_subfolder_io unreadable (e # es) =
     (case entry_listing e of
        Some sub \<Rightarrow>
          if entry_name e \<in> set unreadable then Inl OSError
          else if pdf_names sub \<noteq> [] then Inr (Some (entry_name e, sub))
          else find_pdf_subfolder_io unreadable es
      | None \<Rightarrow> find_pdf_subfolder_io unreadable es)"

text \<open>Lines 54--79 with the listing of the chosen folder, which raises when the folder
  cannot be read.\<close>

definition discover_io :: "bool \<Rightarrow> string list \<Rightarrow> dir_entry list \<Rightarrow> (folder \<times> string list) option py_result" where
  "discover_io readable unreadable entries =
     (if \<not> readable then Inl OSError
      else let listing = map entry_name entries in
        if pdf_names listing \<noteq> [] then Inr (Some (Top, listing))
        else py_bind (find_pdf_subfolder_io unreadable entries)
               (\<lambda>r. Inr (case r of Some (sub, sub_listing) \<Rightarrow> Some (Subfolder sub, sub_listing) | None \<Rightarrow> None)))"

subsection \<open>Lemmas: discovery\<close>

lemma find_pdf_subfolder_first:
  assumes "entry_listing e = Some l" "pdf_names l \<noteq> []"
    and "\<forall>x \<in> set xs. \<forall>l'. entry_listing x = Some l' \<longrightarrow> pdf_names l' = []"
  shows "find_pdf_subfolder (xs @ e # ys) = Some (entry_name e, l)"
  using assms(3) by (induction xs) (auto simp: assms(1,2) split: option.splits)

lemma find_pdf_subfolder_None:
  "find_pdf_subfolder es = None \<longleftrightarrow> (\<forall>x \<in> set es. \<forall>l. entry_listing x = Some l \<longrightarrow> pdf_names l = [])"
  by (induction es) (auto split: option.splits)

lemma find_pdf_subfolder_pdfs: "find_pdf_subfolder es = Some (s, l) \<Longrightarrow> pdf_names l \<noteq> []"
  by (induction es) (auto split: option.splits if_splits)

lemma discover_pdf_names: "discover es = Some (fo, l) \<Longrightarrow> pdf_names l \<noteq> []"
  by (auto simp: discover_def Let_def dest: find_pdf_subfolder_pdfs split: if_splits option.splits)

lemma discover_one: "discover [\<lparr>entry_name = ''a_20240301.pdf'', entry_listing = None\<rparr>] = Some (Top, [''a_20240301.pdf''])"
  by (simp add: discover_def pdf_names_def is_pdf_name_def py_lower_def py_lower_char_def py_endswith_drop)

lemma discover_two:
  "discover [\<lparr>entry_name = ''a_20240301.pdf'', entry_listing = None\<rparr>,
             \<lparr>entry_name = ''b_20240301.pdf'', entry_listing = None\<rparr>] =
   Some (Top, [''a_20240301.pdf'', ''b_20240301.pdf''])"
  by (simp add: discover_def pdf_names_def is_pdf_name_def py_lower_def py_lower_char_def py_endswith_drop)

lemma discover_two_dates:
  "discover [\<lparr>entry_name = ''a_20240301.pdf'', entry_listing = None\<rparr>,
             \<lparr>entry_name = ''b_20240315.pdf'', entry_listing = None\<rparr>] =
   Some (Top, [''a_20240301.pdf'', ''b_20240315.pdf''])"
  by (simp add: discover_def pdf_names_def is_pdf_name_def py_lower_def py_lower_char_def py_endswith_drop)

lemma find_pdf_subfolder_io_Inr: "find_pdf_subfolder_io unreadable es = Inr r \<Longrightarrow> r = find_pdf_subfolder es"
  by (induction es) (auto split: option.splits if_splits)

lemma find_pdf_subfolder_io_Nil: "find_pdf_subfolder_io [] es = Inr (find_pdf_subfolder es)"
  by (induction es) (auto split: option.splits)

lemma find_pdf_subfolder_io_Inl:
  "find_pdf_subfolder_io unreadable es = Inl e \<longleftrightarrow>
     e = OSError \<and>
     (\<exists>xs x ys. es = xs @ x # ys \<and> entry_listing x \<noteq> None \<and> entry_name x \<in> set unreadable \<and>
        (\<forall>y \<in> set xs. \<forall>l. entry_listing y = Some l \<longrightarrow> entry_name y \<notin> set unreadable \<and> pdf_names l = []))"
  (is "?l es \<longleftrightarrow> ?r es")
proof (induction es)
  case Nil
  then show ?case by simp
next
  case (Cons x es)
  show ?case
  proof (cases "entry_listing x")
    case None
    have "?r (x # es) \<longleftrightarrow> ?r es"
    proof
      assume "?r (x # es)"
      then obtain xs y ys where d: "x # es = xs @ y # ys" "entry_listing y \<noteq> None" "entry_name y \<in> set unreadable"
        "\<forall>z \<in> set xs. \<forall>l. entry_listing z = Some l \<longrightarrow> entry_name z \<notin> set unreadable \<and> pdf_names l = []"
        and "e = OSError" by blast
      with None show "?r es" by (cases xs) auto
    next
      assume "?r es"
      then obtain xs y ys where "es = xs @ y # ys" "entry_listing y \<noteq> None" "entry_name y \<in> set unreadable"
        "\<forall>z \<in> set xs. \<forall>l. entry_listing z = Some l \<longrightarrow> entry_name z \<notin> set unreadable \<and> pdf_names l = []"
        and "e = OSError" by blast
      with None show "?r (x # es)" by (intro conjI exI [of _ "x # xs"]) auto
    qed
    with None Cons.IH show ?thesis by simp
  next
    case (Some sub)
    show ?thesis
    proof (cases "entry_name x \<in> set unreadable")
      case True
      with Some have "?r (x # es) \<longleftrightarrow> e = OSError" by (auto intro!: exI [of _ "[]"])
      with Some True show ?thesis by auto
    next
      case nu: False
      show ?thesis
      proof (cases "pdf_names sub = []")
        case False
        have "\<not> ?r (x # es)"
        proof
          assume "?r (x # es)"
          then obtain xs y ys where d: "x # es = xs @ y # ys" "entry_name y \<in> set unreadable"
            "\<forall>z \<in> set xs. \<forall>l. entry_listing z = Some l \<longrightarrow> entry_name z \<notin> set unreadable \<and> pdf_names l = []"
            by blast
          with Some nu False show False by (cases xs) auto
        qed
        with Some nu False show ?thesis by simp
      next
        case True
        have "?r (x # es) \<longleftrightarrow> ?r es"
        proof
          assume "?r (x # es)"
          then obtain xs y ys where d: "x # es = xs @ y # ys" "entry_listing y \<noteq> None" "entry_name y \<in> set unreadable"
            "\<forall>z \<in> set xs. \<forall>l. entry_listing z = Some l \<longrightarrow> entry_name z \<notin> set unreadable \<and> pdf_names l = []"
            and "e = OSError" by blast
          with nu show "?r es" by (cases xs) auto
        next
          assume "?r es"
          then obtain xs y ys where "es = xs @ y # ys" "entry_listing y \<noteq> None" "entry_name y \<in> set unreadable"
            "\<forall>z \<in> set xs. \<forall>l. entry_listing z = Some l \<longrightarrow> entry_name z \<notin> set unreadable \<and> pdf_names l = []"
            and "e = OSError" by blast
          with Some nu True show "?r (x # es)" by (intro conjI exI [of _ "x # xs"]) auto
        qed
        with Some nu True Cons.IH show ?thesis by simp
      qed
    qed
  qed
qed

lemma discover_io_Inr: "discover_io readable unreadable entries = Inr d \<Longrightarrow> d = discover entries"
  by (cases "find_pdf_subfolder_io unreadable entries")
    (auto simp: discover_io_def discover_def Let_def dest: find_pdf_subfolder_io_Inr split: if_splits)

lemma discover_io_readable: "discover_io True [] entries = Inr (discover entries)"
  by (simp add: discover_io_def discover_def Let_def find_pdf_subfolder_io_Nil split: option.split)

lemma discover_io_top_pdfs:
  "pdf_names (map entry_name entries) \<noteq> [] \<Longrightarrow> discover_io True unreadable entries = Inr (discover entries)"
  by (simp add: discover_io_def discover_def Let_def)

lemma discover_io_Inl:
  "discover_io True unreadable entries = Inl e \<longleftrightarrow>
     pdf_names (map entry_name entries) = [] \<and> find_pdf_subfolder_io unreadable entries = Inl e"
  by (cases "find_pdf_subfolder_io unreadable entries") (simp_all add: discover_io_def Let_def)

subsection \<open>Claims\<close>

text \<open>Discovery as written refines discovery with listings that never fail: when
  the chosen folder and all its subfolders can be read it is \<open>discover\<close>, and whenever
  it returns rather than raises, whatever cannot be read, it returns what \<open>discover\<close>
  returns, so every theorem about \<open>discover\<close> holds of the code's discovery when it
  returns.\<close>

lemma discover_io_refines:
  "discover_io True [] entries = Inr (discover entries) \<and>
   (discover_io readable unreadable entries = Inr d \<longrightarrow> d = discover entries)"
  by (simp add: discover_io_readable discover_io_Inr)

lemma discover_io_refines_example:
  "discover_io True [''lost+found''] [\<lparr>entry_name = ''a_20240301.pdf'', entry_listing = None\<rparr>] =
   Inr (discover [\<lparr>entry_name = ''a_20240301.pdf'', entry_listing = None\<rparr>])"
proof -
  have r: "discover_io True [''lost+found''] [\<lparr>entry_name = ''a_20240301.pdf'', entry_listing = None\<rparr>] =
          Inr (Some (Top, [''a_20240301.pdf'']))"
    by (simp add: discover_io_def pdf_names_def is_pdf_name_def py_lower_def py_lower_char_def py_endswith_drop)
  from discover_io_refines [THEN conjunct2, rule_format, OF r] r show ?thesis by simp
qed

text \<open>C25. Discovery: when the chosen folder has no PDF name, the PDFs are taken from
  the first directory entry, in listing order, whose own listing has a PDF name (the
  suffix compared case-insensitively); later subfolders are ignored.\<close>

theorem discover_first_subfolder:
  assumes "pdf_names (map entry_name (xs @ e # ys)) = []"
    and "entry_listing e = Some l" "pdf_names l \<noteq> []"
    and "\<forall>x \<in> set xs. \<forall>l'. entry_listing x = Some l' \<longrightarrow> pdf_names l' = []"
  shows "discover (xs @ e # ys) = Some (Subfolder (entry_name e), l)"
  using find_pdf_subfolder_first [OF assms(2-4), of ys] assms(1) by (simp add: discover_def)

theorem discover_first_subfolder_witness:
  "discover [\<lparr>entry_name = ''notes.txt'', entry_listing = None\<rparr>,
      \<lparr>entry_name = ''2023'', entry_listing = Some [''readme.txt'']\<rparr>,
      \<lparr>entry_name = ''2024'', entry_listing = Some [''a_20240301.PDF'']\<rparr>,
      \<lparr>entry_name = ''2025'', entry_listing = Some [''b_20250301.pdf'']\<rparr>] =
   Some (Subfolder ''2024'', [''a_20240301.PDF''])"
proof -
  have "char_of (100::nat) = CHR ''d''" "char_of (112::nat) = CHR ''p''" "char_of (102::nat) = CHR ''f''"
    by code_simp+
  then have "pdf_names (map entry_name [\<lparr>entry_name = ''notes.txt'', entry_listing = None\<rparr>,
      \<lparr>entry_name = ''2023'', entry_listing = Some [''readme.txt'']\<rparr>,
      \<lparr>entry_name = ''2024'', entry_listing = Some [''a_20240301.PDF'']\<rparr>,
      \<lparr>entry_name = ''2025'', entry_listing = Some [''b_20250301.pdf'']\<rparr>]) = []"
    "pdf_names [''a_20240301.PDF''] \<noteq> []"
    "\<forall>x \<in> set [\<lparr>entry_name = ''notes.txt'', entry_listing = None\<rparr>,
               \<lparr>entry_name = ''2023'', entry_listing = Some [''readme.txt'']\<rparr>].
       \<forall>l'. entry_listing x = Some l' \<longrightarrow> pdf_names l' = []"
    by (simp_all add: pdf_names_def is_pdf_name_def py_lower_def py_lower_char_def py_endswith_drop)
  from discover_first_subfolder [of "[\<lparr>entry_name = ''notes.txt'', entry_listing = None\<rparr>,
      \<lparr>entry_name = ''2023'', entry_listing = Some [''readme.txt'']\<rparr>]"
      "\<lparr>entry_name = ''2024'', entry_listing = Some [''a_20240301.PDF'']\<rparr>"
      "[\<lparr>entry_name = ''2025'', entry_listing = Some [''b_20250301.pdf'']\<rparr>]", OF _ _ this(2,3)] this(1)
  show ?thesis by simp
qed

text \<open>Discovery failure: the \<open>No PDFs Found\<close> outcome happens exactly when neither
  the folder nor any of its immediate subfolders has a PDF name.\<close>

lemma discover_none:
  "discover es = None \<longleftrightarrow>
   pdf_names (map entry_name es) = [] \<and> (\<forall>x \<in> set es. \<forall>l. entry_listing x = Some l \<longrightarrow> pdf_names l = [])"
  by (simp add: discover_def Let_def find_pdf_subfolder_None [symmetric] split: option.split)

lemma discover_none_example:
  "discover [\<lparr>entry_name = ''notes.txt'', entry_listing = None\<rparr>,
             \<lparr>entry_name = ''2023'', entry_listing = Some [''readme.txt'']\<rparr>] = None"
  using discover_none [of "[\<lparr>entry_name = ''notes.txt'', entry_listing = None\<rparr>,
             \<lparr>entry_name = ''2023'', entry_listing = Some [''readme.txt'']\<rparr>]"]
  by (simp add: pdf_names_def is_pdf_name_def py_lower_def py_lower_char_def py_endswith_drop)

end
