(* ===== verification/Batch.thy ===== *)
theory Batch
  imports Line_Parser Discovery "HOL-Library.Product_Lexorder"
begin

text \<open>
  The Batch Orchestrator, the body of \<open>main()\<close> after the folder is chosen and its
  statement files discovered (src/pdf-2-excel.py, lines 151--195; discovery, lines
  54--79, is the theory Discovery). The folder is listed again, its PDF files paired
  with their statement dates and sorted stably by date; each file's pages are read and concatenated, parsed, and the records numbered
  1, 2, ... within the statement, a file whose reading or parsing raises being skipped;
  no records at all ends the run; otherwise every record's \<open>Date\<close> is converted by
  \<open>pd.to_datetime\<close> and the records are sorted stably by (date, sequence number).

  pdfplumber is a parameter \<open>pdf_pages\<close> from a path to the pages' texts
  (\<open>None\<close> for a page without text) or an exception; \<open>pd.to_datetime\<close> is a parameter
  \<open>to_datetime\<close> into any linear order, \<open>None\<close> for a date it rejects. The record with
  its sequence number is the record extension \<open>stxn\<close> of \<open>txn\<close>, as the code adds the
  key \<open>Statement_Sequence\<close> to each dict.
\<close>

subsection \<open>The path of a statement file (line 168)\<close>

definition pdf_path :: "folder \<Rightarrow> string \<Rightarrow> string" where
  "pdf_path fo filename = (case fo of Top \<Rightarrow> filename | Subfolder s \<Rightarrow> s @ ''/'' @ filename)"

subsection \<open>Statement files in date order (lines 153--160)\<close>

definition statement_files :: "string list \<Rightarrow> (string \<times> string) list" where
  "statement_files listing =
     sort_key fst (map (\<lambda>filename. (extract_statement_date filename, filename)) (filter is_pdf_name listing))"

subsection \<open>One statement (lines 170--181)\<close>

text \<open>\<open>text += page.extract_text() + "\n"\<close>: a page without text is \<open>None\<close>, and
  \<open>None + "\n"\<close> raises \<open>TypeError\<close>.\<close>

fun append_pages :: "string \<Rightarrow> string option list \<Rightarrow> string py_result" where
  "append_pages text [] = Inr text"
| "append_pages text (None # pages) = Inl TypeError"
| "append_pages text (Some s # pages) = append_pages (text @ s @ ''\<newline>'') pages"

record stxn = txn +
  Statement_Sequence :: nat

definition number_transactions :: "txn list \<Rightarrow> stxn list" where
  "number_transactions ts =
     map (\<lambda>(i, t). txn.extend t (stxn.fields (i + 1))) (enumerate 0 ts)"

definition process_file ::
  "(string \<Rightarrow> string option list py_result) \<Rightarrow> folder \<Rightarrow> string \<times> string \<Rightarrow> stxn list py_result" where
  "process_file pdf_pages fo f =
     (case f of (statement_date, filename) \<Rightarrow>
        py_bind (pdf_pages (pdf_path fo filename)) (\<lambda>pages.
        py_bind (append_pages [] pages) (\<lambda>text.
        py_bind (extract_chase_transactions text filename statement_date) (\<lambda>ts.
        Inr (number_transactions ts)))))"

text \<open>The loop of lines 167--184: \<open>except Exception: continue\<close>.\<close>

fun process_statements ::
  "(string \<Rightarrow> string option list py_result) \<Rightarrow> folder \<Rightarrow> (string \<times> string) list \<Rightarrow> stxn list \<Rightarrow> stxn list" where
  "process_statements pdf_pages fo [] all_transactions = all_transactions"
| "process_statements pdf_pages fo (f # fs) all_transactions =
     (case process_file pdf_pages fo f of
        Inl e \<Rightarrow> process_statements pdf_pages fo fs all_transactions
      | Inr ts \<Rightarrow> process_statements pdf_pages fo fs (all_transactions @ ts))"

subsection \<open>The final sort and the outcome (lines 186--195)\<close>

text \<open>\<open>df['Sort_Date'] = pd.to_datetime(df['Date'])\<close>: one failure raises.\<close>

definition sort_date_column :: "(string \<Rightarrow> 'd option) \<Rightarrow> stxn list \<Rightarrow> 'd list option" where
  "sort_date_column to_datetime rows = those (map (\<lambda>r. to_datetime (Date r)) rows)"

text \<open>\<open>df.sort_values(['Sort_Date', 'Statement_Sequence'])\<close>: with two keys pandas
  sorts by a stable lexicographic sort.\<close>

definition sort_values :: "'d::linorder list \<Rightarrow> stxn list \<Rightarrow> stxn list" where
  "sort_values sort_date rows =
     map snd (sort_key (\<lambda>(d, r). (d, Statement_Sequence r)) (zip sort_date rows))"

datatype batch_outcome = No_PDFs_Found | No_Transactions | Run_Failed | Report nat "stxn list"

definition run_batch ::
  "(string \<Rightarrow> string option list py_result) \<Rightarrow> (string \<Rightarrow> 'd::linorder option) \<Rightarrow> dir_entry list \<Rightarrow> batch_outcome" where
  "run_batch pdf_pages to_datetime entries =
     (case discover entries of
        None \<Rightarrow> No_PDFs_Found
      | Some (fo, listing) \<Rightarrow>
          (let pdf_files = statement_files listing;
               all_transactions = process_statements pdf_pages fo pdf_files []
           in if all_transactions = [] then No_Transactions
              else case sort_date_column to_datetime all_transactions of
                     None \<Rightarrow> Run_Failed
                   | Some sort_date \<Rightarrow> Report (length pdf_files) (sort_values sort_date all_transactions)))"

text \<open>The two sheets of the workbook (lines 205 and 209).\<close>

definition transactions_sheet :: "stxn list \<Rightarrow> txn list" where
  "transactions_sheet rows = map txn.truncate rows"

definition verification_sheet :: "stxn list \<Rightarrow> (string \<times> string \<times> string \<times> int \<times> string) list" where
  "verification_sheet rows =
     map (\<lambda>r. (Statement_Date r, Date r, Description r, Amount r, Original_Line r)) rows"

subsection \<open>The orchestrator as a composition of per-file results\<close>

text \<open>What one statement contributes: its numbered records, or nothing when reading
  or parsing it raised. The key of the final sort for a record.\<close>

definition statement_records ::
  "(string \<Rightarrow> string option list py_result) \<Rightarrow> folder \<Rightarrow> string \<times> string \<Rightarrow> stxn list" where
  "statement_records pdf_pages fo f = (case process_file pdf_pages fo f of Inl e \<Rightarrow> [] | Inr ts \<Rightarrow> ts)"

definition batch_key :: "(string \<Rightarrow> 'd option) \<Rightarrow> stxn \<Rightarrow> 'd \<times> nat" where
  "batch_key to_datetime r = (the (to_datetime (Date r)), Statement_Sequence r)"

text \<open>A model of \<open>pd.to_datetime\<close> on the \<open>Date\<close> column, whose values are
  \<open>MM/DD/YYYY\<close>: the format pandas infers from such a value is \<open>%m/%d/%Y\<close>, and a value
  that is not a calendar date under it (month 13, February 30) raises, as does a date
  outside the range of pandas' nanosecond timestamps (1677-09-21 to 2262-04-11, here
  at day granularity). Dates are compared as (year, month, day).\<close>

definition days_in_month :: "int \<Rightarrow> int \<Rightarrow> int" where
  "days_in_month y m =
     (if m = 2 then (if (y mod 4 = 0 \<and> y mod 100 \<noteq> 0) \<or> y mod 400 = 0 then 29 else 28)
      else if m = 4 \<or> m = 6 \<or> m = 9 \<or> m = 11 then 30 else 31)"

definition valid_timestamp :: "int \<Rightarrow> int \<Rightarrow> int \<Rightarrow> bool" where
  "valid_timestamp yr mo da \<longleftrightarrow>
     1 \<le> mo \<and> mo \<le> 12 \<and> 1 \<le> da \<and> da \<le> days_in_month yr mo \<and>
     (1677, 9, 22) \<le> (yr, mo, da) \<and> (yr, mo, da) \<le> (2262, 4, 11)"

definition to_datetime_mdy :: "string \<Rightarrow> (int \<times> int \<times> int) option" where
  "to_datetime_mdy s =
     (case py_split CHR ''/'' s of
        [m, d, y] \<Rightarrow>
          (if m \<noteq> [] \<and> d \<noteq> [] \<and> y \<noteq> [] \<and> list_all is_digit (m @ d @ y) then
             (let mo = int (nat_of_digits m); da = int (nat_of_digits d); yr = int (nat_of_digits y) in
              if valid_timestamp yr mo da then Some (yr, mo, da) else None)
           else None)
      | _ \<Rightarrow> None)"

subsection \<open>Lemmas: numbering, the loop over the files, the final sort\<close>

lemma truncate_extend [simp]: "txn.truncate (txn.extend t m) = t"
  by (simp add: txn.truncate_def txn.extend_def)

lemma sequence_extend [simp]: "Statement_Sequence (txn.extend t (stxn.fields k)) = k"
  by (simp add: txn.defs stxn.defs)

lemma enumerate_truncate:
  "map txn.truncate (map (\<lambda>(i, t). txn.extend t (stxn.fields (i + 1))) (enumerate n ts)) = ts"
  by (induction ts arbitrary: n) simp_all

lemma enumerate_sequence:
  "map Statement_Sequence (map (\<lambda>(i, t). txn.extend t (stxn.fields (i + 1))) (enumerate n ts)) =
   [n + 1..<n + 1 + length ts]"
  by (induction ts arbitrary: n) (simp_all del: upt_Suc add: upt_conv_Cons)

lemma number_transactions_truncate [simp]: "map txn.truncate (number_transactions ts) = ts"
  using enumerate_truncate [of 0] by (simp add: number_transactions_def)

lemma number_transactions_seq: "map Statement_Sequence (number_transactions ts) = [1..<length ts + 1]"
  using enumerate_sequence [of 0] by (simp add: number_transactions_def)

lemma length_number_transactions [simp]: "length (number_transactions ts) = length ts"
  by (simp add: number_transactions_def)

lemma process_statements_concat:
  "process_statements pdf_pages fo fs acc = acc @ concat (map (statement_records pdf_pages fo) fs)"
  by (induction fs arbitrary: acc) (simp_all add: statement_records_def split: sum.split)

lemma zip_sort_date:
  "map (\<lambda>r. to_datetime (Date r)) rows = map Some ds \<Longrightarrow>
   zip ds rows = map (\<lambda>r. (the (to_datetime (Date r)), r)) rows"
proof (induction rows arbitrary: ds)
  case Nil
  then show ?case by simp
next
  case (Cons r rows)
  then show ?case by (cases ds) auto
qed

lemma sort_values_sort_key:
  assumes "sort_date_column to_datetime rows = Some ds"
  shows "sort_values ds rows = sort_key (batch_key to_datetime) rows"
proof -
  have "zip ds rows = map (\<lambda>r. (the (to_datetime (Date r)), r)) rows"
    using assms by (simp add: sort_date_column_def those_eq_Some zip_sort_date)
  then show ?thesis by (simp add: sort_values_def sort_key_map batch_key_def [abs_def] comp_def)
qed

lemma run_batch_cases:
  "run_batch pdf_pages to_datetime entries =
     (case discover entries of
        None \<Rightarrow> No_PDFs_Found
      | Some (fo, listing) \<Rightarrow>
          (let rows = concat (map (statement_records pdf_pages fo) (statement_files listing)) in
           if rows = [] then No_Transactions
           else if \<exists>r \<in> set rows. to_datetime (Date r) = None then Run_Failed
           else Report (length (statement_files listing)) (sort_key (batch_key to_datetime) rows)))"
proof (cases "discover entries")
  case None
  then show ?thesis by (simp add: run_batch_def)
next
  case (Some a)
  obtain fo listing where a: "a = (fo, listing)" by (cases a)
  let ?rows = "concat (map (statement_records pdf_pages fo) (statement_files listing))"
  show ?thesis
  proof (cases "sort_date_column to_datetime ?rows")
    case None
    then have "\<exists>r \<in> set ?rows. to_datetime (Date r) = None"
      unfolding sort_date_column_def those_eq_None by (metis (no_types, lifting) ex_map_conv image_iff set_map)
    with None Some a show ?thesis by (simp add: run_batch_def process_statements_concat Let_def)
  next
    case (Some ds)
    then have "those (map (\<lambda>r. to_datetime (Date r)) ?rows) \<noteq> None"
      by (simp add: sort_date_column_def)
    then have "None \<notin> set (map (\<lambda>r. to_datetime (Date r)) ?rows)"
      by (simp only: those_eq_None not_False_eq_True)
    then have "\<forall>r \<in> set ?rows. to_datetime (Date r) \<noteq> None"
      by (metis (no_types, lifting) image_eqI set_map)
    with Some \<open>discover entries = Some a\<close> a show ?thesis
      by (simp add: run_batch_def process_statements_concat Let_def sort_values_sort_key)
  qed
qed

subsection \<open>Lemmas: discovery and the order of the statement files\<close>

lemma statement_files_mset:
  "mset (statement_files l) = mset (map (\<lambda>f. (extract_statement_date f, f)) (pdf_names l))"
  by (simp add: statement_files_def pdf_names_def)

lemma length_statement_files [simp]: "length (statement_files l) = length (pdf_names l)"
  by (simp add: statement_files_def pdf_names_def)

lemma statement_files_Nil: "statement_files l = [] \<longleftrightarrow> pdf_names l = []"
  by (metis length_0_conv length_statement_files)

lemma statement_files_perm:
  assumes "mset l1 = mset l2"
  shows "mset (map (\<lambda>f. (extract_statement_date f, f)) (pdf_names l1)) =
         mset (map (\<lambda>f. (extract_statement_date f, f)) (pdf_names l2))"
  using assms by (simp add: pdf_names_def)

lemma append_pages_acc:
  "append_pages acc pages =
     (if None \<in> set pages then Inl TypeError else Inr (acc @ concat (map (\<lambda>p. the p @ ''\<newline>'') pages)))"
proof (induction acc pages rule: append_pages.induct)
  case (1 acc)
  then show ?case by simp
next
  case (2 acc pages)
  then show ?case by simp
next
  case (3 acc s pages)
  then show ?case by simp
qed

subsection \<open>Lemmas: one-page statements\<close>

text \<open>A statement whose only page is the marker line and one transaction line.\<close>

lemma extract_page_line:
  assumes "CHR ''\<newline>'' \<notin> set l" "\<not> is_marker l" "\<not> is_balance_line l" "parse_line fn sd l = Inr r"
  shows "extract_chase_transactions (''TRANSACTION DETAIL'' @ CHR ''\<newline>'' # l @ ''\<newline>'') fn sd =
           Inr (case r of None \<Rightarrow> [] | Some t \<Rightarrow> [t])"
proof -
  have "py_split CHR ''\<newline>'' (''TRANSACTION DETAIL'' @ CHR ''\<newline>'' # l @ CHR ''\<newline>'' # []) =
        [''TRANSACTION DETAIL'', l, []]"
    using assms(1) by (simp add: py_split_append_sep py_split_no_sep_id)
  moreover have "section_lines [''TRANSACTION DETAIL'', l, []] = [l, []]"
    using assms(2,3) by (simp add: section_lines_def after_marker_def is_marker_def is_balance_line_def sublist_code)
  moreover have "parse_line fn sd [] = Inr None"
    by (simp add: parse_line_def match_date_def py_strip_def)
  ultimately show ?thesis using assms(4) by (simp add: extract_collect split: option.split)
qed

lemma statement_records_page_line:
  assumes "pdf_pages (pdf_path fo fn) = Inr [Some (''TRANSACTION DETAIL'' @ CHR ''\<newline>'' # l)]"
    and "CHR ''\<newline>'' \<notin> set l" "\<not> is_marker l" "\<not> is_balance_line l" "parse_line fn sd l = Inr (Some t)"
  shows "statement_records pdf_pages fo (sd, fn) = [txn.extend t (stxn.fields 1)]"
proof -
  have "append_pages [] [Some (''TRANSACTION DETAIL'' @ CHR ''\<newline>'' # l)] =
        Inr (''TRANSACTION DETAIL'' @ CHR ''\<newline>'' # l @ ''\<newline>'')"
    by simp
  with extract_page_line [OF assms(2-5)] assms(1) show ?thesis
    by (simp add: statement_records_def process_file_def number_transactions_def)
qed

subsection \<open>Lemmas: concrete statements\<close>

lemma late_fee_parse:
  "parse_line fn ''2024-03-01'' ''02/30 LATE FEE 5.00 90.00'' =
     Inr (Some \<lparr>Statement_Date = ''2024-03-01'', Date = ''02/30/2024'', Description = ''LATE FEE'',
                Amount = 500, Balance = 9000,
                Original_Line = ''02/30 LATE FEE 5.00 90.00'', Source_File = fn\<rparr>)"
proof -
  have "money_match ''5.00'' = Some (''5.00'', [])" "money_match ''90.00'' = Some (''90.00'', [])"
    by (simp_all add: money_match_def money_body_def is_num_char_def is_digit_def)
  then have t: "money_token ''5.00''" "money_token ''90.00''" by (simp_all add: money_token_by_match)
  have n: "\<not> sublist ''5.00'' ''90.00''" by (simp add: sublist_code)
  have sc: "\<forall>i < length (line_head ''02'' ''30'' ''LATE FEE'').
      money_match (drop i (line_head ''02'' ''30'' ''LATE FEE'' @ ''5.00'' @ CHR '' '' # ''90.00'')) = None"
    by (simp add: line_head_def money_match_def money_body_def is_num_char_def is_digit_def
        less_Suc_eq numeral_eq_Suc All_less_Suc)
  have d: "list_all is_digit ''02''" "list_all is_digit ''30''" "list_all is_digit ''20240301''"
    by (simp_all add: is_digit_def)
  have v: "money_value ''5.00'' = 500" "money_value ''90.00'' = 9000"
    "nat_of_digits ''02'' = 2" "nat_of_digits ''2024'' = 2024" "py_str_int 2024 = ''2024''"
    "py_strip ''LATE FEE'' = ''LATE FEE''" "format_ymd ''20240301'' = ''2024-03-01''"
    by (simp_all add: money_value_def nat_of_digits_def digit_val_def is_digit_def py_str_int_def
        string_of_nat.simps py_strip_def py_isspace_def format_ymd_def)
  have l: "line_head ''02'' ''30'' ''LATE FEE'' @ ''5.00'' @ CHR '' '' # ''90.00'' = ''02/30 LATE FEE 5.00 90.00''"
    by (simp add: line_head_def)
  show ?thesis
    using parse_line_wellformed_line [OF _ d(1) _ d(2) t n sc _ d(3), of fn] v l
    by (simp add: rollover_year_def)
qed

lemma coffee_page_line:
  "CHR ''\<newline>'' \<notin> set ''03/14 COFFEE SHOP PURCHASE 4.50 1,200.00''"
  "\<not> is_marker ''03/14 COFFEE SHOP PURCHASE 4.50 1,200.00''"
  "\<not> is_balance_line ''03/14 COFFEE SHOP PURCHASE 4.50 1,200.00''"
  by (simp_all add: is_marker_def is_balance_line_def sublist_code)

lemma statement_files_one: "statement_files [''a_20240301.pdf''] = [(''2024-03-01'', ''a_20240301.pdf'')]"
  by (simp add: statement_files_def is_pdf_name_def py_lower_def py_lower_char_def py_endswith_drop
     extract_statement_date_def run8_at_def is_digit_def format_ymd_def)

lemma to_datetime_mdy_examples: "to_datetime_mdy ''03/14/2024'' = Some (2024, 3, 14)" "to_datetime_mdy ''02/30/2024'' = None"
  by (simp_all add: to_datetime_mdy_def valid_timestamp_def days_in_month_def is_digit_def nat_of_digits_def digit_val_def Let_def)

lemma statement_files_two:
  "statement_files [''a_20240301.pdf'', ''b_20240301.pdf''] =
     [(''2024-03-01'', ''a_20240301.pdf''), (''2024-03-01'', ''b_20240301.pdf'')]"
  "statement_files [''b_20240301.pdf'', ''a_20240301.pdf''] =
     [(''2024-03-01'', ''b_20240301.pdf''), (''2024-03-01'', ''a_20240301.pdf'')]"
  by (simp_all add: statement_files_def is_pdf_name_def py_lower_def py_lower_char_def py_endswith_drop
     extract_statement_date_def run8_at_def is_digit_def format_ymd_def)

lemma late_fee_page_line:
  "CHR ''\<newline>'' \<notin> set ''02/30 LATE FEE 5.00 90.00''"
  "\<not> is_marker ''02/30 LATE FEE 5.00 90.00''"
  "\<not> is_balance_line ''02/30 LATE FEE 5.00 90.00''"
  by (simp_all add: is_marker_def is_balance_line_def sublist_code)

lemma run_one_statement:
  "run_batch (\<lambda>p. Inr [Some (''TRANSACTION DETAIL'' @ CHR ''\<newline>'' # ''03/14 COFFEE SHOP PURCHASE 4.50 1,200.00'')])
     to_datetime_mdy [\<lparr>entry_name = ''a_20240301.pdf'', entry_listing = None\<rparr>] =
   Report 1 [txn.extend \<lparr>Statement_Date = ''2024-03-01'', Date = ''03/14/2024'', Description = ''COFFEE SHOP PURCHASE'',
                Amount = 450, Balance = 120000,
                Original_Line = ''03/14 COFFEE SHOP PURCHASE 4.50 1,200.00'', Source_File = ''a_20240301.pdf''\<rparr>
             (stxn.fields 1)]"
  using statement_records_page_line [OF _ coffee_page_line coffee_parse, of "\<lambda>p. Inr [Some (''TRANSACTION DETAIL'' @ CHR ''\<newline>'' # ''03/14 COFFEE SHOP PURCHASE 4.50 1,200.00'')]" Top "''a_20240301.pdf''"]
  by (simp add: run_batch_cases discover_one statement_files_one to_datetime_mdy_examples txn.defs stxn.defs)

lemma run_two_statements:
  "run_batch (\<lambda>p. Inr [Some (''TRANSACTION DETAIL'' @ CHR ''\<newline>'' # ''03/14 COFFEE SHOP PURCHASE 4.50 1,200.00'')])
     to_datetime_mdy [\<lparr>entry_name = ''a_20240301.pdf'', entry_listing = None\<rparr>,
                      \<lparr>entry_name = ''b_20240301.pdf'', entry_listing = None\<rparr>] =
   Report 2 [txn.extend \<lparr>Statement_Date = ''2024-03-01'', Date = ''03/14/2024'', Description = ''COFFEE SHOP PURCHASE'',
                Amount = 450, Balance = 120000,
                Original_Line = ''03/14 COFFEE SHOP PURCHASE 4.50 1,200.00'', Source_File = ''a_20240301.pdf''\<rparr>
             (stxn.fields 1),
             txn.extend \<lparr>Statement_Date = ''2024-03-01'', Date = ''03/14/2024'', Description = ''COFFEE SHOP PURCHASE'',
                Amount = 450, Balance = 120000,
                Original_Line = ''03/14 COFFEE SHOP PURCHASE 4.50 1,200.00'', Source_File = ''b_20240301.pdf''\<rparr>
             (stxn.fields 1)]"
  using statement_records_page_line [OF _ coffee_page_line coffee_parse, of "\<lambda>p. Inr [Some (''TRANSACTION DETAIL'' @ CHR ''\<newline>'' # ''03/14 COFFEE SHOP PURCHASE 4.50 1,200.00'')]" Top "''a_20240301.pdf''"]
    statement_records_page_line [OF _ coffee_page_line coffee_parse, of "\<lambda>p. Inr [Some (''TRANSACTION DETAIL'' @ CHR ''\<newline>'' # ''03/14 COFFEE SHOP PURCHASE 4.50 1,200.00'')]" Top "''b_20240301.pdf''"]
  by (simp add: run_batch_cases discover_two statement_files_two to_datetime_mdy_examples batch_key_def txn.defs stxn.defs)

lemma grocery_parse:
  "parse_line fn ''2024-03-15'' ''03/10 GROCERY 20.00 1,180.00'' =
     Inr (Some \<lparr>Statement_Date = ''2024-03-15'', Date = ''03/10/2024'', Description = ''GROCERY'',
                Amount = 2000, Balance = 118000,
                Original_Line = ''03/10 GROCERY 20.00 1,180.00'', Source_File = fn\<rparr>)"
proof -
  have "money_match ''20.00'' = Some (''20.00'', [])" "money_match ''1,180.00'' = Some (''1,180.00'', [])"
    by (simp_all add: money_match_def money_body_def is_num_char_def is_digit_def)
  then have t: "money_token ''20.00''" "money_token ''1,180.00''" by (simp_all add: money_token_by_match)
  have n: "\<not> sublist ''20.00'' ''1,180.00''" by (simp add: sublist_code)
  have sc: "\<forall>i < length (line_head ''03'' ''10'' ''GROCERY'').
      money_match (drop i (line_head ''03'' ''10'' ''GROCERY'' @ ''20.00'' @ CHR '' '' # ''1,180.00'')) = None"
    by (simp add: line_head_def money_match_def money_body_def is_num_char_def is_digit_def
        less_Suc_eq numeral_eq_Suc All_less_Suc)
  have d: "list_all is_digit ''03''" "list_all is_digit ''10''" "list_all is_digit ''20240315''"
    by (simp_all add: is_digit_def)
  have v: "money_value ''20.00'' = 2000" "money_value ''1,180.00'' = 118000"
    "nat_of_digits ''03'' = 3" "nat_of_digits ''2024'' = 2024" "py_str_int 2024 = ''2024''"
    "py_strip ''GROCERY'' = ''GROCERY''" "format_ymd ''20240315'' = ''2024-03-15''"
    by (simp_all add: money_value_def nat_of_digits_def digit_val_def is_digit_def py_str_int_def
        string_of_nat.simps py_strip_def py_isspace_def format_ymd_def)
  have l: "line_head ''03'' ''10'' ''GROCERY'' @ ''20.00'' @ CHR '' '' # ''1,180.00'' = ''03/10 GROCERY 20.00 1,180.00''"
    by (simp add: line_head_def)
  show ?thesis
    using parse_line_wellformed_line [OF _ d(1) _ d(2) t n sc _ d(3), of fn] v l
    by (simp add: rollover_year_def)
qed

lemma grocery_page_line:
  "CHR ''\<newline>'' \<notin> set ''03/10 GROCERY 20.00 1,180.00''"
  "\<not> is_marker ''03/10 GROCERY 20.00 1,180.00''"
  "\<not> is_balance_line ''03/10 GROCERY 20.00 1,180.00''"
  by (simp_all add: is_marker_def is_balance_line_def sublist_code)

lemma statement_files_two_dates:
  "statement_files [''a_20240301.pdf'', ''b_20240315.pdf''] =
     [(''2024-03-01'', ''a_20240301.pdf''), (''2024-03-15'', ''b_20240315.pdf'')]"
  by (simp add: statement_files_def is_pdf_name_def py_lower_def py_lower_char_def py_endswith_drop
     extract_statement_date_def run8_at_def is_digit_def format_ymd_def)

lemma to_datetime_mdy_grocery: "to_datetime_mdy ''03/10/2024'' = Some (2024, 3, 10)"
  by (simp add: to_datetime_mdy_def valid_timestamp_def days_in_month_def is_digit_def nat_of_digits_def digit_val_def Let_def)

lemma run_two_dates:
  "run_batch (\<lambda>p. if p = ''a_20240301.pdf'' then Inr [Some (''TRANSACTION DETAIL'' @ CHR ''\<newline>'' # ''03/14 COFFEE SHOP PURCHASE 4.50 1,200.00'')]
                  else Inr [Some (''TRANSACTION DETAIL'' @ CHR ''\<newline>'' # ''03/10 GROCERY 20.00 1,180.00'')])
     to_datetime_mdy [\<lparr>entry_name = ''a_20240301.pdf'', entry_listing = None\<rparr>,
                      \<lparr>entry_name = ''b_20240315.pdf'', entry_listing = None\<rparr>] =
   Report 2 [txn.extend \<lparr>Statement_Date = ''2024-03-15'', Date = ''03/10/2024'', Description = ''GROCERY'',
                Amount = 2000, Balance = 118000,
                Original_Line = ''03/10 GROCERY 20.00 1,180.00'', Source_File = ''b_20240315.pdf''\<rparr>
             (stxn.fields 1),
             txn.extend \<lparr>Statement_Date = ''2024-03-01'', Date = ''03/14/2024'', Description = ''COFFEE SHOP PURCHASE'',
                Amount = 450, Balance = 120000,
                Original_Line = ''03/14 COFFEE SHOP PURCHASE 4.50 1,200.00'', Source_File = ''a_20240301.pdf''\<rparr>
             (stxn.fields 1)]"
  using statement_records_page_line [OF _ coffee_page_line coffee_parse, of "\<lambda>p. if p = ''a_20240301.pdf'' then Inr [Some (''TRANSACTION DETAIL'' @ CHR ''\<newline>'' # ''03/14 COFFEE SHOP PURCHASE 4.50 1,200.00'')]
                  else Inr [Some (''TRANSACTION DETAIL'' @ CHR ''\<newline>'' # ''03/10 GROCERY 20.00 1,180.00'')]" Top "''a_20240301.pdf''"]
    statement_records_page_line [OF _ grocery_page_line grocery_parse, of "\<lambda>p. if p = ''a_20240301.pdf'' then Inr [Some (''TRANSACTION DETAIL'' @ CHR ''\<newline>'' # ''03/14 COFFEE SHOP PURCHASE 4.50 1,200.00'')]
                  else Inr [Some (''TRANSACTION DETAIL'' @ CHR ''\<newline>'' # ''03/10 GROCERY 20.00 1,180.00'')]" Top "''b_20240315.pdf''"]
  by (simp add: run_batch_cases discover_two_dates statement_files_two_dates to_datetime_mdy_examples to_datetime_mdy_grocery
      batch_key_def txn.defs stxn.defs pdf_path_def)

subsection \<open>Claims: the run\<close>

text \<open>C3. The orchestrator refines the specification's pipeline: a report holds the
  records of every statement file of the chosen folder whose reading and parsing
  succeeded, numbered within their statement and sorted stably by (transaction date,
  sequence number); every record's date converted; and the statement count it reports
  is the number of PDF files, failed ones included.\<close>

theorem run_batch_report:
  assumes "run_batch pdf_pages to_datetime entries = Report n rows"
  shows "\<exists>fo listing. discover entries = Some (fo, listing) \<and> n = length (pdf_names listing) \<and>
           rows = sort_key (batch_key to_datetime)
                    (concat (map (statement_records pdf_pages fo) (statement_files listing))) \<and>
           (\<forall>r \<in> set rows. to_datetime (Date r) \<noteq> None)"
  using assms by (auto simp: run_batch_cases Let_def split: option.splits if_splits)

theorem run_batch_report_witness:
  "\<exists>fo listing. discover [\<lparr>entry_name = ''a_20240301.pdf'', entry_listing = None\<rparr>] = Some (fo, listing) \<and> 1 = length (pdf_names listing)"
  using run_batch_report [OF run_one_statement] by blast

text \<open>C4. The final ordering: the rows of a report are sorted by (transaction date,
  sequence number), and every row's date was converted.\<close>

theorem run_batch_sorted:
  assumes "run_batch pdf_pages to_datetime entries = Report n rows"
  shows "sorted (map (batch_key to_datetime) rows) \<and> (\<forall>r \<in> set rows. to_datetime (Date r) \<noteq> None)"
  using assms by (auto simp: run_batch_cases Let_def split: option.splits if_splits)

theorem run_batch_sorted_witness:
  "\<exists>rows. run_batch (\<lambda>p. Inr [Some (''TRANSACTION DETAIL'' @ CHR ''\<newline>'' # ''03/14 COFFEE SHOP PURCHASE 4.50 1,200.00'')]) to_datetime_mdy [\<lparr>entry_name = ''a_20240301.pdf'', entry_listing = None\<rparr>] = Report 1 rows \<and>
          sorted (map (batch_key to_datetime_mdy) rows)"
  using run_one_statement run_batch_sorted [OF run_one_statement] by blast

text \<open>The final sort is stable: rows with the same (date, sequence number) keep
  the order in which they were collected, which is the order of their statements by
  statement date (and of the listing among equal statement dates).\<close>

lemma run_batch_stable:
  assumes "run_batch pdf_pages to_datetime entries = Report n rows"
  shows "\<exists>fo listing. discover entries = Some (fo, listing) \<and>
           filter (\<lambda>r. batch_key to_datetime r = k) rows =
           filter (\<lambda>r. batch_key to_datetime r = k)
             (concat (map (statement_records pdf_pages fo) (statement_files listing)))"
  using assms by (auto simp: run_batch_cases Let_def sort_key_stable split: option.splits if_splits)

lemma run_batch_stable_example:
  "\<exists>fo listing. discover [\<lparr>entry_name = ''a_20240301.pdf'', entry_listing = None\<rparr>] = Some (fo, listing)"
  using run_batch_stable [OF run_one_statement] by blast

text \<open>C5. Per-file failure isolation: a statement whose reading or parsing raises
  contributes nothing, and the records collected from the other statements are the
  same as if it were not there.\<close>

theorem process_statements_skip_failed:
  assumes "process_file pdf_pages fo f = Inl e"
  shows "process_statements pdf_pages fo (xs @ f # ys) acc = process_statements pdf_pages fo (xs @ ys) acc"
  using assms by (simp add: process_statements_concat statement_records_def)

theorem process_statements_skip_failed_witness:
  "process_statements (\<lambda>p. if p = ''bad.pdf'' then Inl TypeError else Inr [Some (''TRANSACTION DETAIL'' @ CHR ''\<newline>'' # ''03/14 COFFEE SHOP PURCHASE 4.50 1,200.00'')]) Top
     [(''bad.pdf'', ''bad.pdf''), (''2024-03-01'', ''a_20240301.pdf'')] [] =
   process_statements (\<lambda>p. if p = ''bad.pdf'' then Inl TypeError else Inr [Some (''TRANSACTION DETAIL'' @ CHR ''\<newline>'' # ''03/14 COFFEE SHOP PURCHASE 4.50 1,200.00'')]) Top
     [(''2024-03-01'', ''a_20240301.pdf'')] []"
proof -
  have "process_file (\<lambda>p. if p = ''bad.pdf'' then Inl TypeError else Inr [Some (''TRANSACTION DETAIL'' @ CHR ''\<newline>'' # ''03/14 COFFEE SHOP PURCHASE 4.50 1,200.00'')]) Top
          (''bad.pdf'', ''bad.pdf'') = Inl TypeError"
    by (simp add: process_file_def pdf_path_def)
  from process_statements_skip_failed [OF this, of "[]" "[(''2024-03-01'', ''a_20240301.pdf'')]" "[]"]
  show ?thesis by simp
qed

text \<open>C20. Sequence numbers: the records of one statement are numbered 1, 2, ..., n in
  the order the parser returned them, and the numbering changes nothing else (the
  \<open>Transactions\<close> sheet shows the parser's records).\<close>

theorem number_transactions_sequence:
  "map Statement_Sequence (number_transactions ts) = [1..<length ts + 1] \<and>
   transactions_sheet (number_transactions ts) = ts"
  by (simp add: number_transactions_seq transactions_sheet_def)

text \<open>C21. Statement files are processed in ascending statement-date order (lexical
  order of the resolved dates); the list holds each PDF name of the listing once with
  its date, and files with equal dates keep their listing order.\<close>

theorem statement_files_order:
  "sorted (map fst (statement_files l)) \<and>
   mset (statement_files l) = mset (map (\<lambda>f. (extract_statement_date f, f)) (pdf_names l)) \<and>
   filter (\<lambda>x. fst x = d) (statement_files l) =
     filter (\<lambda>x. fst x = d) (map (\<lambda>f. (extract_statement_date f, f)) (pdf_names l))"
  by (simp add: statement_files_def pdf_names_def sort_key_stable del: filter_map)

text \<open>C24. The global empty-result outcome: once PDF files are found, the run ends with
  \<open>No Transactions\<close> exactly when no statement contributed a record (each one raised
  or had no transaction lines).\<close>

theorem run_batch_no_transactions:
  assumes "discover entries = Some (fo, listing)"
  shows "run_batch pdf_pages to_datetime entries = No_Transactions \<longleftrightarrow>
         (\<forall>f \<in> set (statement_files listing). statement_records pdf_pages fo f = [])"
  using assms by (simp add: run_batch_cases Let_def)

theorem run_batch_no_transactions_witness:
  "run_batch (\<lambda>p. Inr []) to_datetime_mdy [\<lparr>entry_name = ''a_20240301.pdf'', entry_listing = None\<rparr>] = No_Transactions"
proof -
  have "statement_records (\<lambda>p. Inr []) Top (''2024-03-01'', ''a_20240301.pdf'') = []"
    by (simp add: statement_records_def process_file_def extract_chase_transactions_def scan_line_def
        scan_init_def number_transactions_def)
  with run_batch_no_transactions [OF discover_one, of "\<lambda>p. Inr []" to_datetime_mdy]
  show ?thesis by (simp add: statement_files_one)
qed

text \<open>The order of the statement files does not depend on the order in which
  \<open>os.listdir\<close> returns the names, provided the PDF files have pairwise distinct
  statement dates.\<close>

lemma statement_files_listing_order:
  assumes "mset l1 = mset l2" "distinct (map extract_statement_date (pdf_names l1))"
  shows "statement_files l1 = statement_files l2"
proof -
  let ?p = "\<lambda>f. (extract_statement_date f, f)"
  have "sort_key fst (map ?p (pdf_names l1)) = statement_files l2"
  proof (rule sort_key_inj_key_eq)
    show "mset (map ?p (pdf_names l1)) = mset (statement_files l2)"
      using statement_files_perm [OF assms(1)] by (simp add: statement_files_mset)
    have "map fst (map ?p (pdf_names l1)) = map extract_statement_date (pdf_names l1)" by simp
    then show "inj_on fst (set (map ?p (pdf_names l1)))"
      using assms(2) distinct_map by metis
    show "sorted (map fst (statement_files l2))" by (simp add: statement_files_def)
  qed
  then show ?thesis by (simp add: statement_files_def pdf_names_def)
qed

lemma statement_files_listing_order_example:
  "statement_files [''b_20240401.pdf'', ''a_20240301.pdf''] = statement_files [''a_20240301.pdf'', ''b_20240401.pdf'']"
proof -
  have "distinct (map extract_statement_date (pdf_names [''b_20240401.pdf'', ''a_20240301.pdf'']))"
    by (simp add: pdf_names_def is_pdf_name_def py_lower_def py_lower_char_def py_endswith_drop
        extract_statement_date_def run8_at_def is_digit_def format_ymd_def)
  moreover have "mset [''b_20240401.pdf'', ''a_20240301.pdf''] = mset [''a_20240301.pdf'', ''b_20240401.pdf'']"
    by simp
  ultimately show ?thesis using statement_files_listing_order by blast
qed

text \<open>Without distinct statement dates the order of the files follows the
  listing: two statements dated the same day are processed, and their records with
  equal (date, sequence number) reported, in \<open>os.listdir\<close> order, which Python leaves
  unspecified.\<close>

lemma statement_files_listing_tie:
  "statement_files [''a_20240301.pdf'', ''b_20240301.pdf''] \<noteq> statement_files [''b_20240301.pdf'', ''a_20240301.pdf'']"
  by (simp add: statement_files_two)

text \<open>The final order is not strict: two statements with a transaction on the
  same day, each the first of its statement, give adjacent rows with equal (date,
  sequence number), against the specification's strict ordering invariant.\<close>

lemma run_batch_order_not_strict:
  "\<exists>r1 r2. run_batch (\<lambda>p. Inr [Some (''TRANSACTION DETAIL'' @ CHR ''\<newline>'' # ''03/14 COFFEE SHOP PURCHASE 4.50 1,200.00'')]) to_datetime_mdy
              [\<lparr>entry_name = ''a_20240301.pdf'', entry_listing = None\<rparr>,
                      \<lparr>entry_name = ''b_20240301.pdf'', entry_listing = None\<rparr>] = Report 2 [r1, r2] \<and>
           batch_key to_datetime_mdy r1 = batch_key to_datetime_mdy r2"
  using run_two_statements by (simp add: batch_key_def txn.defs stxn.defs)

text \<open>C28. One transaction line whose date is not a calendar date (02/30) in one
  statement makes \<open>pd.to_datetime\<close> raise after all files were processed: the whole
  run fails and no report is written, although every file was parsed.\<close>

theorem run_batch_unparsable_date:
  assumes "discover entries = Some (fo, listing)" "f \<in> set (statement_files listing)"
    and "r \<in> set (statement_records pdf_pages fo f)" "to_datetime (Date r) = None"
  shows "run_batch pdf_pages to_datetime entries = Run_Failed"
proof -
  let ?rows = "concat (map (statement_records pdf_pages fo) (statement_files listing))"
  have r: "r \<in> set ?rows" using assms(2,3) by auto
  then have "?rows \<noteq> []" by (metis empty_iff list.set(1))
  moreover have "\<exists>r \<in> set ?rows. to_datetime (Date r) = None" using r assms(4) by blast
  ultimately show ?thesis using assms(1) by (simp only: run_batch_cases option.case prod.case Let_def if_False) simp
qed

theorem run_batch_unparsable_date_witness:
  "run_batch (\<lambda>p. Inr [Some (''TRANSACTION DETAIL'' @ CHR ''\<newline>'' # ''02/30 LATE FEE 5.00 90.00'')]) to_datetime_mdy [\<lparr>entry_name = ''a_20240301.pdf'', entry_listing = None\<rparr>] = Run_Failed"
proof -
  let ?r = "txn.extend \<lparr>Statement_Date = ''2024-03-01'', Date = ''02/30/2024'', Description = ''LATE FEE'',
                Amount = 500, Balance = 9000,
                Original_Line = ''02/30 LATE FEE 5.00 90.00'', Source_File = ''a_20240301.pdf''\<rparr> (stxn.fields 1)"
  have "statement_records (\<lambda>p. Inr [Some (''TRANSACTION DETAIL'' @ CHR ''\<newline>'' # ''02/30 LATE FEE 5.00 90.00'')]) Top (''2024-03-01'', ''a_20240301.pdf'') = [?r]"
    by (rule statement_records_page_line [OF _ late_fee_page_line late_fee_parse]) simp
  then have "?r \<in> set (statement_records (\<lambda>p. Inr [Some (''TRANSACTION DETAIL'' @ CHR ''\<newline>'' # ''02/30 LATE FEE 5.00 90.00'')]) Top (''2024-03-01'', ''a_20240301.pdf''))"
    by simp
  moreover have "to_datetime_mdy (Date ?r) = None" by (simp add: txn.defs to_datetime_mdy_examples)
  moreover have "(''2024-03-01'', ''a_20240301.pdf'') \<in> set (statement_files [''a_20240301.pdf''])"
    by (simp add: statement_files_one)
  ultimately show ?thesis using run_batch_unparsable_date [OF discover_one] by blast
qed

text \<open>Page concatenation: the text of a statement is each page's text followed
  by a newline; one page without text (\<open>extract_text()\<close> returning \<open>None\<close>, as for a
  scanned page) raises \<open>TypeError\<close>, and the whole statement is skipped.\<close>

lemma append_pages_text:
  "append_pages [] pages =
     (if None \<in> set pages then Inl TypeError else Inr (concat (map (\<lambda>p. the p @ ''\<newline>'') pages)))"
  using append_pages_acc [of "[]" pages] by simp

text \<open>Round trip between the parser and \<open>pd.to_datetime\<close>: the \<open>Date\<close> text the
  parser builds (\<open>MM/DD/\<close> and the resolved year's text) converts back to exactly that
  year, month and day when they form a date pandas can hold, and fails otherwise.\<close>

lemma to_datetime_record_date:
  assumes "list_all is_digit (mm @ dd)" "mm \<noteq> []" "dd \<noteq> []"
  shows "to_datetime_mdy (mm @ CHR ''/'' # dd @ CHR ''/'' # py_str_int y) =
    (if valid_timestamp y (int (nat_of_digits mm)) (int (nat_of_digits dd))
     then Some (y, int (nat_of_digits mm), int (nat_of_digits dd)) else None)"
proof -
  have ns: "CHR ''/'' \<notin> set mm" "CHR ''/'' \<notin> set dd" using assms(1) by (simp_all add: digits_no_slash)
  have ny: "CHR ''/'' \<notin> set (py_str_int y)"
    using digits_no_slash [OF string_of_nat_digits] by (auto simp: py_str_int_def)
  have sp: "py_split CHR ''/'' (mm @ CHR ''/'' # dd @ CHR ''/'' # py_str_int y) = [mm, dd, py_str_int y]"
    using ns ny by (simp add: py_split_append_sep py_split_no_sep_id)
  show ?thesis
  proof (cases "y < 0")
    case True
    then have "\<not> valid_timestamp y m d" for m d by (auto simp: valid_timestamp_def less_eq_prod_def less_prod_def)
    with True sp show ?thesis by (simp add: to_datetime_mdy_def py_str_int_def is_digit_def)
  next
    case False
    then have "py_str_int y = string_of_nat (nat y)" "int (nat_of_digits (string_of_nat (nat y))) = y"
      by (simp_all add: py_str_int_def)
    with sp assms show ?thesis by (simp add: to_datetime_mdy_def Let_def string_of_nat_digits)
  qed
qed
lemma to_datetime_record_date_example:
  "to_datetime_mdy (''03'' @ CHR ''/'' # ''14'' @ CHR ''/'' # py_str_int 2024) = Some (2024, 3, 14)"
proof -
  have "list_all is_digit (''03'' @ ''14'')" by (simp add: is_digit_def)
  from to_datetime_record_date [OF this, of 2024] show ?thesis
    by (simp add: valid_timestamp_def days_in_month_def nat_of_digits_def digit_val_def)
qed

text \<open>The output is not grouped by statement date, although section 5 of the
  specification says it is: the final sort is by transaction date and sequence number only, so a
  statement with a later statement date can contribute the first row. Here the March 15
  statement's grocery purchase of March 10 comes before the March 1 statement's coffee
  purchase of March 14.\<close>

lemma run_batch_not_grouped_by_statement:
  "\<exists>pdf_pages entries n rows. run_batch pdf_pages to_datetime_mdy entries = Report n rows \<and>
     \<not> sorted (map Statement_Date rows)"
  using run_two_dates by (fastforce simp: txn.defs stxn.defs)

end
