(* ===== verification/Summary.thy ===== *)
theory Summary
  imports Batch
begin

text \<open>
  The verification and financial summaries that \<open>main()\<close> prints after writing the
  workbook (src/pdf-2-excel.py, lines 212--233): the number of statements and of rows,
  the sum of the positive amounts (credits), of the negative amounts (debits) and their
  sum (net change), and the per-month count and sum of the amounts, grouped by the
  \<open>YYYY-MM\<close> text of each row's converted date (\<open>groupby\<close> orders the groups by
  that text). Amounts are exact cents (see \<open>Money\<close>), so \<open>.round(2)\<close> changes
  nothing. The converted date is the triple that \<open>to_datetime_mdy\<close> gives.
\<close>

subsection \<open>Definitions\<close>

definition credits :: "stxn list \<Rightarrow> int" where
  "credits rows = sum_list (filter (\<lambda>a. 0 < a) (map Amount rows))"

definition debits :: "stxn list \<Rightarrow> int" where
  "debits rows = sum_list (filter (\<lambda>a. a < 0) (map Amount rows))"

text \<open>\<open>strftime('%Y-%m')\<close>: year and month, zero-padded to four and two digits.\<close>

definition zero_pad :: "nat \<Rightarrow> string \<Rightarrow> string" where
  "zero_pad w s = replicate (w - length s) CHR ''0'' @ s"

definition strftime_ym :: "int \<times> int \<times> int \<Rightarrow> string" where
  "strftime_ym t =
     (case t of (y, m, d) \<Rightarrow> zero_pad 4 (string_of_nat (nat y)) @ ''-'' @ zero_pad 2 (string_of_nat (nat m)))"

definition month_column :: "(string \<Rightarrow> (int \<times> int \<times> int) option) \<Rightarrow> stxn \<Rightarrow> string" where
  "month_column to_datetime r = strftime_ym (the (to_datetime (Date r)))"

text \<open>\<open>df.groupby('Month').agg({'Amount': ['count', 'sum']})\<close>: one row per month
  present, in ascending order of the month text.\<close>

definition monthly_summary ::
  "(string \<Rightarrow> (int \<times> int \<times> int) option) \<Rightarrow> stxn list \<Rightarrow> (string \<times> nat \<times> int) list" where
  "monthly_summary to_datetime rows =
     map (\<lambda>k. let g = filter (\<lambda>r. month_column to_datetime r = k) rows in (k, length g, sum_list (map Amount g)))
       (sort (remdups (map (month_column to_datetime) rows)))"

record summary =
  statements_processed :: nat
  transactions_found :: nat
  total_credits :: int
  total_debits :: int
  net_change :: int
  monthly :: "(string \<times> nat \<times> int) list"

text \<open>Lines 212--233 on the report of the run: \<open>len(pdf_files)\<close>, \<open>len(df)\<close>, the
  financial and the monthly summary.\<close>

definition summarize ::
  "(string \<Rightarrow> (int \<times> int \<times> int) option) \<Rightarrow> nat \<Rightarrow> stxn list \<Rightarrow> summary" where
  "summarize to_datetime n rows =
     (let c = credits rows; d = debits rows in
      \<lparr>statements_processed = n, transactions_found = length rows, total_credits = c, total_debits = d,
       net_change = c + d, monthly = monthly_summary to_datetime rows\<rparr>)"

subsection \<open>Lemmas: sums over groups and signs\<close>

lemma sum_list_groups:
  fixes g :: "'a \<Rightarrow> 'b::comm_monoid_add"
  assumes "distinct ks" "set (map f xs) \<subseteq> set ks"
  shows "sum_list (map (\<lambda>k. sum_list (map g (filter (\<lambda>x. f x = k) xs))) ks) = sum_list (map g xs)"
proof -
  have "(\<Sum>k \<in> set ks. sum_list (map g (filter (\<lambda>x. f x = k) xs))) = sum_list (map g xs)"
    using assms(2)
  proof (induction xs)
    case Nil
    then show ?case by simp
  next
    case (Cons x xs)
    then have "f x \<in> set ks" by simp
    moreover have "sum_list (map g (filter (\<lambda>y. f y = k) (x # xs))) =
                   (if f x = k then g x else 0) + sum_list (map g (filter (\<lambda>y. f y = k) xs))" for k
      by simp
    ultimately show ?case using Cons by (simp add: sum.distrib)
  qed
  then show ?thesis by (simp add: sum_list_distinct_conv_sum_set [OF assms(1)])
qed

lemma sum_list_ones: "sum_list (map (\<lambda>x. 1::nat) xs) = length xs"
  by (induction xs) simp_all

lemma sum_list_sign_split:
  "sum_list (filter (\<lambda>a. 0 < a) xs) + sum_list (filter (\<lambda>a. a < 0) xs) = (sum_list xs :: int)"
  by (induction xs) auto

lemma sum_list_mset_eq: "mset xs = mset ys \<Longrightarrow> sum_list xs = (sum_list ys :: 'a::comm_monoid_add)"
  by (metis sum_mset_sum_list)

lemma credits_nonneg: "0 \<le> credits rows"
  unfolding credits_def by (rule sum_list_nonneg) simp

lemma debits_nonpos: "debits rows \<le> 0"
  unfolding debits_def by (rule sum_list_nonpos) simp

lemma monthly_summary_fst: "map fst (monthly_summary p rows) = sort (remdups (map (month_column p) rows))"
  by (simp add: monthly_summary_def comp_def Let_def)

lemma summarize_perm:
  assumes "mset rows1 = mset rows2"
  shows "summarize p n rows1 = summarize p n rows2"
proof -
  have set: "set (map (month_column p) rows1) = set (map (month_column p) rows2)"
    using assms by (metis mset_map mset_eq_setD)
  have grp: "mset (filter P rows1) = mset (filter P rows2)" for P
    using assms by simp
  have "length (filter P rows1) = length (filter P rows2)" for P
    using grp [of P] by (metis size_mset)
  moreover have "sum_list (map Amount (filter P rows1)) = sum_list (map Amount (filter P rows2))" for P
    using grp [of P] by (metis mset_map sum_list_mset_eq)
  moreover have "sort (remdups (map (month_column p) rows1)) = sort (remdups (map (month_column p) rows2))"
    using set by (metis sorted_list_of_set_sort_remdups)
  ultimately have "monthly_summary p rows1 = monthly_summary p rows2"
    by (simp add: monthly_summary_def Let_def)
  moreover have "credits rows1 = credits rows2" "debits rows1 = debits rows2"
    using assms by (simp_all add: credits_def debits_def sum_list_mset_eq)
  moreover have "length rows1 = length rows2" using assms by (metis size_mset)
  ultimately show ?thesis by (simp add: summarize_def Let_def)
qed

subsection \<open>Lemmas: the month text\<close>

lemma length_string_of_nat: "n < 10 ^ k \<Longrightarrow> 0 < k \<Longrightarrow> length (string_of_nat n) \<le> k"
proof (induction n arbitrary: k rule: string_of_nat.induct)
  case (1 n)
  show ?case
  proof (cases "n < 10")
    case True
    with "1.prems" show ?thesis by (simp add: string_of_nat.simps)
  next
    case False
    have k: "2 \<le> k"
    proof (rule ccontr)
      assume "\<not> 2 \<le> k"
      then have "k = 0 \<or> k = 1" by arith
      then show False using "1.prems" False by auto
    qed
    then have "(10::nat) ^ k = 10 * 10 ^ (k - 1)" by (cases k) simp_all
    then have "n div 10 < 10 ^ (k - 1)" using "1.prems"(1) by (simp add: div_less_iff_less_mult mult.commute)
    with "1.IH" [OF False, of "k - 1"] k have "length (string_of_nat (n div 10)) \<le> k - 1" by simp
    with False k show ?thesis by (simp add: string_of_nat.simps [of n])
  qed
qed
lemma length_zero_pad: "length s \<le> w \<Longrightarrow> length (zero_pad w s) = w"
  by (simp add: zero_pad_def)

lemma zero_pad_digits: "list_all is_digit s \<Longrightarrow> list_all is_digit (zero_pad w s)"
  by (auto simp: zero_pad_def is_digit_def list_all_iff)

lemma nat_of_digits_zeros: "nat_of_digits (replicate k CHR ''0'' @ s) = nat_of_digits s"
proof -
  have "foldl (\<lambda>n c. 10 * n + digit_val c) 0 (replicate k CHR ''0'') = 0"
    by (induction k) (simp_all add: digit_val_def)
  then show ?thesis by (simp add: nat_of_digits_def)
qed

lemma padded_digits_less:
  assumes "a < 10 ^ w" "b < 10 ^ w" "0 < w"
  shows "zero_pad w (string_of_nat a) < zero_pad w (string_of_nat b) \<longleftrightarrow> a < b"
    and "zero_pad w (string_of_nat a) = zero_pad w (string_of_nat b) \<longleftrightarrow> a = b"
proof -
  have l: "length (zero_pad w (string_of_nat a)) = w" "length (zero_pad w (string_of_nat b)) = w"
    using length_string_of_nat assms by (simp_all add: length_zero_pad)
  have d: "list_all is_digit (zero_pad w (string_of_nat a))" "list_all is_digit (zero_pad w (string_of_nat b))"
    by (simp_all add: zero_pad_digits string_of_nat_digits)
  have v: "nat_of_digits (zero_pad w (string_of_nat x)) = x" for x
    by (simp add: zero_pad_def nat_of_digits_zeros)
  show "zero_pad w (string_of_nat a) < zero_pad w (string_of_nat b) \<longleftrightarrow> a < b"
    using digits_less_iff_nat [OF _ d] l v by simp
  show "zero_pad w (string_of_nat a) = zero_pad w (string_of_nat b) \<longleftrightarrow> a = b"
    using v by metis
qed

subsection \<open>Claims\<close>

text \<open>C31. The printed net change (credits plus debits) is the sum of all the amounts
  of the report: zero amounts, counted in neither, change nothing.\<close>

theorem summary_net_change: "net_change (summarize to_datetime n rows) = sum_list (map Amount rows)"
  by (simp add: summarize_def credits_def debits_def sum_list_sign_split)

text \<open>Total credits are never negative and total debits never positive.\<close>

lemma summary_signs:
  "0 \<le> total_credits (summarize to_datetime n rows) \<and> total_debits (summarize to_datetime n rows) \<le> 0"
  by (simp add: summarize_def Let_def credits_nonneg debits_nonpos)

text \<open>The monthly summary accounts for every row once: its counts add up to the
  number of rows and its sums to the sum of all amounts.\<close>

lemma monthly_summary_totals:
  "sum_list (map (\<lambda>(k, c, s). c) (monthly_summary to_datetime rows)) = length rows \<and>
   sum_list (map (\<lambda>(k, c, s). s) (monthly_summary to_datetime rows)) = sum_list (map Amount rows)"
proof -
  let ?ks = "sort (remdups (map (month_column to_datetime) rows))"
  have ks: "distinct ?ks" "set (map (month_column to_datetime) rows) \<subseteq> set ?ks" by simp_all
  have "sum_list (map (\<lambda>k. sum_list (map (\<lambda>r. 1::nat) (filter (\<lambda>r. month_column to_datetime r = k) rows))) ?ks) =
        sum_list (map (\<lambda>r. 1::nat) rows)"
    by (rule sum_list_groups [OF ks])
  then have c: "sum_list (map (\<lambda>k. length (filter (\<lambda>r. month_column to_datetime r = k) rows)) ?ks) = length rows"
    by (simp only: sum_list_ones)
  have s: "sum_list (map (\<lambda>k. sum_list (map Amount (filter (\<lambda>r. month_column to_datetime r = k) rows))) ?ks) =
           sum_list (map Amount rows)"
    by (rule sum_list_groups [OF ks])
  show ?thesis using c s by (simp add: monthly_summary_def Let_def comp_def)
qed

text \<open>The monthly summary has one line per month present in the report, in
  strictly ascending order of the month text.\<close>

lemma monthly_summary_months:
  "sorted_wrt (<) (map fst (monthly_summary to_datetime rows)) \<and>
   set (map fst (monthly_summary to_datetime rows)) = month_column to_datetime ` set rows"
  by (simp add: monthly_summary_fst strict_sorted_iff)

text \<open>For years of four digits and months of two, the order of the month texts
  \<open>YYYY-MM\<close> by which the monthly summary is ordered is chronological order.\<close>

lemma month_order_chronological:
  assumes "0 \<le> y1" "y1 < 10000" "0 \<le> y2" "y2 < 10000" "0 \<le> m1" "m1 < 100" "0 \<le> m2" "m2 < 100"
  shows "strftime_ym (y1, m1, d1) < strftime_ym (y2, m2, d2) \<longleftrightarrow> (y1, m1) < (y2, m2)"
proof -
  let ?Y1 = "zero_pad 4 (string_of_nat (nat y1))" and ?Y2 = "zero_pad 4 (string_of_nat (nat y2))"
  let ?M1 = "zero_pad 2 (string_of_nat (nat m1))" and ?M2 = "zero_pad 2 (string_of_nat (nat m2))"
  have ny: "nat y1 < 10 ^ 4" "nat y2 < 10 ^ 4" and nm: "nat m1 < 10 ^ 2" "nat m2 < 10 ^ 2"
    using assms by simp_all
  have len: "length ?Y1 = length ?Y2"
    using length_zero_pad [OF length_string_of_nat [OF ny(1)]] length_zero_pad [OF length_string_of_nat [OF ny(2)]]
    by simp
  have "strftime_ym (y1, m1, d1) < strftime_ym (y2, m2, d2) \<longleftrightarrow>
        ?Y1 < ?Y2 \<or> ?Y1 = ?Y2 \<and> CHR ''-'' # ?M1 < CHR ''-'' # ?M2"
    using less_append_same_length [OF len, of "CHR ''-'' # ?M1" "CHR ''-'' # ?M2"] by (simp add: strftime_ym_def)
  also have "\<dots> \<longleftrightarrow> nat y1 < nat y2 \<or> nat y1 = nat y2 \<and> nat m1 < nat m2"
    using padded_digits_less [OF ny] padded_digits_less [OF nm] by simp
  also have "\<dots> \<longleftrightarrow> (y1, m1) < (y2, m2)"
    using assms by (auto simp: less_prod_def)
  finally show ?thesis .
qed

lemma month_order_chronological_example:
  "strftime_ym (2023, 12, 31) < strftime_ym (2024, 1, 5)"
  using month_order_chronological [of 2023 2024 12 1 31 5]
  by simp

text \<open>The summary is computed over the sorted rows, but sorting does not change
  it: it is the summary of the records as collected, statement by statement.\<close>

lemma summary_of_report:
  assumes "run_batch pdf_pages to_datetime entries = Report n rows"
  shows "\<exists>fo listing. discover entries = Some (fo, listing) \<and>
           summarize to_datetime n rows =
           summarize to_datetime n (concat (map (statement_records pdf_pages fo) (statement_files listing)))"
proof -
  from assms obtain fo listing where "discover entries = Some (fo, listing)"
    "rows = sort_key (batch_key to_datetime) (concat (map (statement_records pdf_pages fo) (statement_files listing)))"
    by (auto simp: run_batch_cases Let_def split: option.splits if_splits)
  then show ?thesis using summarize_perm by (metis mset_sort)
qed

lemma summary_of_report_example:
  "summarize to_datetime_mdy 1 [txn.extend \<lparr>Statement_Date = ''2024-03-01'', Date = ''03/14/2024'', Description = ''COFFEE SHOP PURCHASE'',
                Amount = 450, Balance = 120000,
                Original_Line = ''03/14 COFFEE SHOP PURCHASE 4.50 1,200.00'', Source_File = ''a_20240301.pdf''\<rparr>
             (stxn.fields 1)] =
   summarize to_datetime_mdy 1
     (concat (map (statement_records (\<lambda>p. Inr [Some (''TRANSACTION DETAIL'' @ CHR ''\<newline>'' # ''03/14 COFFEE SHOP PURCHASE 4.50 1,200.00'')]) Top) (statement_files [''a_20240301.pdf''])))"
  using summary_of_report [OF run_one_statement] discover_one by auto

end
