(* ===== verification/Output_File.thy ===== *)
theory Output_File
  imports Summary
begin

text \<open>
  Where the workbook goes and what it is called (src/pdf-2-excel.py, lines 43--79 and
  197--203). The folder of the run is the chosen folder, or the subfolder that discovery
  switched \<open>chase_pdf_folder\<close> to (lines 61, 66); the file name is
  \<open>{folder_name}_chase_transactions_{timestamp}.xlsx\<close> with the folder's base name and
  \<open>datetime.now()\<close> formatted by \<open>%Y%m%d_%H%M%S\<close>; the path joins the folder and the
  name. \<open>os.path.basename\<close> and \<open>os.path.join\<close> are the functions of Python's
  \<open>posixpath\<close>. Writing the workbook adds its name to the listing of the folder of the
  run, at a position \<open>os.listdir\<close> is free to choose (a file of the same name is replaced
  and the listing keeps its names). The lemmas show that the written name is never taken for a
  statement, so the listing's PDF files, and with them the whole batch, are those of the
  folder before the run.
\<close>

subsection \<open>posixpath\<close>

text \<open>\<open>basename(p)\<close>: \<open>p[p.rfind('/') + 1:]\<close>.\<close>

definition py_basename :: "string \<Rightarrow> string" where
  "py_basename p = py_slice p (py_rfind p ''/'' + 1) (int (length p))"

text \<open>\<open>join(a, b)\<close>: an absolute \<open>b\<close> replaces \<open>a\<close>; a separator is inserted unless
  \<open>a\<close> is empty or already ends with one.\<close>

definition py_path_join :: "string \<Rightarrow> string \<Rightarrow> string" where
  "py_path_join a b =
     (if prefix ''/'' b then b else if a = [] \<or> py_endswith a ''/'' then a @ b else a @ ''/'' @ b)"

subsection \<open>The folder of the run (lines 43, 54--70)\<close>

text \<open>\<open>chase_pdf_folder\<close> after discovery: unchanged, or
  \<open>os.path.join(chase_pdf_folder, subfolder)\<close> when the PDFs were found there.\<close>

definition run_folder :: "dir_entry list \<Rightarrow> folder" where
  "run_folder entries = (case discover entries of Some (fo, listing) \<Rightarrow> fo | None \<Rightarrow> Top)"

definition chase_pdf_folder :: "string \<Rightarrow> folder \<Rightarrow> string" where
  "chase_pdf_folder selected fo = (case fo of Top \<Rightarrow> selected | Subfolder s \<Rightarrow> py_path_join selected s)"

subsection \<open>The file name and the path (lines 198--201)\<close>

text \<open>The fields of \<open>datetime.now()\<close> that \<open>strftime("%Y%m%d_%H%M%S")\<close> reads; a
  \<open>datetime\<close> keeps them in the ranges of \<open>valid_date_time\<close>.\<close>

record date_time =
  dt_year :: nat
  dt_month :: nat
  dt_day :: nat
  dt_hour :: nat
  dt_minute :: nat
  dt_second :: nat

definition valid_date_time :: "date_time \<Rightarrow> bool" where
  "valid_date_time t \<longleftrightarrow>
     1 \<le> dt_year t \<and> dt_year t \<le> 9999 \<and> 1 \<le> dt_month t \<and> dt_month t \<le> 12 \<and>
     1 \<le> dt_day t \<and> dt_day t \<le> 31 \<and> dt_hour t < 24 \<and> dt_minute t < 60 \<and> dt_second t < 60"

definition strftime_stamp :: "date_time \<Rightarrow> string" where
  "strftime_stamp t =
     zero_pad 4 (string_of_nat (dt_year t)) @ zero_pad 2 (string_of_nat (dt_month t)) @
     zero_pad 2 (string_of_nat (dt_day t)) @ ''_'' @ zero_pad 2 (string_of_nat (dt_hour t)) @
     zero_pad 2 (string_of_nat (dt_minute t)) @ zero_pad 2 (string_of_nat (dt_second t))"

definition excel_filename :: "string \<Rightarrow> string \<Rightarrow> string" where
  "excel_filename folder_name timestamp = folder_name @ ''_chase_transactions_'' @ timestamp @ ''.xlsx''"

definition workbook_name :: "string \<Rightarrow> folder \<Rightarrow> date_time \<Rightarrow> string" where
  "workbook_name selected fo now =
     excel_filename (py_basename (chase_pdf_folder selected fo)) (strftime_stamp now)"

definition output_path :: "string \<Rightarrow> folder \<Rightarrow> date_time \<Rightarrow> string" where
  "output_path selected fo now = py_path_join (chase_pdf_folder selected fo) (workbook_name selected fo now)"

subsection \<open>The folder after the workbook is written (line 203)\<close>

definition add_to_listing :: "string \<Rightarrow> nat \<Rightarrow> string list \<Rightarrow> string list" where
  "add_to_listing name i listing = (if name \<in> set listing then listing else take i listing @ name # drop i listing)"

definition add_to_subfolder :: "string \<Rightarrow> string \<Rightarrow> nat \<Rightarrow> dir_entry \<Rightarrow> dir_entry" where
  "add_to_subfolder s name i e =
     (if entry_name e = s then e\<lparr>entry_listing := map_option (add_to_listing name i) (entry_listing e)\<rparr> else e)"

definition save_workbook :: "folder \<Rightarrow> string \<Rightarrow> nat \<Rightarrow> dir_entry list \<Rightarrow> dir_entry list" where
  "save_workbook fo name i entries =
     (case fo of
        Top \<Rightarrow> if name \<in> set (map entry_name entries) then entries
               else take i entries @ \<lparr>entry_name = name, entry_listing = None\<rparr> # drop i entries
      | Subfolder s \<Rightarrow> map (add_to_subfolder s name i) entries)"

subsection \<open>Lemmas: base names and joined paths\<close>

lemma rfind_idx_single_None: "c \<notin> set v \<Longrightarrow> rfind_idx [c] v = None"
  by (induction v) auto

lemma rfind_idx_single_last: "c \<notin> set v \<Longrightarrow> rfind_idx [c] (u @ c # v) = Some (length u)"
  by (induction u) (auto simp: rfind_idx_single_None)

lemma py_basename_no_sep: "CHR ''/'' \<notin> set p \<Longrightarrow> py_basename p = p"
  by (simp add: py_basename_def py_rfind_def rfind_idx_single_None py_slice_def py_slice_index_def)

lemma py_basename_after_sep: "CHR ''/'' \<notin> set v \<Longrightarrow> py_basename (u @ CHR ''/'' # v) = v"
proof -
  have "nat (int (length u) + 1) = Suc (length u)" by simp
  then show "CHR ''/'' \<notin> set v \<Longrightarrow> py_basename (u @ CHR ''/'' # v) = v"
    by (simp add: py_basename_def py_rfind_def rfind_idx_single_last py_slice_def py_slice_index_def)
qed

lemma py_basename_sep_free: "CHR ''/'' \<notin> set (py_basename p)"
proof (cases "CHR ''/'' \<in> set p")
  case True
  then obtain u v where "p = u @ CHR ''/'' # v" "CHR ''/'' \<notin> set v" by (metis split_list_last)
  then show ?thesis by (simp add: py_basename_after_sep)
next
  case False
  then show ?thesis by (simp add: py_basename_no_sep)
qed

lemma strftime_stamp_sep_free: "CHR ''/'' \<notin> set (strftime_stamp t)"
proof -
  have "CHR ''/'' \<notin> set (zero_pad w (string_of_nat n))" for w n
    by (simp add: digits_no_slash zero_pad_digits string_of_nat_digits)
  then show ?thesis by (simp add: strftime_stamp_def)
qed

lemma workbook_name_sep_free: "CHR ''/'' \<notin> set (workbook_name selected fo now)"
  using py_basename_sep_free strftime_stamp_sep_free by (simp add: workbook_name_def excel_filename_def)

lemma py_basename_join: "CHR ''/'' \<notin> set b \<Longrightarrow> py_basename (py_path_join a b) = b"
proof -
  assume b: "CHR ''/'' \<notin> set b"
  then have nb: "\<not> prefix ''/'' b" by (cases b) auto
  consider (e) "a = []" | (s) u where "a = u @ ''/''" | (n) "a \<noteq> []" "\<not> py_endswith a ''/''"
    by (auto simp: py_endswith_def suffix_def)
  then show ?thesis
  proof cases
    case e
    with nb b show ?thesis by (simp add: py_path_join_def py_basename_no_sep)
  next
    case s
    with nb b show ?thesis by (simp add: py_path_join_def py_endswith_def py_basename_after_sep)
  next
    case n
    with nb b show ?thesis using py_basename_after_sep [of b a] by (simp add: py_path_join_def)
  qed
qed

subsection \<open>Lemmas: the timestamp\<close>

lemma zero_pad_field:
  assumes "n < 10 ^ w" "0 < w"
  shows "length (zero_pad w (string_of_nat n)) = w" "nat_of_digits (zero_pad w (string_of_nat n)) = n"
  using length_string_of_nat [OF assms] by (simp_all add: length_zero_pad zero_pad_def nat_of_digits_zeros)

lemma zero_pad_field_inj:
  "n < 10 ^ w \<Longrightarrow> m < 10 ^ w \<Longrightarrow> 0 < w \<Longrightarrow>
   zero_pad w (string_of_nat n) = zero_pad w (string_of_nat m) \<longleftrightarrow> n = m"
  by (metis zero_pad_field(2))

lemma strftime_stamp_inj:
  assumes "valid_date_time t1" "valid_date_time t2" "strftime_stamp t1 = strftime_stamp t2"
  shows "t1 = t2"
proof -
  have b: "dt_year t < 10 ^ 4" "dt_month t < 10 ^ 2" "dt_day t < 10 ^ 2" "dt_hour t < 10 ^ 2"
    "dt_minute t < 10 ^ 2" "dt_second t < 10 ^ 2" if "valid_date_time t" for t
    using that by (simp_all add: valid_date_time_def)
  note l = zero_pad_field(1) [OF b(1) [OF assms(1)]] zero_pad_field(1) [OF b(1) [OF assms(2)]]
    zero_pad_field(1) [OF b(2) [OF assms(1)]] zero_pad_field(1) [OF b(2) [OF assms(2)]]
    zero_pad_field(1) [OF b(3) [OF assms(1)]] zero_pad_field(1) [OF b(3) [OF assms(2)]]
    zero_pad_field(1) [OF b(4) [OF assms(1)]] zero_pad_field(1) [OF b(4) [OF assms(2)]]
    zero_pad_field(1) [OF b(5) [OF assms(1)]] zero_pad_field(1) [OF b(5) [OF assms(2)]]
  from assms(3) l have "zero_pad 4 (string_of_nat (dt_year t1)) = zero_pad 4 (string_of_nat (dt_year t2))"
    "zero_pad 2 (string_of_nat (dt_month t1)) = zero_pad 2 (string_of_nat (dt_month t2))"
    "zero_pad 2 (string_of_nat (dt_day t1)) = zero_pad 2 (string_of_nat (dt_day t2))"
    "zero_pad 2 (string_of_nat (dt_hour t1)) = zero_pad 2 (string_of_nat (dt_hour t2))"
    "zero_pad 2 (string_of_nat (dt_minute t1)) = zero_pad 2 (string_of_nat (dt_minute t2))"
    "zero_pad 2 (string_of_nat (dt_second t1)) = zero_pad 2 (string_of_nat (dt_second t2))"
    by (simp_all add: strftime_stamp_def append_eq_append_conv)
  then have "dt_year t1 = dt_year t2" "dt_month t1 = dt_month t2" "dt_day t1 = dt_day t2"
    "dt_hour t1 = dt_hour t2" "dt_minute t1 = dt_minute t2" "dt_second t1 = dt_second t2"
    using b [OF assms(1)] b [OF assms(2)] by (simp_all add: zero_pad_field_inj)
  then show ?thesis by (cases t1, cases t2) simp
qed

subsection \<open>Lemmas: the folder after the write\<close>

lemma endswith_xlsx_not_pdf: "\<not> py_endswith (y @ ''.xlsx'') ''.pdf''"
  by (simp add: py_endswith_drop)

lemma excel_filename_not_pdf: "\<not> is_pdf_name (excel_filename folder_name timestamp)"
proof -
  have "py_lower (excel_filename folder_name timestamp) = py_lower (folder_name @ ''_chase_transactions_'' @ timestamp) @ ''.xlsx''"
    by (simp add: excel_filename_def py_lower_def py_lower_char_def)
  then show ?thesis by (simp add: is_pdf_name_def endswith_xlsx_not_pdf)
qed

lemma pdf_names_add_to_listing:
  "\<not> is_pdf_name name \<Longrightarrow> pdf_names (add_to_listing name i l) = pdf_names l"
proof -
  assume "\<not> is_pdf_name name"
  then have "filter is_pdf_name (take i l @ name # drop i l) = filter is_pdf_name (take i l) @ filter is_pdf_name (drop i l)"
    by simp
  also have "\<dots> = filter is_pdf_name l" by (metis append_take_drop_id filter_append)
  finally show ?thesis by (simp add: add_to_listing_def pdf_names_def)
qed

lemma find_pdf_subfolder_save:
  assumes "find_pdf_subfolder es = Some (s, l)" "\<not> is_pdf_name name"
  shows "find_pdf_subfolder (map (add_to_subfolder s name i) es) = Some (s, add_to_listing name i l)"
  using assms(1)
proof (induction es)
  case Nil
  then show ?case by simp
next
  case (Cons e es)
  show ?case
  proof (cases "entry_listing e")
    case None
    with Cons show ?thesis by (simp add: add_to_subfolder_def)
  next
    case (Some sub)
    with Cons assms(2) show ?thesis
      by (auto simp: add_to_subfolder_def pdf_names_add_to_listing split: if_splits)
  qed
qed

lemma discover_save:
  assumes "discover es = Some (fo, l)" "\<not> is_pdf_name name"
  shows "\<exists>l'. discover (save_workbook fo name i es) = Some (fo, l') \<and> pdf_names l' = pdf_names l"
proof (cases fo)
  case Top
  then have l: "l = map entry_name es" "pdf_names l \<noteq> []"
    using assms(1) by (auto simp: discover_def Let_def split: if_splits option.splits)
  show ?thesis
  proof (cases "name \<in> set (map entry_name es)")
    case True
    with Top assms(1) show ?thesis by (simp add: save_workbook_def)
  next
    case False
    then have "map entry_name (save_workbook fo name i es) = add_to_listing name i l"
      using Top l by (simp add: save_workbook_def add_to_listing_def take_map drop_map)
    with l Top assms(2) show ?thesis by (simp add: discover_def pdf_names_add_to_listing)
  qed
next
  case (Subfolder s)
  then have "pdf_names (map entry_name es) = []" "find_pdf_subfolder es = Some (s, l)"
    using assms(1) by (auto simp: discover_def Let_def split: if_splits option.splits)
  moreover have "entry_name \<circ> add_to_subfolder s name i = entry_name"
    by (simp add: add_to_subfolder_def fun_eq_iff)
  ultimately show ?thesis using Subfolder assms(2)
    by (simp add: discover_def save_workbook_def find_pdf_subfolder_save pdf_names_add_to_listing)
qed

lemma find_pdf_subfolder_io_save:
  assumes "find_pdf_subfolder_io unreadable es = Inr (Some (s, l))" "\<not> is_pdf_name name"
  shows "find_pdf_subfolder_io unreadable (map (add_to_subfolder s name i) es) = Inr (Some (s, add_to_listing name i l))"
  using assms(1)
proof (induction es)
  case Nil
  then show ?case by simp
next
  case (Cons e es)
  show ?case
  proof (cases "entry_listing e")
    case None
    with Cons show ?thesis by (simp add: add_to_subfolder_def)
  next
    case (Some sub)
    with Cons assms(2) show ?thesis
      by (auto simp: add_to_subfolder_def pdf_names_add_to_listing split: if_splits)
  qed
qed

lemma discover_io_save:
  assumes "discover_io readable unreadable es = Inr (Some (fo, l))" "\<not> is_pdf_name name"
  shows "\<exists>d. discover_io readable unreadable (save_workbook fo name i es) = Inr d"
proof -
  have rd: readable using assms(1) by (simp add: discover_io_def split: if_splits)
  have disc: "discover es = Some (fo, l)" using discover_io_Inr [OF assms(1)] by simp
  show ?thesis
  proof (cases fo)
    case Top
    obtain l' where "discover (save_workbook fo name i es) = Some (Top, l')"
      using discover_save [OF disc assms(2), of i] Top by blast
    then have "pdf_names (map entry_name (save_workbook fo name i es)) \<noteq> []"
      by (auto simp: discover_def Let_def split: if_splits option.splits)
    with rd show ?thesis by (simp add: discover_io_top_pdfs)
  next
    case (Subfolder s)
    have top: "pdf_names (map entry_name es) = []" "find_pdf_subfolder_io unreadable es = Inr (Some (s, l))"
      using assms(1) rd Subfolder
      by (cases "find_pdf_subfolder_io unreadable es"; auto simp: discover_io_def Let_def split: if_splits option.splits)+
    have "entry_name \<circ> add_to_subfolder s name i = entry_name"
      by (simp add: add_to_subfolder_def fun_eq_iff)
    with top rd Subfolder show ?thesis
      by (simp add: discover_io_def save_workbook_def find_pdf_subfolder_io_save [OF top(2) assms(2)])
  qed
qed

lemma run_batch_save:
  assumes "discover es = Some (fo, l)" "\<not> is_pdf_name name"
  shows "run_batch pdf_pages to_datetime (save_workbook fo name i es) = run_batch pdf_pages to_datetime es"
proof -
  obtain l' where "discover (save_workbook fo name i es) = Some (fo, l')" "pdf_names l' = pdf_names l"
    using discover_save [OF assms] by blast
  moreover have "statement_files l' = statement_files l"
    using calculation(2) by (simp add: statement_files_def pdf_names_def [symmetric])
  ultimately show ?thesis using assms(1)
    unfolding run_batch_cases by (simp only: option.case prod.case)
qed

lemma workbook_name_not_pdf: "\<not> is_pdf_name (workbook_name selected fo now)"
  by (simp add: workbook_name_def excel_filename_not_pdf)

subsection \<open>Claims\<close>

text \<open>C32. The path the workbook is written to ends in the file name the completion dialog
  reports: \<open>os.path.basename(output_path) == excel_filename\<close>, whatever folder was
  chosen, because the name has no \<open>/\<close>.\<close>

theorem output_path_basename: "py_basename (output_path selected fo now) = workbook_name selected fo now"
  by (simp add: output_path_def py_basename_join workbook_name_sep_free)

text \<open>C33. Two runs started at different seconds write different files: the timestamp
  of a \<open>datetime\<close> determines it, so a second run never overwrites the first run's
  workbook unless it starts within the same second.\<close>

theorem workbook_name_distinct:
  assumes "valid_date_time t1" "valid_date_time t2" "workbook_name selected fo t1 = workbook_name selected fo t2"
  shows "t1 = t2"
  using assms(3) strftime_stamp_inj [OF assms(1,2)] by (simp add: workbook_name_def excel_filename_def)

theorem workbook_name_distinct_witness:
  "workbook_name ''/home/u/statements'' Top \<lparr>dt_year = 2026, dt_month = 11, dt_day = 9, dt_hour = 14, dt_minute = 30, dt_second = 0\<rparr> \<noteq>
   workbook_name ''/home/u/statements'' Top \<lparr>dt_year = 2026, dt_month = 11, dt_day = 9, dt_hour = 14, dt_minute = 30, dt_second = 1\<rparr>"
proof
  assume "workbook_name ''/home/u/statements'' Top \<lparr>dt_year = 2026, dt_month = 11, dt_day = 9, dt_hour = 14, dt_minute = 30, dt_second = 0\<rparr> =
   workbook_name ''/home/u/statements'' Top \<lparr>dt_year = 2026, dt_month = 11, dt_day = 9, dt_hour = 14, dt_minute = 30, dt_second = 1\<rparr>"
  moreover have "valid_date_time \<lparr>dt_year = 2026, dt_month = 11, dt_day = 9, dt_hour = 14, dt_minute = 30, dt_second = 0\<rparr>"
    "valid_date_time \<lparr>dt_year = 2026, dt_month = 11, dt_day = 9, dt_hour = 14, dt_minute = 30, dt_second = 1\<rparr>"
    by (simp_all add: valid_date_time_def)
  ultimately show False using workbook_name_distinct by fastforce
qed

end
