(* ===== verification/Console_Log.thy ===== *)
theory Console_Log
  imports Output_File
begin

text \<open>
  What the run prints to the console while it discovers and reads the statements
  (src/pdf-2-excel.py, lines 52, 68--69, 163--184): the chosen folder, the subfolder
  discovery switched to and the folder it then uses (two prints), and for each statement file in date order a \<open>Processing\<close> line
  followed by either the number of records found or the error that made the file be
  skipped. The console is a list of \<open>console_event\<close> values, one per \<open>print\<close>: the
  events that carry the program's data have their own constructors, text printed as
  formatted is \<open>Printed\<close>, and \<open>print(monthly)\<close> is \<open>Monthly_Table\<close> with the
  table's data (pandas' text rendering of the frame is not modelled). The loop of lines
  167--184 with its prints is \<open>process_statements_logged\<close>, and the orchestrator with
  its prints is \<open>run_batch_logged\<close>. The lemmas show that they compute what the print-free
  \<open>process_statements\<close> and \<open>run_batch\<close> of the theory Batch compute, and give the log
  of a run as one pair of lines per statement file.
\<close>

datatype console_event =
    Selected_Folder string
  | Found_In_Subfolder string
  | Using_Folder string
  | Processing string string
  | Found_Transactions nat
  | Error_Processing string py_error
  | Traceback_Printed
  | Results_Saved string
  | Printed string
  | Monthly_Table "(string \<times> nat \<times> int) list"
  | Error_Occurred py_error

text \<open>A section heading: \<open>print("\n" + title)\<close>, then \<open>print("-" * 30)\<close>.\<close>

definition section_heading :: "string \<Rightarrow> console_event list" where
  "section_heading title = [Printed (CHR ''\<newline>'' # title), Printed (replicate 30 CHR ''-'')]"

subsection \<open>Discovery (lines 52, 68--69)\<close>

definition discovery_log :: "string \<Rightarrow> dir_entry list \<Rightarrow> console_event list" where
  "discovery_log selected entries =
     Selected_Folder selected #
     (case discover entries of
        Some (Subfolder s, listing) \<Rightarrow> [Found_In_Subfolder s, Using_Folder (py_path_join selected s)]
      | _ \<Rightarrow> [])"

subsection \<open>The loop over the statement files with its prints (lines 163--184)\<close>

fun process_statements_logged ::
  "(string \<Rightarrow> string option list py_result) \<Rightarrow> folder \<Rightarrow> (string \<times> string) list \<Rightarrow>
   stxn list \<times> console_event list \<Rightarrow> stxn list \<times> console_event list" where
  "process_statements_logged pdf_pages fo [] acc = acc"
| "process_statements_logged pdf_pages fo ((statement_date, filename) # fs) (all_transactions, log) =
     (let log = log @ [Processing filename statement_date] in
      case process_file pdf_pages fo (statement_date, filename) of
        Inl e \<Rightarrow> process_statements_logged pdf_pages fo fs (all_transactions, log @ [Error_Processing filename e])
      | Inr ts \<Rightarrow> process_statements_logged pdf_pages fo fs (all_transactions @ ts, log @ [Found_Transactions (length ts)]))"

text \<open>The two lines one statement file prints (lines 169, 176 and 183).\<close>

definition file_log :: "(string \<Rightarrow> string option list py_result) \<Rightarrow> folder \<Rightarrow> string \<times> string \<Rightarrow> console_event list" where
  "file_log pdf_pages fo f =
     (case f of (statement_date, filename) \<Rightarrow>
        [Processing filename statement_date,
         case process_file pdf_pages fo (statement_date, filename) of
           Inl e \<Rightarrow> Error_Processing filename e
         | Inr ts \<Rightarrow> Found_Transactions (length ts)])"

subsection \<open>The orchestrator with its prints (lines 52--79, 151--195)\<close>

definition run_batch_logged ::
  "(string \<Rightarrow> string option list py_result) \<Rightarrow> (string \<Rightarrow> 'd::linorder option) \<Rightarrow> string \<Rightarrow> dir_entry list \<Rightarrow>
   batch_outcome \<times> console_event list" where
  "run_batch_logged pdf_pages to_datetime selected entries =
     (case discover entries of
        None \<Rightarrow> (No_PDFs_Found, discovery_log selected entries)
      | Some (fo, listing) \<Rightarrow>
          (let pdf_files = statement_files listing in
           case process_statements_logged pdf_pages fo pdf_files
                  ([], discovery_log selected entries @ section_heading ''1. PROCESSING STATEMENTS'') of
             (all_transactions, log) \<Rightarrow>
               if all_transactions = [] then (No_Transactions, log)
               else case sort_date_column to_datetime all_transactions of
                      None \<Rightarrow> (Run_Failed, log)
                    | Some sort_date \<Rightarrow> (Report (length pdf_files) (sort_values sort_date all_transactions), log)))"

subsection \<open>Lemmas: the logged loop\<close>

lemma process_statements_logged_eq:
  "process_statements_logged pdf_pages fo fs (acc, log) =
     (process_statements pdf_pages fo fs acc, log @ concat (map (file_log pdf_pages fo) fs))"
proof (induction fs arbitrary: acc log)
  case Nil
  then show ?case by simp
next
  case (Cons f fs)
  obtain sd fn where "f = (sd, fn)" by fastforce
  with Cons show ?case by (simp add: file_log_def split: sum.split)
qed

lemma run_batch_logged_eq:
  "run_batch_logged pdf_pages to_datetime selected entries =
     (run_batch pdf_pages to_datetime entries,
      discovery_log selected entries @
        (case discover entries of
           None \<Rightarrow> []
         | Some (fo, listing) \<Rightarrow>
             section_heading ''1. PROCESSING STATEMENTS'' @ concat (map (file_log pdf_pages fo) (statement_files listing))))"
  by (simp add: run_batch_logged_def run_batch_def process_statements_logged_eq Let_def
      split: option.split prod.split)

text \<open>Discovery prints only the chosen folder and, after a switch, the subfolder and
  the folder it uses.\<close>

lemma discovery_log_events:
  "e \<in> set (discovery_log selected entries) \<Longrightarrow>
   \<exists>s. e = Selected_Folder s \<or> e = Found_In_Subfolder s \<or> e = Using_Folder s"
  by (auto simp: discovery_log_def split: option.splits folder.splits)

lemma discovery_log_files:
  "[fn. Processing fn sd \<leftarrow> discovery_log selected entries] = []"
  "[k. Found_Transactions k \<leftarrow> discovery_log selected entries] = []"
  by (auto simp: concat_eq_Nil_conv dest!: discovery_log_events)

lemma section_heading_files:
  "[fn. Processing fn sd \<leftarrow> section_heading title] = []"
  "[k. Found_Transactions k \<leftarrow> section_heading title] = []"
  by (simp_all add: section_heading_def)

lemma no_monthly_table:
  "[f t. Monthly_Table t \<leftarrow> discovery_log selected entries] = []"
  "[f t. Monthly_Table t \<leftarrow> section_heading title] = []"
  "[f t. Monthly_Table t \<leftarrow> concat (map (file_log pdf_pages fo) fs)] = []"
proof -
  show "[f t. Monthly_Table t \<leftarrow> discovery_log selected entries] = []"
    by (auto simp: concat_eq_Nil_conv dest!: discovery_log_events)
  show "[f t. Monthly_Table t \<leftarrow> section_heading title] = []" by (simp add: section_heading_def)
  show "[f t. Monthly_Table t \<leftarrow> concat (map (file_log pdf_pages fo) fs)] = []"
  proof (induction fs)
    case Nil
    then show ?case by simp
  next
    case (Cons g fs)
    obtain sd fn where "g = (sd, fn)" by fastforce
    with Cons show ?case by (cases "process_file pdf_pages fo (sd, fn)") (simp_all add: file_log_def)
  qed
qed

lemma file_log_files:
  "[fn. Processing fn sd \<leftarrow> concat (map (file_log pdf_pages fo) fs)] = map snd fs"
  by (induction fs) (auto simp: file_log_def split: sum.split)

lemma file_log_found:
  "sum_list [k. Found_Transactions k \<leftarrow> concat (map (file_log pdf_pages fo) fs)] =
   length (concat (map (statement_records pdf_pages fo) fs))"
proof (induction fs)
  case Nil
  then show ?case by simp
next
  case (Cons f fs)
  obtain sd fn where "f = (sd, fn)" by fastforce
  with Cons show ?case by (cases "process_file pdf_pages fo (sd, fn)") (simp_all add: file_log_def statement_records_def)
qed

text \<open>The outcome of the loop with its prints is that of the print-free orchestrator.\<close>

lemma run_batch_logged_refines:
  "fst (run_batch_logged pdf_pages to_datetime selected entries) = run_batch pdf_pages to_datetime entries"
  by (simp add: run_batch_logged_eq)

subsection \<open>Claims\<close>

text \<open>C13. The console log of a run whose folder has PDF files: after the discovery lines,
  each statement file, in the order it is processed, prints its \<open>Processing\<close> line and
  then exactly one result line, \<open>Found n transactions\<close> or \<open>Error processing\<close>; the
  \<open>Processing\<close> lines name every PDF file once, in statement-date order, and the
  counts of the \<open>Found\<close> lines add up to the number of records collected.\<close>

theorem run_batch_log_per_file:
  assumes "discover entries = Some (fo, listing)"
  shows "snd (run_batch_logged pdf_pages to_datetime selected entries) =
           discovery_log selected entries @ section_heading ''1. PROCESSING STATEMENTS'' @
             concat (map (file_log pdf_pages fo) (statement_files listing)) \<and>
         [fn. Processing fn sd \<leftarrow> snd (run_batch_logged pdf_pages to_datetime selected entries)] =
           map snd (statement_files listing) \<and>
         sum_list [k. Found_Transactions k \<leftarrow> snd (run_batch_logged pdf_pages to_datetime selected entries)] =
           length (process_statements pdf_pages fo (statement_files listing) [])"
  using assms by (simp add: run_batch_logged_eq discovery_log_files section_heading_files file_log_files file_log_found
      process_statements_concat)

theorem run_batch_log_per_file_witness:
  "[fn. Processing fn sd \<leftarrow> snd (run_batch_logged (\<lambda>p. Inr [Some (''TRANSACTION DETAIL'' @ CHR ''\<newline>'' # ''03/14 COFFEE SHOP PURCHASE 4.50 1,200.00'')])
      to_datetime_mdy ''statements'' [\<lparr>entry_name = ''a_20240301.pdf'', entry_listing = None\<rparr>])] = [''a_20240301.pdf'']"
  using run_batch_log_per_file [OF discover_one, of "\<lambda>p. Inr [Some (''TRANSACTION DETAIL'' @ CHR ''\<newline>'' # ''03/14 COFFEE SHOP PURCHASE 4.50 1,200.00'')]"
      to_datetime_mdy "''statements''", THEN conjunct2, THEN conjunct1]
  by (simp only: statement_files_one list.map snd_conv)

end
