(* ===== verification/Main_Flow.thy ===== *)
theory Main_Flow
  imports Console_Log
begin

text \<open>
  The control flow of \<open>main()\<close> around the orchestrator and the entry point
  (src/pdf-2-excel.py, lines 14--52, 186--256): the welcome dialog, the import check of
  pandas and pdfplumber, the folder dialog, the outcome dialogs of the run, the workbook
  and the printed summary, and the \<open>__main__\<close> guard. The outside world is the record
  \<open>environment\<close>: the modules that can be imported, whether Tk has a display, the
  folder the user picked (empty when cancelled), the folder's listing, pdfplumber's
  pages, whether the workbook can be written there, the clock, and whether the folder
  and which of its subfolders the user may list. The observable result of a run is the
  record \<open>main_outcome\<close>: the dialogs shown, in order, the two sheets written, the
  summary lines printed, the console's print events, the file written with the folder
  it went to, and the exception that left \<open>main()\<close>, if one did. \<open>f"{x:,.2f}"\<close> on the exact amount is \<open>format_money\<close>.
\<close>

subsection \<open>The printed summary (lines 212--224)\<close>

text \<open>The \<open>,\<close> option of Python's format specification: a comma between groups of
  three digits, from the right.\<close>

fun group3 :: "string \<Rightarrow> string" where
  "group3 s = (if length s \<le> 3 then s else group3 (take (length s - 3) s) @ CHR '','' # drop (length s - 3) s)"

declare group3.simps [simp del]

text \<open>\<open>format(x, ',.2f')\<close> on a value of \<open>c\<close> cents.\<close>

definition format_money :: "int \<Rightarrow> string" where
  "format_money c =
     (let a = nat \<bar>c\<bar> in
      (if c < 0 then ''-'' else []) @ group3 (string_of_nat (a div 100)) @ ''.'' @ zero_pad 2 (string_of_nat (a mod 100)))"

text \<open>The lines printed by lines 214--215 and by lines 222--224.\<close>

definition verification_lines :: "summary \<Rightarrow> string list" where
  "verification_lines s =
     [''Total statements processed: '' @ py_str_int (int (statements_processed s)),
      ''Total transactions found: '' @ py_str_int (int (transactions_found s))]"

definition financial_lines :: "summary \<Rightarrow> string list" where
  "financial_lines s =
     [''Total Credits: $'' @ format_money (total_credits s),
      ''Total Debits: $'' @ format_money (total_debits s),
      ''Net Change: $'' @ format_money (net_change s)]"

definition summary_lines :: "summary \<Rightarrow> string list" where
  "summary_lines s = verification_lines s @ financial_lines s"

text \<open>Everything lines 212--233 print, in order: three section headings, the summary
  lines, and the monthly table.\<close>

definition summary_console :: "summary \<Rightarrow> console_event list" where
  "summary_console s =
     section_heading ''2. VERIFICATION SUMMARY'' @ map Printed (verification_lines s) @
     section_heading ''3. FINANCIAL SUMMARY'' @ map Printed (financial_lines s) @
     section_heading ''4. MONTHLY SUMMARY'' @ [Monthly_Table (monthly s)]"

subsection \<open>Dialogs, the environment and the run (lines 14--52, 186--249)\<close>

datatype dialog =
    Welcome
  | Missing_Dependencies string
  | Cancelled
  | No_PDFs_Found_Dialog
  | No_Transactions_Dialog
  | Error_Dialog
  | Processing_Complete nat nat string

record environment =
  installed :: "string list"
  display_available :: bool
  selected_folder :: string
  folder_entries :: "dir_entry list"
  pdf_pages :: "string \<Rightarrow> string option list py_result"
  folder_writable :: bool
  clock :: date_time
  folder_readable :: bool
  unreadable_subfolders :: "string list"

record main_outcome =
  dialogs :: "dialog list"
  workbook :: "(txn list \<times> (string \<times> string \<times> string \<times> int \<times> string) list) option"
  printed_summary :: "string list"
  console :: "console_event list"
  written_file :: "(folder \<times> string) option"
  uncaught :: "py_error option"

text \<open>Lines 30--31: \<open>import pandas\<close>, then \<open>import pdfplumber\<close>; the first missing
  module raises \<open>ImportError\<close>.\<close>

definition missing_dependency :: "string list \<Rightarrow> string option" where
  "missing_dependency mods = find (\<lambda>m. m \<notin> set mods) [''pandas'', ''pdfplumber'']"

definition stop_with :: "dialog \<Rightarrow> console_event list \<Rightarrow> main_outcome" where
  "stop_with d log =
     \<lparr>dialogs = [Welcome, d], workbook = None, printed_summary = [], console = log, written_file = None,
      uncaught = None\<rparr>"

text \<open>An exception raised outside the \<open>try\<close> of line 151 (by \<open>os.listdir\<close> in lines 55
  and 63) leaves \<open>main()\<close>: no dialog after the welcome.\<close>

definition raise_from_main :: "py_error \<Rightarrow> console_event list \<Rightarrow> main_outcome" where
  "raise_from_main e log =
     \<lparr>dialogs = [Welcome], workbook = None, printed_summary = [], console = log, written_file = None,
      uncaught = Some e\<rparr>"

text \<open>Lines 197--242, once \<open>df\<close> is sorted: the name and path of the workbook, the
  workbook with its two sheets, the printed summaries, the \<open>Results saved to\<close> line and
  the completion dialog with the counts and the file name.\<close>

definition write_report :: "environment \<Rightarrow> nat \<Rightarrow> stxn list \<Rightarrow> console_event list \<Rightarrow> main_outcome" where
  "write_report env n rows log =
     (let fo = run_folder (folder_entries env);
          name = workbook_name (selected_folder env) fo (clock env) in
      \<lparr>dialogs = [Welcome, Processing_Complete n (length rows) name],
       workbook = Some (transactions_sheet rows, verification_sheet rows),
       printed_summary = summary_lines (summarize to_datetime_mdy n rows),
       console = log @ summary_console (summarize to_datetime_mdy n rows) @
                 [Results_Saved (output_path (selected_folder env) fo (clock env))],
       written_file = Some (fo, name), uncaught = None\<rparr>)"

text \<open>\<open>main()\<close> once Tk is up: the welcome, then one of the exits. \<open>pd.ExcelWriter\<close>
  with the openpyxl engine needs the module \<open>openpyxl\<close> and a writable folder; its
  failure, like that of \<open>pd.to_datetime\<close>, is caught by the outer \<open>except\<close> (lines
  244--249), which prints the traceback. The console holds what was printed up to the
  exit.\<close>

definition main_run :: "environment \<Rightarrow> main_outcome" where
  "main_run env =
     (case missing_dependency (installed env) of
        Some m \<Rightarrow> stop_with (Missing_Dependencies m) []
      | None \<Rightarrow>
          if selected_folder env = [] then stop_with Cancelled []
          else case discover_io (folder_readable env) (unreadable_subfolders env) (folder_entries env) of
            Inl e \<Rightarrow> raise_from_main e [Selected_Folder (selected_folder env)]
          | Inr _ \<Rightarrow>
          case run_batch_logged (pdf_pages env) to_datetime_mdy (selected_folder env) (folder_entries env) of
            (outcome, log) \<Rightarrow>
              (case outcome of
                 No_PDFs_Found \<Rightarrow> stop_with No_PDFs_Found_Dialog log
               | No_Transactions \<Rightarrow> stop_with No_Transactions_Dialog log
               | Run_Failed \<Rightarrow> stop_with Error_Dialog (log @ [Traceback_Printed])
               | Report n rows \<Rightarrow>
                   if ''openpyxl'' \<in> set (installed env) \<and> folder_writable env then write_report env n rows log
                   else stop_with Error_Dialog (log @ [Traceback_Printed])))"

text \<open>Lines 251--256: \<open>tk.Tk()\<close> without a display raises \<open>TclError\<close> before any
  dialog, and the guard prints it (line 255), as it prints any other exception that
  leaves \<open>main()\<close>.\<close>

datatype entry_result = Main_Finished main_outcome | Tk_Failed "console_event list"

definition entry_point :: "environment \<Rightarrow> entry_result" where
  "entry_point env =
     (if display_available env then
        Main_Finished
          (let out = main_run env in
           case uncaught out of
             None \<Rightarrow> out
           | Some e \<Rightarrow> out\<lparr>console := console out @ [Error_Occurred e]\<rparr>)
      else Tk_Failed [Error_Occurred TclError])"

text \<open>The environment of the specification's example: one statement whose only page is the
  marker and the coffee-shop line, all three modules installed, a writable folder.\<close>

abbreviation coffee_row :: stxn where
  "coffee_row \<equiv>
     txn.extend \<lparr>Statement_Date = ''2024-03-01'', Date = ''03/14/2024'', Description = ''COFFEE SHOP PURCHASE'',
                 Amount = 450, Balance = 120000,
                 Original_Line = ''03/14 COFFEE SHOP PURCHASE 4.50 1,200.00'', Source_File = ''a_20240301.pdf''\<rparr>
       (stxn.fields 1)"

abbreviation coffee_env :: environment where
  "coffee_env \<equiv>
     \<lparr>installed = [''pandas'', ''pdfplumber'', ''openpyxl''], display_available = True, selected_folder = ''statements'',
      folder_entries = [\<lparr>entry_name = ''a_20240301.pdf'', entry_listing = None\<rparr>],
      pdf_pages = \<lambda>p. Inr [Some (''TRANSACTION DETAIL'' @ CHR ''\<newline>'' # ''03/14 COFFEE SHOP PURCHASE 4.50 1,200.00'')],
      folder_writable = True,
      clock = \<lparr>dt_year = 2026, dt_month = 11, dt_day = 9, dt_hour = 14, dt_minute = 30, dt_second = 0\<rparr>,
      folder_readable = True, unreadable_subfolders = []\<rparr>"

subsection \<open>Lemmas: the money format\<close>

lemma group3_commas: "filter (\<lambda>c. c \<noteq> CHR '','') (group3 s) = filter (\<lambda>c. c \<noteq> CHR '','') s"
proof (induction s rule: group3.induct)
  case (1 s)
  show ?case
  proof (cases "length s \<le> 3")
    case True
    then show ?thesis by (simp add: group3.simps [of s])
  next
    case False
    then have "filter (\<lambda>c. c \<noteq> CHR '','') (group3 s) =
      filter (\<lambda>c. c \<noteq> CHR '','') (take (length s - 3) s) @ filter (\<lambda>c. c \<noteq> CHR '','') (drop (length s - 3) s)"
      using "1.IH" by (simp add: group3.simps [of s])
    also have "\<dots> = filter (\<lambda>c. c \<noteq> CHR '','') s"
      by (simp flip: filter_append)
    finally show ?thesis .
  qed
qed

lemma group3_num: "list_all is_digit s \<Longrightarrow> list_all is_num_char (group3 s)"
proof (induction s rule: group3.induct)
  case (1 s)
  show ?case
  proof (cases "length s \<le> 3")
    case True
    with "1.prems" show ?thesis by (simp add: group3.simps [of s] list_all_iff is_num_char_def)
  next
    case False
    have "list_all is_digit (take (length s - 3) s)" "list_all is_digit (drop (length s - 3) s)"
      using "1.prems" by (auto simp: list_all_iff dest: in_set_takeD in_set_dropD)
    with False "1.IH" show ?thesis by (auto simp: group3.simps [of s] list_all_iff is_num_char_def)
  qed
qed

lemma group3_ne: "s \<noteq> [] \<Longrightarrow> group3 s \<noteq> []"
  by (induction s rule: group3.induct) (subst group3.simps, simp)

lemma digits_filter:
  "list_all is_digit s \<Longrightarrow> filter (\<lambda>c. c \<noteq> CHR '','') s = s"
  "list_all is_digit s \<Longrightarrow> filter is_digit s = s"
proof -
  have "c \<noteq> CHR '',''" if "is_digit c" for c
    using that by (cases "c = CHR '',''") (simp_all add: is_digit_def)
  then show "list_all is_digit s \<Longrightarrow> filter (\<lambda>c. c \<noteq> CHR '','') s = s"
    "list_all is_digit s \<Longrightarrow> filter is_digit s = s"
    by (auto simp: list_all_iff intro: filter_True)
qed

lemma format_money_parts:
  fixes c :: int
  defines "a \<equiv> nat \<bar>c\<bar>"
  shows "format_money c = (if c < 0 then ''-'' else []) @ group3 (string_of_nat (a div 100)) @
           CHR ''.'' # zero_pad 2 (string_of_nat (a mod 100))"
    and "length (zero_pad 2 (string_of_nat (a mod 100))) = 2"
    and "list_all is_digit (zero_pad 2 (string_of_nat (a mod 100)))"
    and "nat_of_digits (zero_pad 2 (string_of_nat (a mod 100))) = a mod 100"
proof -
  show "format_money c = (if c < 0 then ''-'' else []) @ group3 (string_of_nat (a div 100)) @
           CHR ''.'' # zero_pad 2 (string_of_nat (a mod 100))"
    by (simp add: format_money_def a_def Let_def)
  have "a mod 100 < 10 ^ 2" by simp
  then show "length (zero_pad 2 (string_of_nat (a mod 100))) = 2"
    by (intro length_zero_pad length_string_of_nat) simp_all
  show "list_all is_digit (zero_pad 2 (string_of_nat (a mod 100)))"
    by (simp add: zero_pad_digits string_of_nat_digits)
  show "nat_of_digits (zero_pad 2 (string_of_nat (a mod 100))) = a mod 100"
    by (simp add: zero_pad_def nat_of_digits_zeros)
qed


subsection \<open>Lemmas: the run\<close>

lemma main_run_report:
  assumes "missing_dependency (installed env) = None" "selected_folder env \<noteq> []"
    and "discover_io (folder_readable env) (unreadable_subfolders env) (folder_entries env) = Inr d"
    and "run_batch (pdf_pages env) to_datetime_mdy (folder_entries env) = Report n rows"
  shows "main_run env =
           (if ''openpyxl'' \<in> set (installed env) \<and> folder_writable env
            then write_report env n rows (snd (run_batch_logged (pdf_pages env) to_datetime_mdy (selected_folder env) (folder_entries env)))
            else stop_with Error_Dialog (snd (run_batch_logged (pdf_pages env) to_datetime_mdy (selected_folder env) (folder_entries env)) @ [Traceback_Printed]))"
proof -
  obtain log where "run_batch_logged (pdf_pages env) to_datetime_mdy (selected_folder env) (folder_entries env) =
          (Report n rows, log)"
    using assms(4) run_batch_logged_refines [of "pdf_pages env" to_datetime_mdy "selected_folder env" "folder_entries env"]
    by (metis prod.collapse)
  then show ?thesis using assms(1-3) by (simp add: main_run_def)
qed

lemma main_run_writes:
  assumes "written_file (main_run env) \<noteq> None \<or> workbook (main_run env) \<noteq> None"
  obtains n rows where "missing_dependency (installed env) = None" "selected_folder env \<noteq> []"
    "discover_io (folder_readable env) (unreadable_subfolders env) (folder_entries env) = Inr (discover (folder_entries env))"
    "run_batch (pdf_pages env) to_datetime_mdy (folder_entries env) = Report n rows"
    "''openpyxl'' \<in> set (installed env)" "folder_writable env"
    "main_run env = write_report env n rows (snd (run_batch_logged (pdf_pages env) to_datetime_mdy (selected_folder env) (folder_entries env)))"
proof -
  have d: "missing_dependency (installed env) = None" "selected_folder env \<noteq> []"
    using assms by (auto simp: main_run_def stop_with_def split: option.splits if_splits)
  obtain dd where io: "discover_io (folder_readable env) (unreadable_subfolders env) (folder_entries env) = Inr dd"
    using assms d by (cases "discover_io (folder_readable env) (unreadable_subfolders env) (folder_entries env)")
      (auto simp: main_run_def raise_from_main_def)
  have io': "discover_io (folder_readable env) (unreadable_subfolders env) (folder_entries env) = Inr (discover (folder_entries env))"
    using io discover_io_Inr [OF io] by simp
  obtain n rows where r: "run_batch (pdf_pages env) to_datetime_mdy (folder_entries env) = Report n rows"
    using assms d io run_batch_logged_refines [of "pdf_pages env" to_datetime_mdy "selected_folder env" "folder_entries env"]
    by (cases "run_batch (pdf_pages env) to_datetime_mdy (folder_entries env)")
      (auto simp: main_run_def stop_with_def split: prod.splits)
  have w: "''openpyxl'' \<in> set (installed env)" "folder_writable env"
    using assms main_run_report [OF d io r] by (auto simp: stop_with_def split: if_splits)
  show thesis using d io' r w main_run_report [OF d io r] by (intro that) simp_all
qed

lemma run_folder_discover: "discover es = Some (fo, l) \<Longrightarrow> run_folder es = fo"
  by (simp add: run_folder_def)

lemma summary_console_events:
  "[fn. Processing fn sd \<leftarrow> summary_console s] = []"
  "[k. Found_Transactions k \<leftarrow> summary_console s] = []"
  "[f t. Monthly_Table t \<leftarrow> summary_console s] = [f (monthly s)]"
  by (simp_all add: summary_console_def section_heading_def verification_lines_def financial_lines_def)

lemma main_run_complete_written:
  "dialogs (main_run env) = [Welcome, Processing_Complete n m name] \<Longrightarrow> written_file (main_run env) \<noteq> None"
  by (auto simp: main_run_def stop_with_def raise_from_main_def write_report_def Let_def
      split: option.splits if_splits prod.splits batch_outcome.splits sum.splits)

lemma coffee_env_batch: "run_batch (pdf_pages coffee_env) to_datetime_mdy (folder_entries coffee_env) = Report 1 [coffee_row]"
  using run_one_statement by simp

lemma coffee_env_discover:
  "discover_io (folder_readable coffee_env) (unreadable_subfolders coffee_env) (folder_entries coffee_env) =
     Inr (discover (folder_entries coffee_env))"
  using discover_io_readable by simp

lemma coffee_env_main:
  "main_run coffee_env =
     write_report coffee_env 1 [coffee_row] (snd (run_batch_logged (pdf_pages coffee_env) to_datetime_mdy ''statements'' (folder_entries coffee_env)))"
  using main_run_report [OF _ _ coffee_env_discover coffee_env_batch] by (simp add: missing_dependency_def)

lemma discover_io_unreadable:
  assumes "pdf_names (map entry_name entries) = []"
    and "entries = xs @ e # ys" "entry_listing e \<noteq> None" "entry_name e \<in> set unreadable"
    and "\<forall>x \<in> set xs. \<forall>l. entry_listing x = Some l \<longrightarrow> entry_name x \<notin> set unreadable \<and> pdf_names l = []"
  shows "discover_io readable unreadable entries = Inl OSError"
proof (cases readable)
  case True
  have "find_pdf_subfolder_io unreadable entries = Inl OSError"
    using assms(2-5) by (subst find_pdf_subfolder_io_Inl) blast
  with True assms(1) show ?thesis by (simp add: discover_io_Inl)
next
  case False
  then show ?thesis by (simp add: discover_io_def)
qed

subsection \<open>Claims\<close>

text \<open>C23. The summary's money format round-trips: the text \<open>f"{x:,.2f}"\<close> prints
  for an amount is a monetary token of the program's own pattern, and its value is the
  amount.\<close>

theorem format_money_roundtrip: "money_value (format_money c) = c \<and> money_token (format_money c)"
proof -
  define a where "a = nat \<bar>c\<bar>"
  let ?Q = "string_of_nat (a div 100)" and ?R = "zero_pad 2 (string_of_nat (a mod 100))"
  let ?S = "if c < 0 then ''-'' else []"
  note p = format_money_parts [of c, folded a_def]
  have q: "list_all is_digit ?Q" "?Q \<noteq> []" by (simp_all add: string_of_nat_digits)
  have u: "filter (\<lambda>c. c \<noteq> CHR '','') (format_money c) = ?S @ ?Q @ CHR ''.'' # ?R"
    using p(1,3) q by (simp add: group3_commas digits_filter)
  have hd: "hd (?S @ ?Q @ CHR ''.'' # ?R) = CHR ''-'' \<longleftrightarrow> c < 0"
    using q by (cases ?Q) (auto simp: is_digit_def)
  have fd: "filter is_digit (?S @ ?Q @ CHR ''.'' # ?R) = ?Q @ ?R"
    using q p(3) by (simp add: digits_filter is_digit_def)
  have "nat_of_digits (?Q @ ?R) = a"
    using p(2,4) by (simp add: nat_of_digits_append)
  then have val: "money_value (format_money c) = c"
    using u hd fd by (simp add: money_value_def a_def)
  obtain d1 d2 where r: "?R = [d1, d2]" using p(2)
    by (metis (no_types) length_0_conv length_Suc_conv numeral_2_eq_2)
  have un: "money_unsigned (group3 ?Q @ [CHR ''.'', d1, d2])"
    unfolding money_unsigned_def
    using group3_ne [OF q(2)] group3_num [OF q(1)] p(3) r by auto
  have "money_token (format_money c)"
    using un p(1) r by (auto simp: money_token_def)
  with val show ?thesis by simp
qed

text \<open>C10. Every run that gets past Tk's start ends: either in exactly one outcome, the
  welcome dialog and then one dialog that reports what happened (missing dependency,
  cancellation, no PDFs, no transactions, an error, or completion) with no exception
  leaving \<open>main()\<close>; or, when a listing during discovery raises, with the exception
  leaving \<open>main()\<close> after the welcome dialog alone.\<close>

theorem main_run_outcome:
  "(\<exists>d. dialogs (main_run env) = [Welcome, d] \<and> d \<noteq> Welcome \<and> uncaught (main_run env) = None) \<or>
   (dialogs (main_run env) = [Welcome] \<and> (\<exists>e. uncaught (main_run env) = Some e))"
  by (auto simp: main_run_def stop_with_def raise_from_main_def write_report_def Let_def
      split: option.splits batch_outcome.splits prod.splits sum.splits)

text \<open>C29. The import check does not cover openpyxl, which the workbook writer needs:
  with exactly the two modules the check imports (pandas and pdfplumber) installed,
  every statement is read and parsed, the console shows every \<open>Processing\<close> and result
  line, and only then \<open>pd.ExcelWriter\<close> raises: the traceback is printed, the generic
  error dialog is shown, and neither a workbook nor a summary is produced.\<close>

theorem main_run_missing_openpyxl:
  assumes "set (installed env) = {''pandas'', ''pdfplumber''}"
    and "selected_folder env \<noteq> []"
    and "discover_io (folder_readable env) (unreadable_subfolders env) (folder_entries env) = Inr d"
    and "run_batch (pdf_pages env) to_datetime_mdy (folder_entries env) = Report n rows"
  shows "dialogs (main_run env) = [Welcome, Error_Dialog] \<and> workbook (main_run env) = None \<and>
         printed_summary (main_run env) = [] \<and>
         console (main_run env) =
           snd (run_batch_logged (pdf_pages env) to_datetime_mdy (selected_folder env) (folder_entries env)) @
           [Traceback_Printed]"
proof -
  have "missing_dependency (installed env) = None" "''openpyxl'' \<notin> set (installed env)"
    using assms(1) by (simp_all add: missing_dependency_def)
  with main_run_report [OF _ assms(2-4)] show ?thesis by (simp add: stop_with_def)
qed

theorem main_run_missing_openpyxl_witness:
  "dialogs (main_run (coffee_env\<lparr>installed := [''pandas'', ''pdfplumber'']\<rparr>)) = [Welcome, Error_Dialog]"
proof -
  have "set (installed (coffee_env\<lparr>installed := [''pandas'', ''pdfplumber'']\<rparr>)) = {''pandas'', ''pdfplumber''}"
    by simp
  moreover have "selected_folder (coffee_env\<lparr>installed := [''pandas'', ''pdfplumber'']\<rparr>) \<noteq> []" by simp
  moreover have "discover_io (folder_readable (coffee_env\<lparr>installed := [''pandas'', ''pdfplumber'']\<rparr>))
      (unreadable_subfolders (coffee_env\<lparr>installed := [''pandas'', ''pdfplumber'']\<rparr>))
      (folder_entries (coffee_env\<lparr>installed := [''pandas'', ''pdfplumber'']\<rparr>)) = Inr (discover (folder_entries coffee_env))"
    using coffee_env_discover by simp
  moreover have "run_batch (pdf_pages (coffee_env\<lparr>installed := [''pandas'', ''pdfplumber'']\<rparr>)) to_datetime_mdy
      (folder_entries (coffee_env\<lparr>installed := [''pandas'', ''pdfplumber'']\<rparr>)) = Report 1 [coffee_row]"
    using coffee_env_batch by simp
  ultimately show ?thesis by (rule main_run_missing_openpyxl [THEN conjunct1])
qed

text \<open>C11. When the run completes, the workbook's \<open>Transactions\<close> sheet holds exactly
  the records parsed from the statements that were read without error (each once, in
  the final order) and the completion dialog reports the number of PDF files and of
  rows.\<close>

theorem main_run_workbook:
  assumes "workbook (main_run env) = Some (sheet, vsheet)"
  shows "\<exists>fo listing. discover (folder_entries env) = Some (fo, listing) \<and>
           mset sheet = mset (map txn.truncate (concat (map (statement_records (pdf_pages env) fo) (statement_files listing)))) \<and>
           dialogs (main_run env) = [Welcome, Processing_Complete (length (pdf_names listing)) (length sheet)
                                       (workbook_name (selected_folder env) fo (clock env))]"
proof -
  obtain n rows where r: "run_batch (pdf_pages env) to_datetime_mdy (folder_entries env) = Report n rows"
    and m: "main_run env = write_report env n rows (snd (run_batch_logged (pdf_pages env) to_datetime_mdy (selected_folder env) (folder_entries env)))"
  proof -
    have "written_file (main_run env) \<noteq> None \<or> workbook (main_run env) \<noteq> None" using assms by simp
    then show thesis by (rule main_run_writes) (rule that)
  qed
  from r obtain fo listing where "discover (folder_entries env) = Some (fo, listing)"
    "rows = sort_key (batch_key to_datetime_mdy) (concat (map (statement_records (pdf_pages env) fo) (statement_files listing)))"
    "n = length (statement_files listing)"
    by (auto simp: run_batch_cases Let_def split: option.splits if_splits)
  with m assms show ?thesis by (auto simp: write_report_def transactions_sheet_def run_folder_discover Let_def)
qed

theorem main_run_workbook_witness:
  "\<exists>fo listing. discover [\<lparr>entry_name = ''a_20240301.pdf'', entry_listing = None\<rparr>] = Some (fo, listing)"
proof -
  have "workbook (main_run coffee_env) = Some (transactions_sheet [coffee_row], verification_sheet [coffee_row])"
    using coffee_env_main by (simp add: write_report_def Let_def)
  from main_run_workbook [OF this] show ?thesis by auto
qed

text \<open>C12. Rerunning after a run is idempotent, as the specification asks (section 8): the
  first run leaves its workbook in the folder of the run, and a second run on that folder
  and the same statements, at any later time, writes the same two sheets and prints the
  same summary, into the same folder, under the name of its own timestamp. The workbook
  is never taken for a statement, wherever \<open>os.listdir\<close> lists it.\<close>

theorem main_run_rerun:
  assumes "written_file (main_run env) = Some (fo, name)"
  shows "workbook (main_run (env\<lparr>folder_entries := save_workbook fo name i (folder_entries env), clock := t\<rparr>)) =
           workbook (main_run env) \<and>
         printed_summary (main_run (env\<lparr>folder_entries := save_workbook fo name i (folder_entries env), clock := t\<rparr>)) =
           printed_summary (main_run env) \<and>
         written_file (main_run (env\<lparr>folder_entries := save_workbook fo name i (folder_entries env), clock := t\<rparr>)) =
           Some (fo, workbook_name (selected_folder env) fo t)"
proof -
  let ?env' = "env\<lparr>folder_entries := save_workbook fo name i (folder_entries env), clock := t\<rparr>"
  obtain n rows where d: "missing_dependency (installed env) = None" "selected_folder env \<noteq> []"
    and io: "discover_io (folder_readable env) (unreadable_subfolders env) (folder_entries env) = Inr (discover (folder_entries env))"
    and r: "run_batch (pdf_pages env) to_datetime_mdy (folder_entries env) = Report n rows"
    and w: "''openpyxl'' \<in> set (installed env)" "folder_writable env"
    and m: "main_run env = write_report env n rows (snd (run_batch_logged (pdf_pages env) to_datetime_mdy (selected_folder env) (folder_entries env)))"
  proof -
    have "written_file (main_run env) \<noteq> None \<or> workbook (main_run env) \<noteq> None" using assms by simp
    then show thesis by (rule main_run_writes) (rule that)
  qed
  have "written_file (main_run env) =
          Some (run_folder (folder_entries env), workbook_name (selected_folder env) (run_folder (folder_entries env)) (clock env))"
    using m by (simp add: write_report_def Let_def)
  then have fo: "fo = run_folder (folder_entries env)" and nm: "name = workbook_name (selected_folder env) fo (clock env)"
    using assms by simp_all
  obtain l where disc: "discover (folder_entries env) = Some (fo, l)"
    using r fo by (auto simp: run_batch_cases run_folder_def split: option.splits)
  have np: "\<not> is_pdf_name name" using nm by (simp add: workbook_name_not_pdf)
  have r': "run_batch (pdf_pages ?env') to_datetime_mdy (folder_entries ?env') = Report n rows"
    using run_batch_save [OF disc np, of "pdf_pages env" to_datetime_mdy i] r by simp
  have fo': "run_folder (folder_entries ?env') = fo"
    using discover_save [OF disc np, of i] by (auto simp: run_folder_discover)
  obtain dd where io': "discover_io (folder_readable ?env') (unreadable_subfolders ?env') (folder_entries ?env') = Inr dd"
    using discover_io_save [OF io [unfolded disc] np, of i] by auto
  have "main_run ?env' = write_report ?env' n rows (snd (run_batch_logged (pdf_pages ?env') to_datetime_mdy (selected_folder ?env') (folder_entries ?env')))"
    using main_run_report [of ?env', OF _ _ io' r'] d w by simp
  with m fo' fo show ?thesis by (simp add: write_report_def Let_def)
qed

theorem main_run_rerun_witness:
  "workbook (main_run (coffee_env\<lparr>folder_entries := save_workbook Top (workbook_name ''statements'' Top (clock coffee_env)) 0 (folder_entries coffee_env),
      clock := \<lparr>dt_year = 2026, dt_month = 11, dt_day = 9, dt_hour = 14, dt_minute = 31, dt_second = 5\<rparr>\<rparr>)) =
   Some (transactions_sheet [coffee_row], verification_sheet [coffee_row])"
proof -
  have "written_file (main_run coffee_env) = Some (Top, workbook_name ''statements'' Top (clock coffee_env))"
    using coffee_env_main discover_one by (simp add: write_report_def Let_def run_folder_def)
  from main_run_rerun [OF this, where i = 0 and t = "\<lparr>dt_year = 2026, dt_month = 11, dt_day = 9, dt_hour = 14, dt_minute = 31, dt_second = 5\<rparr>"]
  show ?thesis using coffee_env_main by (simp add: write_report_def Let_def)
qed

text \<open>C14. When the run completes, the console agrees with the completion dialog: one
  \<open>Processing\<close> line per PDF file of the count the dialog reports, \<open>Found\<close> counts
  that add up to the number of rows it reports, exactly one monthly table whose counts
  add up to that number too, and a last line naming the path whose base name is the file
  name it reports.\<close>

theorem main_run_console:
  assumes "dialogs (main_run env) = [Welcome, Processing_Complete n m name]"
  shows "length [fn. Processing fn sd \<leftarrow> console (main_run env)] = n \<and>
         sum_list [k. Found_Transactions k \<leftarrow> console (main_run env)] = m \<and>
         [sum_list (map (\<lambda>(month, count, total). count) t). Monthly_Table t \<leftarrow> console (main_run env)] = [m] \<and>
         (\<exists>path. last (console (main_run env)) = Results_Saved path \<and> py_basename path = name)"
proof -
  obtain n' rows where r: "run_batch (pdf_pages env) to_datetime_mdy (folder_entries env) = Report n' rows"
    and mr: "main_run env = write_report env n' rows (snd (run_batch_logged (pdf_pages env) to_datetime_mdy (selected_folder env) (folder_entries env)))"
  proof -
    have "written_file (main_run env) \<noteq> None \<or> workbook (main_run env) \<noteq> None"
      using main_run_complete_written [OF assms] by simp
    then show thesis by (rule main_run_writes) (rule that)
  qed
  from r obtain fo listing where disc: "discover (folder_entries env) = Some (fo, listing)"
    and rows: "rows = sort_key (batch_key to_datetime_mdy) (concat (map (statement_records (pdf_pages env) fo) (statement_files listing)))"
    and n': "n' = length (statement_files listing)"
    by (auto simp: run_batch_cases Let_def split: option.splits if_splits)
  have dl: "dialogs (main_run env) = [Welcome, Processing_Complete n' (length rows) (workbook_name (selected_folder env) fo (clock env))]"
    using mr disc by (simp add: write_report_def Let_def run_folder_discover)
  have c: "console (main_run env) =
     discovery_log (selected_folder env) (folder_entries env) @ section_heading ''1. PROCESSING STATEMENTS'' @
     concat (map (file_log (pdf_pages env) fo) (statement_files listing)) @
     summary_console (summarize to_datetime_mdy n' rows) @ [Results_Saved (output_path (selected_folder env) fo (clock env))]"
    using mr disc by (simp add: write_report_def Let_def run_folder_discover run_batch_logged_eq)
  have "n = n'" "m = length rows" "name = workbook_name (selected_folder env) fo (clock env)"
    using assms dl by simp_all
  then show ?thesis using c n' rows
    by (simp add: discovery_log_files section_heading_files file_log_files file_log_found no_monthly_table
        summary_console_events summarize_def Let_def monthly_summary_totals output_path_def py_basename_join workbook_name_sep_free)
qed

theorem main_run_console_witness:
  "length [fn. Processing fn sd \<leftarrow> console (main_run coffee_env)] = 1"
proof -
  have "dialogs (main_run coffee_env) = [Welcome, Processing_Complete 1 1 (workbook_name ''statements'' Top (clock coffee_env))]"
    using coffee_env_main discover_one by (simp add: write_report_def Let_def run_folder_def)
  from main_run_console [OF this] show ?thesis by simp
qed

text \<open>C30. An unreadable directory met during discovery makes \<open>main()\<close> raise past its
  own error handler: when the chosen folder has no PDF name and, before any subfolder
  with PDF names, the listing reaches a directory the user may not read (a
  \<open>lost+found\<close> or \<open>System Volume Information\<close> at the root of a drive),
  \<open>os.listdir\<close> raises \<open>PermissionError\<close> outside the \<open>try\<close> of line 151. The user
  sees the welcome dialog and no other, no workbook is written, and the guard of lines
  252--255 prints the error, even when a later subfolder holds the statements.\<close>

theorem main_run_unreadable_subfolder:
  assumes "missing_dependency (installed env) = None" "selected_folder env \<noteq> []"
    and "pdf_names (map entry_name (folder_entries env)) = []"
    and "folder_entries env = xs @ e # ys" "entry_listing e \<noteq> None" "entry_name e \<in> set (unreadable_subfolders env)"
    and "\<forall>x \<in> set xs. \<forall>l. entry_listing x = Some l \<longrightarrow> entry_name x \<notin> set (unreadable_subfolders env) \<and> pdf_names l = []"
  shows "dialogs (main_run env) = [Welcome] \<and> workbook (main_run env) = None \<and> uncaught (main_run env) = Some OSError \<and>
         (display_available env \<longrightarrow>
            entry_point env = Main_Finished ((main_run env)\<lparr>console := [Selected_Folder (selected_folder env), Error_Occurred OSError]\<rparr>))"
proof -
  have "discover_io (folder_readable env) (unreadable_subfolders env) (folder_entries env) = Inl OSError"
    using assms(3-7) by (rule discover_io_unreadable)
  then have "main_run env = raise_from_main OSError [Selected_Folder (selected_folder env)]"
    using assms(1,2) by (simp add: main_run_def)
  then show ?thesis by (simp add: raise_from_main_def entry_point_def)
qed

theorem main_run_unreadable_subfolder_witness:
  "dialogs (main_run (coffee_env\<lparr>folder_entries := [\<lparr>entry_name = ''lost+found'', entry_listing = Some []\<rparr>,
                                                   \<lparr>entry_name = ''2024'', entry_listing = Some [''a_20240301.pdf'']\<rparr>],
                                 unreadable_subfolders := [''lost+found'']\<rparr>)) = [Welcome]"
proof -
  have "pdf_names (map entry_name (folder_entries (coffee_env\<lparr>folder_entries := [\<lparr>entry_name = ''lost+found'', entry_listing = Some []\<rparr>,
                                                   \<lparr>entry_name = ''2024'', entry_listing = Some [''a_20240301.pdf'']\<rparr>],
                                 unreadable_subfolders := [''lost+found'']\<rparr>))) = []"
    by (simp add: pdf_names_def is_pdf_name_def py_lower_def py_lower_char_def py_endswith_drop)
  from main_run_unreadable_subfolder [OF _ _ this, of "[]" "\<lparr>entry_name = ''lost+found'', entry_listing = Some []\<rparr>"
      "[\<lparr>entry_name = ''2024'', entry_listing = Some [''a_20240301.pdf'']\<rparr>]"]
  show ?thesis by (simp add: missing_dependency_def)
qed

end
