(* ===== verification/Scan_Machine.thy ===== *)
theory Scan_Machine
  imports Line_Parser
begin

text \<open>
  The loop of \<open>extract_chase_transactions\<close> (src/pdf-2-excel.py, lines 113--147) seen
  as the two-state machine of the specification (section 9): a state is a
  \<open>scan_state\<close> (before or in the section, and the records so far), a transition is one
  call of the loop body \<open>scan_line\<close> that does not raise. \<open>scan_reach\<close> is the set of
  states reachable from \<open>scan_init\<close>; its invariants are proved by rule induction and
  hold for every state the loop passes through, whatever the lines.
\<close>

subsection \<open>Reachable states\<close>

inductive scan_reach :: "string \<Rightarrow> string \<Rightarrow> scan_state \<Rightarrow> bool" for fn sd where
  init: "scan_reach fn sd scan_init"
| step: "scan_reach fn sd st \<Longrightarrow> scan_line fn sd st l = Inr st' \<Longrightarrow> scan_reach fn sd st'"

subsection \<open>Lemmas: one transition\<close>

text \<open>A transition sets the flag on a marker line, keeps the state, or, inside the
  section, appends the record the line parser returned.\<close>

lemma scan_line_Inr_cases:
  assumes "scan_line fn sd st l = Inr st'"
  obtains (marker) "is_marker l" "st' = st\<lparr>in_transaction_section := True\<rparr>"
    | (same) "st' = st"
    | (append) t where "\<not> is_marker l" "in_transaction_section st" "parse_line fn sd l = Inr (Some t)"
        "st' = st\<lparr>transactions := transactions st @ [t]\<rparr>"
proof -
  consider (m) "is_marker l"
    | (o) "\<not> is_marker l" "\<not> in_transaction_section st"
    | (b) "\<not> is_marker l" "in_transaction_section st" "is_balance_line l"
    | (p) "\<not> is_marker l" "in_transaction_section st" "\<not> is_balance_line l"
    by blast
  then show thesis
  proof cases
    case m
    have "st' = st\<lparr>in_transaction_section := True\<rparr>" using assms m by (simp add: scan_line_marker)
    with m show thesis by (rule that(1))
  next
    case o
    have "st' = st" using assms o by (simp add: scan_line_outside)
    then show thesis by (rule that(2))
  next
    case b
    have "st' = st" using assms b by (simp add: scan_line_balance)
    then show thesis by (rule that(2))
  next
    case p
    show thesis
    proof (cases "parse_line fn sd l")
      case (Inl e)
      with p assms show thesis by (simp add: scan_line_parse)
    next
      case (Inr r)
      show thesis
      proof (cases r)
        case None
        have "st' = st" using assms p Inr None by (simp add: scan_line_parse)
        then show thesis by (rule that(2))
      next
        case (Some t)
        have "st' = st\<lparr>transactions := transactions st @ [t]\<rparr>"
          using assms p Inr Some by (simp add: scan_line_parse)
        with p Inr Some show thesis by (intro that(3)) simp_all
      qed
    qed
  qed
qed

lemma scan_line_flag: "scan_line fn sd st l = Inr st' \<Longrightarrow> \<not> is_marker l \<Longrightarrow>
  in_transaction_section st' = in_transaction_section st"
  by (erule scan_line_Inr_cases) simp_all

lemma scan_lines_reach:
  "scan_reach fn sd st \<Longrightarrow> scan_lines fn sd st ls = Inr st' \<Longrightarrow> scan_reach fn sd st'"
proof (induction ls arbitrary: st)
  case Nil
  then show ?case by simp
next
  case (Cons l ls)
  then obtain st1 where "scan_line fn sd st l = Inr st1" "scan_lines fn sd st1 ls = Inr st'"
    by (cases "scan_line fn sd st l") simp_all
  with Cons show ?case by (blast intro: scan_reach.step)
qed

lemma scan_lines_flag:
  "\<forall>l \<in> set ls. \<not> is_marker l \<Longrightarrow> scan_lines fn sd st ls = Inr st' \<Longrightarrow>
   in_transaction_section st' = in_transaction_section st"
proof (induction ls arbitrary: st)
  case Nil
  then show ?case by simp
next
  case (Cons l ls)
  then obtain st1 where "scan_line fn sd st l = Inr st1" "scan_lines fn sd st1 ls = Inr st'"
    by (cases "scan_line fn sd st l") simp_all
  with Cons show ?case using scan_line_flag by fastforce
qed

lemma scan_reach_inv:
  "scan_reach fn sd st \<Longrightarrow>
   (\<not> in_transaction_section st \<longrightarrow> transactions st = []) \<and>
   (\<forall>t \<in> set (transactions st). Source_File t = fn \<and> Statement_Date t = sd)"
proof (induction rule: scan_reach.induct)
  case init
  then show ?case by (simp add: scan_init_def)
next
  case (step st l st')
  from step.hyps(2) show ?case
  proof (cases rule: scan_line_Inr_cases)
    case marker
    with step.IH show ?thesis by simp
  next
    case same
    with step.IH show ?thesis by simp
  next
    case (append t)
    with step.IH parse_line_Some [OF append(3)] show ?thesis by auto
  qed
qed

lemma extract_reach:
  "extract_chase_transactions text fn sd = Inr ts \<Longrightarrow> \<exists>st. scan_reach fn sd st \<and> transactions st = ts"
  by (cases "scan_lines fn sd scan_init (py_split CHR ''\<newline>'' text)")
    (auto simp: extract_chase_transactions_def intro: scan_lines_reach scan_reach.init)

subsection \<open>Lemmas: the specification's example as transitions\<close>

lemma coffee_steps:
  "scan_line ''a_20240301.pdf'' ''2024-03-01'' scan_init ''TRANSACTION DETAIL'' =
     Inr \<lparr>in_transaction_section = True, transactions = []\<rparr>"
  "scan_line ''a_20240301.pdf'' ''2024-03-01'' \<lparr>in_transaction_section = True, transactions = []\<rparr> ''03/14 COFFEE SHOP PURCHASE 4.50 1,200.00'' =
     Inr \<lparr>in_transaction_section = True, transactions = [\<lparr>Statement_Date = ''2024-03-01'', Date = ''03/14/2024'', Description = ''COFFEE SHOP PURCHASE'',
                Amount = 450, Balance = 120000,
                Original_Line = ''03/14 COFFEE SHOP PURCHASE 4.50 1,200.00'', Source_File = ''a_20240301.pdf''\<rparr>]\<rparr>"
proof -
  show "scan_line ''a_20240301.pdf'' ''2024-03-01'' scan_init ''TRANSACTION DETAIL'' =
     Inr \<lparr>in_transaction_section = True, transactions = []\<rparr>"
    by (simp add: scan_line_marker is_marker_def sublist_code scan_init_def)
  have "\<not> is_marker ''03/14 COFFEE SHOP PURCHASE 4.50 1,200.00''" "\<not> is_balance_line ''03/14 COFFEE SHOP PURCHASE 4.50 1,200.00''"
    by (simp_all add: is_marker_def is_balance_line_def sublist_code)
  then show "scan_line ''a_20240301.pdf'' ''2024-03-01'' \<lparr>in_transaction_section = True, transactions = []\<rparr> ''03/14 COFFEE SHOP PURCHASE 4.50 1,200.00'' =
     Inr \<lparr>in_transaction_section = True, transactions = [\<lparr>Statement_Date = ''2024-03-01'', Date = ''03/14/2024'', Description = ''COFFEE SHOP PURCHASE'',
                Amount = 450, Balance = 120000,
                Original_Line = ''03/14 COFFEE SHOP PURCHASE 4.50 1,200.00'', Source_File = ''a_20240301.pdf''\<rparr>]\<rparr>"
    by (simp add: scan_line_parse coffee_parse)
qed

subsection \<open>Lemmas: one pass and a text without the section\<close>

text \<open>One pass of the loop body never leaves the section once in it, never
  removes or changes a record, and adds at most one record.\<close>

lemma scan_step_monotone:
  assumes "scan_line fn sd st l = Inr st'"
  shows "(in_transaction_section st \<longrightarrow> in_transaction_section st') \<and>
         (\<exists>ts. transactions st' = transactions st @ ts \<and> length ts \<le> 1)"
  using assms by (cases rule: scan_line_Inr_cases) auto

lemma scan_step_monotone_example:
  "\<exists>ts. [\<lparr>Statement_Date = ''2024-03-01'', Date = ''03/14/2024'', Description = ''COFFEE SHOP PURCHASE'',
                Amount = 450, Balance = 120000,
                Original_Line = ''03/14 COFFEE SHOP PURCHASE 4.50 1,200.00'', Source_File = ''a_20240301.pdf''\<rparr>] = [] @ ts \<and> length ts \<le> 1"
  using scan_step_monotone [OF coffee_steps(2)] by simp

text \<open>A statement whose text has no \<open>TRANSACTION DETAIL\<close> line yields no record
  and raises nothing, even when it has dated lines with amounts: the program reports it
  as a statement with zero transactions.\<close>

lemma extract_no_marker:
  assumes "\<forall>l \<in> set (py_split CHR ''\<newline>'' text). \<not> is_marker l"
  shows "extract_chase_transactions text fn sd = Inr []"
proof -
  have "scan_lines fn sd scan_init (py_split CHR ''\<newline>'' text) = Inr scan_init"
    using assms by (rule scan_lines_before) (simp add: scan_init_def)
  then show ?thesis by (simp add: extract_chase_transactions_def scan_init_def)
qed

lemma extract_no_marker_example:
  "extract_chase_transactions (''ACCOUNT SUMMARY'' @ CHR ''\<newline>'' # ''03/14 COFFEE SHOP PURCHASE 4.50 1,200.00'') ''a_20240301.pdf'' ''2024-03-01'' = Inr []"
proof -
  have "py_split CHR ''\<newline>'' (''ACCOUNT SUMMARY'' @ CHR ''\<newline>'' # ''03/14 COFFEE SHOP PURCHASE 4.50 1,200.00'') = [''ACCOUNT SUMMARY'', ''03/14 COFFEE SHOP PURCHASE 4.50 1,200.00'']"
    by (simp add: py_split_append_sep py_split_no_sep_id)
  then have "\<forall>l \<in> set (py_split CHR ''\<newline>'' (''ACCOUNT SUMMARY'' @ CHR ''\<newline>'' # ''03/14 COFFEE SHOP PURCHASE 4.50 1,200.00'')). \<not> is_marker l"
    by (simp add: is_marker_def sublist_code)
  from extract_no_marker [OF this] show ?thesis .
qed

end
