(* ===== verification/Spec2Isabelle.thy ===== *)
theory Spec2Isabelle
  imports Main_Flow Scan_Machine
begin

text \<open>
  \<^bold>\<open>A verification library for the Chase statement converter\<close>
  (src/pdf-2-excel.py, one Python script).

  \<^emph>\<open>The program.\<close> \<open>main()\<close> asks for a folder, finds the PDF statements in it (or
  in the first immediate subfolder that has some), resolves each file's statement date
  from an eight-digit run in its name (\<open>extract_statement_date\<close>), sorts the files by
  that date, extracts each file's text page by page (pdfplumber), parses the text into
  transaction records (\<open>extract_chase_transactions\<close>, which calls
  \<open>determine_transaction_year\<close> for every record), numbers the records of each
  statement, sorts all records by transaction date and sequence number (pandas), writes
  them to a workbook and prints a financial and a monthly summary. A file whose
  extraction or parsing raises is skipped; an empty result ends the run.

  \<^emph>\<open>Theories.\<close>
  \<^item> \<open>Prelude\<close>: the exceptions the program can raise (\<open>py_error\<close>, results
    \<open>py_error + 'a\<close> sequenced by \<open>py_bind\<close>), decimal digits, the numeric value of a
    digit string and the decimal text of a number; lexicographic string order on
    equal-length digit strings is numeric order (\<open>digits_less_iff_nat\<close>).
  \<^item> \<open>Py_Builtins\<close>: the Python builtins the script calls, on Latin-1 text:
    \<open>strip\<close>, \<open>in\<close>, \<open>find\<close>, \<open>rfind\<close>, slicing, \<open>split\<close>, \<open>join\<close>, \<open>lower\<close>,
    \<open>endswith\<close>, \<open>int()\<close> and \<open>str()\<close>, with their characterisations and round trips.
  \<^item> \<open>Statement_Date\<close>: \<open>extract_statement_date\<close> (lines 82--88) with
    \<open>search_date_run\<close> for the \<open>re.search\<close>; the search is the leftmost eight-digit
    window, the result is the filename exactly when it has none, and resolved dates sort
    chronologically.
  \<^item> \<open>Transaction_Year\<close>: \<open>determine_transaction_year\<close> (lines 90--106); it computes
    the specification's rollover rule (\<open>rollover_year\<close>) on well-formed dates, places
    the transaction in the statement's month or the month before, moves the year by at
    most one, and raises \<open>ValueError\<close> on a fallback (undated) statement date.
  \<^item> \<open>Money\<close>: the amount pattern \<open>-?[\d,]+\.\d{2}\<close> of line 125 as a matcher at
    one position (\<open>money_match\<close>, the sign tried first as the regex engine does) and
    \<open>find_amounts\<close> for \<open>re.findall\<close> (a \<open>function\<close> with a termination proof by the
    length of the rest, and its domain shown to be every string); the matcher is proved
    equal to the regular language (\<open>money_token\<close>), and a line of \<open>n\<close> characters has
    at most \<open>n div 4\<close> tokens (\<open>find_amounts_count_bound\<close>); \<open>float(s.replace(',', ''))\<close> is \<open>money_value\<close>, the
    exact value in cents.
  \<^item> \<open>Line_Parser\<close>: \<open>extract_chase_transactions\<close> (lines 108--148). The dict is the
    record \<open>txn\<close>; the loop state (the section flag and the list) is the record
    \<open>scan_state\<close>, the loop body \<open>scan_line\<close> with its \<open>continue\<close>s as early returns,
    the loop \<open>scan_lines\<close>, lines 122--147 \<open>parse_line\<close>. The loop refines the
    specification's view (\<open>collect\<close> of the per-line parser over \<open>section_lines\<close>);
    lemmas show lines before the marker, \<open>Beginning Balance\<close> lines and lines with
    fewer than two amounts produce nothing, well-formed lines the expected record, and
    every record comes from one line of the section; the description heuristic fails
    when the balance's text ends with the amount's text; every record's \<open>Date\<close> has the
    shape \<open>MM/DD/\<close> and an integer's text.
  \<^item> \<open>Scan_Machine\<close>: the same loop as the specification's two-state machine: the
    inductive set \<open>scan_reach\<close> of the states reachable by passes of the loop body that
    do not raise; by rule induction, no state before the section holds a record and
    every record carries its statement's file and date; one pass adds at most one record
    and never leaves the section; a text without the marker yields no record.
  \<^item> \<open>Discovery\<close>: lines 54--79 over a listing of \<open>dir_entry\<close> values: \<open>discover\<close>
    when every \<open>os.listdir\<close> succeeds, and \<open>discover_io\<close>, the code as written, in
    which listing the chosen folder or a subfolder can raise \<open>OSError\<close> outside any
    \<open>try\<close>. \<open>discover_io\<close> refines \<open>discover\<close> (whenever it returns it returns
    \<open>discover\<close>'s result); it raises exactly when an unreadable directory comes before
    the first subfolder with PDFs; the first-subfolder rule and the no-PDF outcome.
  \<^item> \<open>Batch\<close>: the body of \<open>main()\<close> after discovery (lines 151--195): the statement
    files sorted by date (\<open>statement_files\<close>), page concatenation
    (\<open>append_pages\<close>), the per-file \<open>try\<close>/\<open>except\<close> (\<open>process_file\<close>,
    \<open>process_statements\<close>), sequence numbers (\<open>number_transactions\<close> on the record
    extension \<open>stxn\<close>), \<open>pd.to_datetime\<close> and the two-key stable sort
    (\<open>sort_date_column\<close>, \<open>sort_values\<close>) and the outcome (\<open>run_batch\<close>). pdfplumber
    is a parameter (a path to the pages' texts or an exception), \<open>pd.to_datetime\<close> a
    parameter into any linear order, with the model \<open>to_datetime_mdy\<close> of its
    \<open>%m/%d/%Y\<close> parse for concrete runs. The run is shown to be the stable sort of
    the concatenated per-file results; the lemmas cover failure isolation, numbering,
    the empty-result outcome, independence of the listing order for distinct statement
    dates and its failure for equal ones, and the whole run failing on one impossible
    date; two computed runs show the non-strict final order and the report not being
    grouped by statement date (against sections 8 and 5 of the specification); the \<open>Date\<close> text converts back to the
    parsed date (\<open>to_datetime_record_date\<close>).
  \<^item> \<open>Summary\<close>: lines 212--233, the record \<open>summary\<close> built by \<open>summarize\<close>: credits,
    debits and net change, and the monthly count and sum grouped by the \<open>YYYY-MM\<close> text;
    the net change is the sum of the amounts, the monthly totals account for every row,
    months are listed once in chronological order, and the summary does not depend on
    the sort.
  \<^item> \<open>Output_File\<close>: lines 43--70 and 197--203: the folder of the run
    (\<open>run_folder\<close>, \<open>chase_pdf_folder\<close>), the \<open>datetime.now()\<close> stamp
    (\<open>date_time\<close>, \<open>strftime_stamp\<close>), the file name and path (\<open>excel_filename\<close>,
    \<open>workbook_name\<close>, \<open>output_path\<close>, with \<open>os.path.basename\<close> and
    \<open>os.path.join\<close> as \<open>py_basename\<close>, \<open>py_path_join\<close>) and the folder after the
    write (\<open>save_workbook\<close>, the new name at any position of the listing). The path's
    base name is the file name; the name determines the second the run started; the
    written name is never a PDF name, so discovery and the batch on the folder after
    the write are those before it.
  \<^item> \<open>Console_Log\<close>: the console as a list of \<open>console_event\<close> values, one per
    \<open>print\<close> (lines 52, 68--69, 163--184; the two prints after a switch to a subfolder
    are \<open>Found_In_Subfolder\<close> and \<open>Using_Folder\<close>; section headings are \<open>section_heading\<close>,
    \<open>print(monthly)\<close> is \<open>Monthly_Table\<close> with the table's data): the loop over the files with its prints
    (\<open>process_statements_logged\<close>) and the orchestrator with its prints
    (\<open>run_batch_logged\<close>), which refines \<open>run_batch\<close>; the log has one
    \<open>Processing\<close> line and one result line per file, in processing order.
  \<^item> \<open>Main_Flow\<close>: \<open>main()\<close> around the orchestrator (lines 14--52, 186--256): the
    world it reads is the record \<open>environment\<close> (importable modules, display, the
    chosen folder, its listing, pdfplumber, writability, the clock), what it shows is
    the record \<open>main_outcome\<close> (dialogs in order, the two sheets, the printed summary
    lines with \<open>format_money\<close> for \<open>,.2f\<close>, the whole console with the summary
    sections of lines 212--233 (\<open>summary_console\<close>), the file written and its folder,
    and the exception that left \<open>main()\<close>, if any); \<open>main_run\<close> runs
    \<open>discover_io\<close>, then \<open>run_batch_logged\<close> and, on a report, \<open>write_report\<close>
    (lines 197--242); \<open>entry_point\<close> is the \<open>__main__\<close> guard, which prints an
    exception that left \<open>main()\<close>, and the \<open>TclError\<close> of \<open>tk.Tk()\<close> without a
    display (\<open>Tk_Failed\<close>). Every run ends in exactly one outcome dialog unless a
    listing during discovery raises, in which case only the welcome is shown (an
    unreadable subfolder before the statements' subfolder is enough); a completed run's sheet holds exactly the parsed records;
    a rerun on the folder with the first run's workbook in it produces the same sheets
    and summary (the idempotence of section 8); the console agrees with the completion
    dialog; the money format round-trips through the program's own amount pattern; with
    only the two modules the import check covers installed, the check passes and the
    whole run is lost at the writer (openpyxl).

  This theory imports the others and holds this overview; each property is stated in
  the theory of the component it is about.

  \<^emph>\<open>Bounds and fuel.\<close> No loop of the program can run forever: every loop is over a
  finite list and is modelled by structural recursion, except \<open>find_amounts\<close>, whose
  recursion is on a strictly shorter suffix (termination proved). No fuel is used.
  Amounts are exact integers of cents, where the program keeps the floats that round
  them (a finding records the difference); dates of the concrete runs are bounded by
  pandas' timestamp range, which \<open>to_datetime_mdy\<close> models; the clock's fields are
  bounded as a \<open>datetime\<close>'s are (\<open>valid_date_time\<close>), which is what makes the
  zero-padded stamp determine them.

  \<^emph>\<open>Not modelled.\<close> The constant text of the dialogs (a dialog is its kind, its
  counts and the file name), the Tk root window, the text layout pandas gives the
  printed monthly table (the event carries the table's data) and openpyxl's xlsx
  encoding (library rendering; the sheets' columns, the writer's failure condition, the
  file's name and place and every print are modelled); the text of an exception beyond
  its kind; which \<open>OSError\<close> a listing raises (one constructor stands for
  \<open>PermissionError\<close> and its siblings);
  pdfplumber's text extraction, a parameter of the orchestrator;
  Python's \<open>\d\<close> and \<open>str.isspace\<close> beyond Latin-1 (the model's characters are code
  points below 256); the file system beyond one listing of the chosen folder and of its
  immediate subfolders (the folder is assumed not to change while the run lists it twice).
\<close>


end
